theory Spec2Isabelle
  imports Complex_Main "HOL-Library.Word"
begin

unbundle bit_operations_syntax

chapter \<open>The request-signing core of xapi: transaction IDs, XPFF headers, cache and retry\<close>

text \<open>
  A shallow embedding of the Go sources \<^verbatim>\<open>transaction.go\<close>, \<^verbatim>\<open>xpff_generator.go\<close>,
  \<^verbatim>\<open>client.go\<close> and \<^verbatim>\<open>config.go\<close>.

  Conventions.
  \<^item> A Go \<^verbatim>\<open>byte\<close> is an \<open>8 word\<close>; a Go \<^verbatim>\<open>int\<close>/\<^verbatim>\<open>int64\<close> is an \<open>int\<close>, with the
    64-bit wrap-around (\<open>wrap64\<close>) written out where the code does arithmetic that can
    overflow; \<^verbatim>\<open>/\<close> and \<^verbatim>\<open>%\<close> on Go integers truncate towards zero (\<open>quo\<close>, \<open>rem\<close>).
  \<^item> A Go \<^verbatim>\<open>string\<close> is a \<open>string\<close> (a list of bytes).
  \<^item> A Go \<^verbatim>\<open>float64\<close> is idealised as a \<open>real\<close>: NaN and infinities are not modelled,
    and the rounding of an arithmetic operation is modelled only where the digits of the
    result are printed, in \<open>floatToHex\<close> and at the division by 100 that feeds it
    (\<open>float64\<close> rounds a real to the nearest binary64 value). The statements proved about
    the other numeric routines concern which operations are applied and in which order;
    the concrete evaluations use values on which every float64 operation involved is
    exact.
  \<^item> A \<^verbatim>\<open>time.Time\<close> is an \<open>int\<close> (nanoseconds since the Unix epoch), a
    \<^verbatim>\<open>time.Duration\<close> an \<open>int\<close> (nanoseconds). Every reading of \<^verbatim>\<open>time.Now()\<close> is an
    argument of the function that takes it.
  \<^item> A Go \<^verbatim>\<open>error\<close> is a value of type \<open>error\<close>; a function returning
    \<^verbatim>\<open>(T, error)\<close> returns \<open>error + T\<close>, a method returning \<^verbatim>\<open>error\<close> and mutating its
    receiver returns \<open>error option\<close> together with the new receiver.
  \<^item> The mutexes are not modelled: the operations are modelled as they run one at a time.
  \<^item> Functions of the Go standard library and of \<^verbatim>\<open>golang.org/x/net/html\<close> whose code is
    not part of the repository (SHA-256, AES-GCM, the regexp engine, the HTML parser, the
    JSON string encoder, the HTTP client, the random source) are parameters.
    \<^verbatim>\<open>encoding/base64\<close>, \<^verbatim>\<open>encoding/hex\<close>, \<^verbatim>\<open>strconv.Atoi\<close> and the \<^verbatim>\<open>%d\<close>/\<^verbatim>\<open>%x\<close> verbs
    are written out.
\<close>

section \<open>Integers, errors and strings\<close>

type_synonym byte = "8 word"

definition wrap64 :: "int \<Rightarrow> int" where
  "wrap64 x = (x + 2 ^ 63) mod 2 ^ 64 - 2 ^ 63"

text \<open>Go's integer division and remainder truncate towards zero.\<close>

definition quo :: "int \<Rightarrow> int \<Rightarrow> int" where
  "quo a b = sgn a * sgn b * (\<bar>a\<bar> div \<bar>b\<bar>)"

definition rem :: "int \<Rightarrow> int \<Rightarrow> int" where
  "rem a b = a - b * quo a b"

text \<open>
  \<^verbatim>\<open>errors.New(msg)\<close> is \<open>New msg\<close>; \<^verbatim>\<open>fmt.Errorf("msg: %w", err)\<close> is \<open>Errorf msg err\<close>,
  the wrapped error being what \<^verbatim>\<open>errors.Unwrap\<close> returns.
\<close>

datatype error = New string | Errorf string error

fun Error :: "error \<Rightarrow> string" where
  "Error (New msg) = msg"
| "Error (Errorf msg err) = msg @ '': '' @ Error err"

fun Unwrap :: "error \<Rightarrow> error option" where
  "Unwrap (New msg) = None"
| "Unwrap (Errorf msg err) = Some err"

definition digit_char :: "nat \<Rightarrow> char" where
  "digit_char d = ''0123456789'' ! d"

function natToString :: "nat \<Rightarrow> string" where
  "natToString n = (if n < 10 then [digit_char n] else natToString (n div 10) @ [digit_char (n mod 10)])"
  by pat_completeness auto
termination
  by (relation "measure id") auto

declare natToString.simps [simp del]

text \<open>The \<^verbatim>\<open>%d\<close> verb and \<^verbatim>\<open>strconv.Itoa\<close>.\<close>

definition Itoa :: "int \<Rightarrow> string" where
  "Itoa i = (if i < 0 then CHR ''-'' # natToString (nat (- i)) else natToString (nat i))"

definition isDigit :: "char \<Rightarrow> bool" where
  "isDigit c = (48 \<le> (of_char c :: nat) \<and> (of_char c :: nat) \<le> 57)"

definition digitsValue :: "string \<Rightarrow> nat" where
  "digitsValue s = foldl (\<lambda>acc c. acc * 10 + ((of_char c :: nat) - 48)) 0 s"

text \<open>
  \<^verbatim>\<open>strconv.Atoi\<close>: an optional sign, then one or more decimal digits, the value in the
  range of a 64-bit \<^verbatim>\<open>int\<close>.
\<close>

definition Atoi :: "string \<Rightarrow> error + int" where
  "Atoi s =
     (let neg = (s \<noteq> [] \<and> hd s = CHR ''-'');
          body = (if s \<noteq> [] \<and> (hd s = CHR ''+'' \<or> hd s = CHR ''-'') then tl s else s)
      in if body = [] \<or> \<not> list_all isDigit body
         then Inl (New (''strconv.Atoi: parsing '' @ s @ '': invalid syntax''))
         else (let v = (if neg then - int (digitsValue body) else int (digitsValue body))
               in if v < - (2 ^ 63) \<or> 2 ^ 63 \<le> v
                  then Inl (New (''strconv.Atoi: parsing '' @ s @ '': value out of range''))
                  else Inr v))"

section \<open>\<^verbatim>\<open>encoding/base64\<close>, standard alphabet with padding\<close>

definition encodeStd :: string where
  "encodeStd = ''ABCDEFGHIJKLMNOPQRSTUVWXYZabcdefghijklmnopqrstuvwxyz0123456789+/''"

definition enc_char :: "nat \<Rightarrow> char" where
  "enc_char v = encodeStd ! (v mod 64)"

definition dec_char :: "char \<Rightarrow> nat option" where
  "dec_char c = map_of (zip encodeStd [0..<64]) c"

text \<open>
  \<^verbatim>\<open>base64.StdEncoding.EncodeToString\<close>: three bytes become the 24-bit value \<open>val\<close> and
  four characters; a tail of one or two bytes is padded with \<^verbatim>\<open>=\<close>.
\<close>

fun EncodeToString :: "byte list \<Rightarrow> string" where
  "EncodeToString (a # b # c # rest) =
     (let val = unat a * 65536 + unat b * 256 + unat c
      in [enc_char (val div 262144), enc_char (val div 4096), enc_char (val div 64), enc_char val]
         @ EncodeToString rest)"
| "EncodeToString [a, b] =
     (let val = unat a * 65536 + unat b * 256
      in [enc_char (val div 262144), enc_char (val div 4096), enc_char (val div 64), CHR ''=''])"
| "EncodeToString [a] =
     (let val = unat a * 65536
      in [enc_char (val div 262144), enc_char (val div 4096), CHR ''='', CHR ''=''])"
| "EncodeToString [] = []"

text \<open>
  \<^verbatim>\<open>base64.StdEncoding.DecodeString\<close>: carriage returns and line feeds are skipped; the
  rest is read four characters at a time; padding is accepted in the last group only;
  \<open>None\<close> is the \<^verbatim>\<open>CorruptInputError\<close>.
\<close>

fun decode_quanta :: "string \<Rightarrow> byte list option" where
  "decode_quanta [] = Some []"
| "decode_quanta (c1 # c2 # c3 # c4 # rest) =
     (case dec_char c1 of None \<Rightarrow> None | Some v1 \<Rightarrow>
      case dec_char c2 of None \<Rightarrow> None | Some v2 \<Rightarrow>
        if c3 = CHR ''='' then
          (if c4 = CHR ''='' \<and> rest = []
           then Some [of_nat ((v1 * 262144 + v2 * 4096) div 65536)] else None)
        else
          case dec_char c3 of None \<Rightarrow> None | Some v3 \<Rightarrow>
            if c4 = CHR ''='' then
              (if rest = []
               then (let val = v1 * 262144 + v2 * 4096 + v3 * 64
                     in Some [of_nat (val div 65536), of_nat (val div 256)])
               else None)
            else
              case dec_char c4 of None \<Rightarrow> None | Some v4 \<Rightarrow>
                (let val = v1 * 262144 + v2 * 4096 + v3 * 64 + v4
                 in map_option (\<lambda>bs. [of_nat (val div 65536), of_nat (val div 256), of_nat val] @ bs)
                      (decode_quanta rest)))"
| "decode_quanta _ = None"

definition DecodeString :: "string \<Rightarrow> byte list option" where
  "DecodeString s = decode_quanta (filter (\<lambda>c. c \<noteq> CHR 0x0D \<and> c \<noteq> CHR 0x0A) s)"

text \<open>
  What a reader of a transaction ID does before decoding it: append \<^verbatim>\<open>=\<close> until the
  length is a multiple of four.
\<close>

definition add_padding :: "string \<Rightarrow> string" where
  "add_padding s = s @ replicate ((4 - length s mod 4) mod 4) (CHR ''='')"

section \<open>The transaction generator: configuration, cache entries and state\<close>

record ProductionConfig =
  HTMLDataCacheLifetime :: int
  TransactionIDLifetime :: int
  AnimationKeyLifetime :: int
  EnableAutoRetry :: bool
  MaxRetryAttempts :: int
  RetryBackoffBase :: int
  RetryBackoffMultiplier :: real
  ErrorThresholdForRefresh :: int
  RequestTimeout :: int
  RateLimitRequests :: real
  EnableDebugLogging :: bool
  EnableMetrics :: bool

text \<open>
  The field \<^verbatim>\<open>Data interface{}\<close> of a cache entry holds either the map with the two
  pages or a string.
\<close>

datatype cache_data = Pages string string | Str string

record CacheEntry =
  Data :: cache_data
  ExpiresAt :: int
  CreatedAt :: int

record GeneratorMetrics =
  TotalGenerations :: int
  CacheHits :: int
  CacheMisses :: int
  HTMLDataFetches :: int
  RefreshAttempts :: int
  RefreshFailures :: int
  AverageGenTime :: real
  LastRefreshTime :: int

text \<open>
  The three cache entries are pointers, \<open>None\<close> being \<^verbatim>\<open>nil\<close>. The locks and the HTTP
  client of the Go struct are not part of the state; the zero \<^verbatim>\<open>time.Time\<close> is \<open>0\<close>.
\<close>

record TransactionGenerator =
  config :: ProductionConfig
  htmlDataCache :: "CacheEntry option"
  animationCache :: "CacheEntry option"
  verificationCache :: "CacheEntry option"
  homePageHTML :: string
  onDemandFileHTML :: string
  keyBytes :: "int list"
  animationKey :: string
  rowIndex :: int
  keyBytesIndices :: "int list"
  key :: string
  metrics :: GeneratorMetrics
  initialized :: bool
  lastRefresh :: int

text \<open>The three configurations of \<^verbatim>\<open>config.go\<close>; durations in nanoseconds.\<close>

definition DefaultProductionConfig :: ProductionConfig where
  "DefaultProductionConfig =
     \<lparr>HTMLDataCacheLifetime = 6 * 3600000000000, TransactionIDLifetime = 1 * 3600000000000,
      AnimationKeyLifetime = 3 * 3600000000000, EnableAutoRetry = True, MaxRetryAttempts = 3,
      RetryBackoffBase = 500 * 1000000, RetryBackoffMultiplier = 2,
      ErrorThresholdForRefresh = 2, RequestTimeout = 30 * 1000000000,
      RateLimitRequests = 50 / 60, EnableDebugLogging = False, EnableMetrics = True\<rparr>"

definition DevelopmentConfig :: ProductionConfig where
  "DevelopmentConfig =
     \<lparr>HTMLDataCacheLifetime = 10 * 60000000000, TransactionIDLifetime = 5 * 60000000000,
      AnimationKeyLifetime = 15 * 60000000000, EnableAutoRetry = True, MaxRetryAttempts = 2,
      RetryBackoffBase = 200 * 1000000, RetryBackoffMultiplier = 3 / 2,
      ErrorThresholdForRefresh = 1, RequestTimeout = 15 * 1000000000,
      RateLimitRequests = 100 / 60, EnableDebugLogging = True, EnableMetrics = True\<rparr>"

definition UltraFreshConfig :: ProductionConfig where
  "UltraFreshConfig =
     \<lparr>HTMLDataCacheLifetime = 0, TransactionIDLifetime = 0,
      AnimationKeyLifetime = 0, EnableAutoRetry = False, MaxRetryAttempts = 0,
      RetryBackoffBase = 0, RetryBackoffMultiplier = 1,
      ErrorThresholdForRefresh = 1, RequestTimeout = 10 * 1000000000,
      RateLimitRequests = 30 / 60, EnableDebugLogging = True, EnableMetrics = True\<rparr>"

text \<open>
  The generator that \<^verbatim>\<open>NewTransactionGeneratorWithConfig\<close> allocates before it calls
  \<^verbatim>\<open>initialize\<close>: the configuration, zeroed metrics, every other field at its zero value.
\<close>

definition newGenerator :: "ProductionConfig \<Rightarrow> TransactionGenerator" where
  "newGenerator cfg =
     \<lparr>config = cfg, htmlDataCache = None, animationCache = None, verificationCache = None,
      homePageHTML = [], onDemandFileHTML = [], keyBytes = [], animationKey = [],
      rowIndex = 0, keyBytesIndices = [], key = [],
      metrics = \<lparr>TotalGenerations = 0, CacheHits = 0, CacheMisses = 0, HTMLDataFetches = 0,
                  RefreshAttempts = 0, RefreshFailures = 0, AverageGenTime = 0,
                  LastRefreshTime = 0\<rparr>,
      initialized = False, lastRefresh = 0\<rparr>"

definition DefaultKeyword :: string where
  "DefaultKeyword = ''obfiowerehiring''"

definition AdditionalRandomNumber :: int where
  "AdditionalRandomNumber = 3"

definition TwitterEpoch :: int where
  "TwitterEpoch = 1682924400"

section \<open>Building a transaction ID\<close>

function trimBase64Padding :: "string \<Rightarrow> string" where
  "trimBase64Padding s =
     (if length s > 0 \<and> s ! (length s - 1) = CHR ''=''
      then trimBase64Padding (take (length s - 1) s) else s)"
  by pat_completeness auto
termination
  by (relation "measure length") auto

declare trimBase64Padding.simps [simp del]

text \<open>
  \<^verbatim>\<open>sha256.Sum256\<close> returns a \<^verbatim>\<open>[32]byte\<close>: a 256-bit word, read most significant byte
  first.
\<close>

definition digest_bytes :: "256 word \<Rightarrow> byte list" where
  "digest_bytes h = map (\<lambda>i. ucast (drop_bit (8 * (31 - i)) h)) [0..<32]"

text \<open>Seconds since \<open>TwitterEpoch\<close>, from the reading \<open>nowMicro\<close> of \<^verbatim>\<open>time.Now().UnixMicro()\<close>.\<close>

definition timeNow_of :: "int \<Rightarrow> int" where
  "timeNow_of nowMicro =
     (let epochMicro = wrap64 (TwitterEpoch * 1000000)
      in quo (wrap64 (nowMicro - epochMicro)) 1000000)"

definition timeNowBytes_of :: "int \<Rightarrow> byte list" where
  "timeNowBytes_of timeNow = map (\<lambda>i. word_of_int (drop_bit (i * 8) timeNow AND 255)) [0..<4]"

definition hashString_of :: "string \<Rightarrow> string \<Rightarrow> int \<Rightarrow> string \<Rightarrow> string" where
  "hashString_of method path timeNow currentAnimationKey =
     method @ ''!'' @ path @ ''!'' @ Itoa timeNow @ DefaultKeyword @ currentAnimationKey"

text \<open>
  \<open>Sum256\<close> is \<^verbatim>\<open>sha256.Sum256\<close>; \<open>randomByte\<close> is what \<^verbatim>\<open>rand.Read\<close> does on the
  one-byte buffer: an error, or the byte it stored.
\<close>

definition generateUniqueTransactionID ::
  "(byte list \<Rightarrow> 256 word) \<Rightarrow> int \<Rightarrow> error + byte \<Rightarrow> TransactionGenerator \<Rightarrow> string \<Rightarrow> string
     \<Rightarrow> error + string" where
  "generateUniqueTransactionID Sum256 nowMicro randomByte tg method path =
     (let timeNow = timeNow_of nowMicro;
          timeNowBytes = timeNowBytes_of timeNow;
          currentAnimationKey = animationKey tg;
          currentKeyBytes = keyBytes tg;
          hashString = hashString_of method path timeNow currentAnimationKey;
          hash = Sum256 (map of_char hashString);
          hashBytes = take 16 (digest_bytes hash)
      in case randomByte of
           Inl err \<Rightarrow> Inl (Errorf ''failed to generate random number'' err)
         | Inr r \<Rightarrow>
             (let bytesArr = map (\<lambda>kb. word_of_int kb) currentKeyBytes @ timeNowBytes @ hashBytes
                               @ [word_of_int AdditionalRandomNumber];
                  result = r # map (\<lambda>b. b XOR r) bytesArr;
                  encoded = EncodeToString result
              in Inr (trimBase64Padding encoded)))"

section \<open>The transaction ID as the specification describes it\<close>

text \<open>
  Section 4.4 of the specification, in its own words and without the functions above:
  \<open>now_s = floor((now_us - epoch_us) / 1e6)\<close> with \<open>epoch_us = 1_682_924_400 * 1_000_000\<close>;
  \<open>time_bytes = little_endian_4_bytes(now_s)\<close>, the least significant byte first;
  \<open>hash_input = method + "!" + path + "!" + str(now_s) + "obfiowerehiring" + animation_key\<close>;
  the digest prefix is the first bytes of the 256-bit digest, the most significant byte
  of the digest being its first byte.
\<close>

definition spec_now_s :: "int \<Rightarrow> int" where
  "spec_now_s now_us = (now_us - 1682924400 * 1000000) div 1000000"

definition little_endian_4_bytes :: "int \<Rightarrow> byte list" where
  "little_endian_4_bytes n =
     [word_of_int (n mod 256), word_of_int (n div 256 mod 256),
      word_of_int (n div 65536 mod 256), word_of_int (n div 16777216 mod 256)]"

definition spec_hash_input :: "string \<Rightarrow> string \<Rightarrow> int \<Rightarrow> string \<Rightarrow> string" where
  "spec_hash_input method path now_s animation_key =
     method @ ''!'' @ path @ ''!'' @ Itoa now_s @ ''obfiowerehiring'' @ animation_key"

definition digest_prefix :: "nat \<Rightarrow> 256 word \<Rightarrow> byte list" where
  "digest_prefix n h = map (\<lambda>i. of_nat (unat h div 256 ^ (31 - i) mod 256)) [0..<n]"

section \<open>The animation key: numeric routines\<close>

text \<open>
  What a call does: it returns a value, it panics (an index out of range), or it does not
  return (a loop that goes on for ever).
\<close>

datatype 'a outcome = Returns 'a | Panics | Diverges

fun bind_outcome :: "'a outcome \<Rightarrow> ('a \<Rightarrow> 'b outcome) \<Rightarrow> 'b outcome" where
  "bind_outcome (Returns x) f = f x"
| "bind_outcome Panics f = Panics"
| "bind_outcome Diverges f = Diverges"

text \<open>\<^verbatim>\<open>int(x)\<close> on a float and \<^verbatim>\<open>math.Trunc\<close> drop the fraction; \<^verbatim>\<open>math.Round\<close> rounds half away from zero.\<close>

definition int_of_float :: "real \<Rightarrow> int" where
  "int_of_float x = (if 0 \<le> x then \<lfloor>x\<rfloor> else \<lceil>x\<rceil>)"

definition math_Round :: "real \<Rightarrow> real" where
  "math_Round x = (if 0 \<le> x then of_int \<lfloor>x + 1 / 2\<rfloor> else - of_int \<lfloor>- x + 1 / 2\<rfloor>)"

definition solve :: "real \<Rightarrow> real \<Rightarrow> real \<Rightarrow> bool \<Rightarrow> real" where
  "solve val minVal maxVal rounding =
     (let result = val * (maxVal - minVal) / 255 + minVal
      in if rounding then of_int \<lfloor>result\<rfloor> else math_Round (result * 100) / 100)"

definition isOdd :: "int \<Rightarrow> real" where
  "isOdd num = (if rem num 2 = 1 then - 1 else 0)"

text \<open>
  \<open>interpolate\<close> writes one result for every index of \<open>from\<close> and reads \<open>to\<close> at the same
  index, which panics when \<open>to\<close> is the shorter slice.
\<close>

definition interpolate :: "real list \<Rightarrow> real list \<Rightarrow> real \<Rightarrow> real list outcome" where
  "interpolate from to t =
     (if length to < length from then Panics
      else Returns (map (\<lambda>i. max 0 (min 255 (from ! i + (to ! i - from ! i) * t)))
                     [0..<length from]))"

definition convertRotationToMatrix :: "real \<Rightarrow> real list" where
  "convertRotationToMatrix angle =
     (let radians = angle * pi / 180;
          cos' = cos radians;
          sin' = sin radians
      in [cos', sin', - sin', cos'])"

definition jsRound :: "real \<Rightarrow> real" where
  "jsRound num =
     (let decimalPart = num - of_int (int_of_float num)
      in if decimalPart = - (1 / 2) then of_int \<lceil>num\<rceil> else math_Round num)"

definition cubicCalculate :: "real \<Rightarrow> real \<Rightarrow> real \<Rightarrow> real" where
  "cubicCalculate a b m = 3 * a * (1 - m) * (1 - m) * m + 3 * b * (1 - m) * m * m + m * m * m"

text \<open>
  The bisection loop of \<open>evaluateCubicBezier\<close>; \<open>None\<close> when the loop never reaches its
  \<^verbatim>\<open>return\<close>.
\<close>

partial_function (option) bisect :: "real list \<Rightarrow> real \<Rightarrow> real \<Rightarrow> real \<Rightarrow> real \<Rightarrow> real option" where
  "bisect controlPoints t startValue endValue mid =
     (if startValue < endValue then
        (if \<bar>t - cubicCalculate (controlPoints ! 0) (controlPoints ! 2) ((startValue + endValue) / 2)\<bar>
              < 0.00001
         then Some (cubicCalculate (controlPoints ! 1) (controlPoints ! 3) ((startValue + endValue) / 2))
         else if cubicCalculate (controlPoints ! 0) (controlPoints ! 2) ((startValue + endValue) / 2) < t
         then bisect controlPoints t ((startValue + endValue) / 2) endValue ((startValue + endValue) / 2)
         else bisect controlPoints t startValue ((startValue + endValue) / 2) ((startValue + endValue) / 2))
      else Some (cubicCalculate (controlPoints ! 1) (controlPoints ! 3) mid))"

definition evaluateCubicBezier :: "real list \<Rightarrow> real \<Rightarrow> real outcome" where
  "evaluateCubicBezier controlPoints t =
     (if length controlPoints < 4 then Returns t
      else if t \<le> 0 then
        (let startGradient =
               (if controlPoints ! 0 > 0 then controlPoints ! 1 / controlPoints ! 0
                else if controlPoints ! 1 = 0 \<and> controlPoints ! 2 > 0
                     then controlPoints ! 3 / controlPoints ! 2
                else 0)
         in Returns (startGradient * t))
      else if t \<ge> 1 then
        (let endGradient =
               (if controlPoints ! 2 < 1 then (controlPoints ! 3 - 1) / (controlPoints ! 2 - 1)
                else if controlPoints ! 2 = 1 \<and> controlPoints ! 0 < 1
                     then (controlPoints ! 1 - 1) / (controlPoints ! 0 - 1)
                else 0)
         in Returns (1 + endGradient * (t - 1)))
      else (case bisect controlPoints t 0 1 0 of None \<Rightarrow> Diverges | Some y \<Rightarrow> Returns y))"

subsection \<open>Hexadecimal output\<close>

definition hex_char :: "nat \<Rightarrow> char" where
  "hex_char d = ''0123456789abcdef'' ! d"

function natToHex :: "nat \<Rightarrow> string" where
  "natToHex n = (if n < 16 then [hex_char n] else natToHex (n div 16) @ [hex_char (n mod 16)])"
  by pat_completeness auto
termination
  by (relation "measure id") auto

declare natToHex.simps [simp del]

text \<open>The \<^verbatim>\<open>%x\<close> verb on an \<^verbatim>\<open>int\<close>.\<close>

definition sprintf_x :: "int \<Rightarrow> string" where
  "sprintf_x i = (if i < 0 then CHR ''-'' # natToHex (nat (- i)) else natToHex (nat i))"

text \<open>
  \<open>parseDigit\<close> of \<open>floatToHex\<close>: \<^verbatim>\<open>string(rune(value + 55))\<close> above 9, a one-byte string
  for the values below 73 that can occur.
\<close>

definition parseDigit :: "int \<Rightarrow> string" where
  "parseDigit val = (if val > 9 then [char_of (nat (val + 55))] else Itoa val)"

function int_digits :: "int \<Rightarrow> string list \<Rightarrow> string list" where
  "int_digits quot digits =
     (if quot > 0
      then int_digits (quo quot 16) (parseDigit (rem quot 16) # digits)
      else digits)"
  by pat_completeness auto
termination
proof (relation "measure (\<lambda>(q, ds). nat q)")
  show "wf (measure (\<lambda>(q, ds). nat q))" by simp
next
  fix quot :: int and digits :: "string list"
  assume "0 < quot"
  then have "quo quot 16 = quot div 16" by (simp add: quo_def)
  then have "quo quot 16 < quot" using \<open>0 < quot\<close> by simp
  then show "((quo quot 16, parseDigit (rem quot 16) # digits), (quot, digits))
               \<in> measure (\<lambda>(q, ds). nat q)"
    using \<open>0 < quot\<close> by simp
qed

declare int_digits.simps [simp del]

function frac_digits :: "real \<Rightarrow> string list \<Rightarrow> string list" where
  "frac_digits fraction result =
     (if fraction > 0 \<and> length result < 20
      then frac_digits (fraction * 16 - of_int (int_of_float (fraction * 16)))
             (result @ [parseDigit (int_of_float (fraction * 16))])
      else result)"
  by pat_completeness auto
termination
  by (relation "measure (\<lambda>(f, r). 20 - length r)") auto

declare frac_digits.simps [simp del]

text \<open>
  The binary64 value nearest to a real, ties to the even significand: 53 significant bits
  above the exponent \<open>- 1022\<close>, multiples of \<open>2 ^ - 1074\<close> below. The overflow to an
  infinity is not modelled.
\<close>

definition float64 :: "real \<Rightarrow> real" where
  "float64 x =
     (if x = 0 then 0
      else (let e = max \<lfloor>log 2 \<bar>x\<bar>\<rfloor> (- 1022);
                ulp = 2 powi (e - 52);
                q = x / ulp;
                n = \<lfloor>q\<rfloor>;
                m = (if q - of_int n < 1 / 2 then n
                     else if 1 / 2 < q - of_int n then n + 1
                     else if even n then n else n + 1)
            in of_int m * ulp))"

text \<open>
  The parameter of \<open>floatToHex\<close> is a \<^verbatim>\<open>float64\<close>. On a binary64 value every operation of
  the function is exact (the integer part is subtracted, the fraction is multiplied by 16
  and its integer part subtracted), so the fraction loop ends when the at most 53
  significant bits are used up, or at the length bound of twenty elements.
\<close>

definition floatToHex :: "real \<Rightarrow> string" where
  "floatToHex x0 =
     (let x = float64 x0
      in if x = 0 then ''0''
         else (let quot = int_of_float x;
                   fraction = x - of_int quot;
                   result = (if quot = 0 then [''0''] else int_digits quot []);
                   result = (if fraction > 0 then frac_digits fraction (result @ [''.''])
                             else result)
               in concat result))"

definition ToLower :: "string \<Rightarrow> string" where
  "ToLower s = map (\<lambda>c. if 65 \<le> (of_char c :: nat) \<and> (of_char c :: nat) \<le> 90
                         then char_of ((of_char c :: nat) + 32) else c) s"

subsection \<open>\<open>animate\<close>\<close>

text \<open>\<open>animate\<close> first pads a short frame row with zeros up to fifteen elements.\<close>

definition padRow :: "int list \<Rightarrow> int list" where
  "padRow frameRow = frameRow @ replicate (15 - length frameRow) 0"

text \<open>
  The rotation that \<open>animate\<close> interpolates from element 6 of the padded row and hands to
  the matrix, and the colour it interpolates from elements 0 to 5.
\<close>

definition animate_rotation :: "int list \<Rightarrow> real \<Rightarrow> real list outcome" where
  "animate_rotation frameRow val =
     (let fromRotation = [0];
          toRotation = [solve (of_int (frameRow ! 6)) 60 360 True]
      in interpolate fromRotation toRotation val)"

definition animate_color :: "int list \<Rightarrow> real \<Rightarrow> real list outcome" where
  "animate_color frameRow val =
     (let fromColor = [of_int (frameRow ! 0), of_int (frameRow ! 1), of_int (frameRow ! 2), 1];
          toColor = [of_int (frameRow ! 3), of_int (frameRow ! 4), of_int (frameRow ! 5), 1]
      in interpolate fromColor toColor val)"

definition matrix_component :: "real \<Rightarrow> string" where
  "matrix_component v =
     (let rounded = float64 (math_Round (v * 100) / 100);
          rounded = (if rounded < 0 then - rounded else rounded);
          hexValue = floatToHex rounded
      in if take 1 hexValue = ''.'' then ''0'' @ hexValue
         else if hexValue = '''' then ''0''
         else hexValue)"

definition animate :: "int list \<Rightarrow> real \<Rightarrow> string outcome" where
  "animate frameRow0 targetTime =
     (let frameRow = padRow frameRow0;
          curveValues = map (\<lambda>(i, val). solve (of_int val) (isOdd (int i)) 1 False)
                          (enumerate 0 (drop 7 frameRow))
      in bind_outcome (evaluateCubicBezier curveValues targetTime) (\<lambda>val.
         bind_outcome (animate_color frameRow val) (\<lambda>color.
         bind_outcome (animate_rotation frameRow val) (\<lambda>rotation.
           (let matrix = convertRotationToMatrix (rotation ! 0);
                strArr = map (\<lambda>i. sprintf_x (int_of_float (math_Round (color ! i)))) [0..<3]
                         @ map matrix_component matrix
                         @ [''0'', ''0''];
                result = concat strArr;
                result = filter (\<lambda>c. c \<noteq> CHR ''.'') result;
                result = filter (\<lambda>c. c \<noteq> CHR ''-'') result
            in Returns (ToLower result))))))"

text \<open>
  The start gradient as the specification words it, for the comparison with what
  \<open>evaluateCubicBezier\<close> computes.
\<close>

definition spec_start_gradient :: "real \<Rightarrow> real \<Rightarrow> real \<Rightarrow> real \<Rightarrow> real" where
  "spec_start_gradient x1 y1 x2 y2 =
     (if x1 > 0 then y1 / x1 else if x1 = 0 \<and> x2 > 0 then y2 / x2 else 0)"

section \<open>Fetching and parsing the assets\<close>

text \<open>
  One HTTP GET as the code sees it: \<^verbatim>\<open>http.NewRequest\<close> fails, \<^verbatim>\<open>httpClient.Do\<close> fails,
  \<^verbatim>\<open>io.ReadAll\<close> fails, or the body arrives.
\<close>

datatype http_result = NewRequestFailed error | DoFailed error | ReadFailed error | Body string

text \<open>
  What one call of an operation of the generator observes of the outside: the answers to
  its HTTP requests, the readings of \<^verbatim>\<open>time.Now()\<close> in the order the code takes them, and
  what \<^verbatim>\<open>rand.Read\<close> does.
\<close>

record world =
  http_Get :: "string \<Rightarrow> http_result"
  t_start :: int
  t_check :: int
  t_invalidate1 :: int
  t_invalidate2 :: int
  t_invalidate3 :: int
  t_caches :: int
  t_lastRefresh :: int
  t_unixMicro :: int
  rand_Read :: "error + byte"
  t_end :: int

text \<open>
  The tree that \<^verbatim>\<open>html.Parse\<close> returns: the node type, \<^verbatim>\<open>Data\<close>, the attributes as
  pairs of \<^verbatim>\<open>Key\<close> and \<^verbatim>\<open>Val\<close>, and the children from \<^verbatim>\<open>FirstChild\<close> along
  \<^verbatim>\<open>NextSibling\<close>.
\<close>

datatype NodeType = ErrorNode | TextNode | DocumentNode | ElementNode | CommentNode | DoctypeNode

datatype Node = Node NodeType string "(string \<times> string) list" "Node list"

text \<open>
  The parsers whose code is outside the repository: \<^verbatim>\<open>html.Parse\<close> and the four compiled
  regular expressions, each with the method the code calls on it. \<open>framePattern\<close> takes
  the frame id the pattern is built from.
\<close>

record parsers =
  html_Parse :: "string \<Rightarrow> error + Node"
  onDemandFileRegex_FindStringSubmatch :: "string \<Rightarrow> string list"
  indicesRegex_FindAllStringSubmatch :: "string \<Rightarrow> string list list"
  framePattern_FindStringSubmatch :: "string \<Rightarrow> string \<Rightarrow> string list"
  pathPattern_FindAllStringSubmatch :: "string \<Rightarrow> string list list"

definition fetchTwitterData ::
  "parsers \<Rightarrow> world \<Rightarrow> TransactionGenerator \<Rightarrow> error option \<times> TransactionGenerator" where
  "fetchTwitterData px w tg =
     (case http_Get w ''https://x.com'' of
        NewRequestFailed err \<Rightarrow> (Some (Errorf ''failed to create request'' err), tg)
      | DoFailed err \<Rightarrow> (Some (Errorf ''failed to fetch home page'' err), tg)
      | ReadFailed err \<Rightarrow> (Some (Errorf ''failed to read home page'' err), tg)
      | Body homeBytes \<Rightarrow>
          (let tg = tg\<lparr>homePageHTML := homeBytes\<rparr>;
               tg = tg\<lparr>metrics := (metrics tg)\<lparr>HTMLDataFetches := HTMLDataFetches (metrics tg) + 1\<rparr>\<rparr>;
               matches = onDemandFileRegex_FindStringSubmatch px (homePageHTML tg)
           in if length matches < 2
              then (Some (New ''ondemand file URL not found in home page''), tg)
              else
                (let onDemandURL = ''https://abs.twimg.com/responsive-web/client-web/ondemand.s.''
                                     @ matches ! 1 @ ''a.js''
                 in case http_Get w onDemandURL of
                      NewRequestFailed err \<Rightarrow>
                        (Some (Errorf ''failed to create ondemand request'' err), tg)
                    | DoFailed err \<Rightarrow> (Some (Errorf ''failed to fetch ondemand file'' err), tg)
                    | ReadFailed err \<Rightarrow> (Some (Errorf ''failed to read ondemand file'' err), tg)
                    | Body onDemandBytes \<Rightarrow> (None, tg\<lparr>onDemandFileHTML := onDemandBytes\<rparr>))))"

fun parse_indices :: "string list list \<Rightarrow> error + int list" where
  "parse_indices [] = Inr []"
| "parse_indices (match # rest) =
     (if length match > 1
      then (case Atoi (match ! 1) of
              Inl err \<Rightarrow> Inl (Errorf (''failed to parse index '' @ match ! 1) err)
            | Inr index \<Rightarrow>
                (case parse_indices rest of
                   Inl err \<Rightarrow> Inl err
                 | Inr indices \<Rightarrow> Inr (index # indices)))
      else parse_indices rest)"

definition extractIndices ::
  "parsers \<Rightarrow> TransactionGenerator \<Rightarrow> error option \<times> TransactionGenerator" where
  "extractIndices px tg =
     (let matches = indicesRegex_FindAllStringSubmatch px (onDemandFileHTML tg)
      in if length matches = 0 then (Some (New ''no indices found in ondemand file''), tg)
         else (case parse_indices matches of
                 Inl err \<Rightarrow> (Some err, tg)
               | Inr indices \<Rightarrow>
                   if length indices = 0 then (Some (New ''no valid indices extracted''), tg)
                   else (None, tg\<lparr>rowIndex := indices ! 0, keyBytesIndices := drop 1 indices\<rparr>)))"

text \<open>The attribute loop of \<open>findTwitterSiteVerification\<close>: the last \<^verbatim>\<open>name\<close> and the last \<^verbatim>\<open>content\<close> win.\<close>

fun meta_attrs :: "(string \<times> string) list \<Rightarrow> string \<times> string \<Rightarrow> string \<times> string" where
  "meta_attrs [] (name, content) = (name, content)"
| "meta_attrs ((k, v) # attrs) (name, content) =
     (if k = ''name'' then meta_attrs attrs (v, content)
      else if k = ''content'' then meta_attrs attrs (name, v)
      else meta_attrs attrs (name, content))"

fun findTwitterSiteVerification :: "Node \<Rightarrow> string"
  and findInChildren :: "Node list \<Rightarrow> string" where
  "findTwitterSiteVerification (Node ty dat attrs children) =
     (if ty = ElementNode \<and> dat = ''meta'' \<and> fst (meta_attrs attrs ([], [])) = ''twitter-site-verification''
      then snd (meta_attrs attrs ([], []))
      else findInChildren children)"
| "findInChildren [] = []"
| "findInChildren (c # cs) =
     (let result = findTwitterSiteVerification c
      in if result \<noteq> [] then result else findInChildren cs)"

definition extractKey ::
  "parsers \<Rightarrow> TransactionGenerator \<Rightarrow> error option \<times> TransactionGenerator" where
  "extractKey px tg =
     (case html_Parse px (homePageHTML tg) of
        Inl err \<Rightarrow> (Some (Errorf ''failed to parse HTML'' err), tg)
      | Inr doc \<Rightarrow>
          (let k = findTwitterSiteVerification doc
           in if k = [] then (Some (New ''twitter-site-verification meta tag not found''), tg)
              else
                (let tg = tg\<lparr>key := k\<rparr>
                 in case DecodeString k of
                      None \<Rightarrow> (Some (Errorf ''failed to decode key'' (New ''illegal base64 data'')), tg)
                    | Some decoded \<Rightarrow> (None, tg\<lparr>keyBytes := map uint decoded\<rparr>))))"

subsection \<open>The frame rows\<close>

definition isSpace :: "char \<Rightarrow> bool" where
  "isSpace c = ((of_char c :: nat) \<in> {9, 10, 11, 12, 13, 32})"

text \<open>
  \<^verbatim>\<open>strings.TrimSpace\<close> on the ASCII white space. The code trims a segment only to ask
  whether anything is left, and a segment of non-ASCII white space alone is dropped one
  step later, for want of a digit.
\<close>

definition TrimSpace :: "string \<Rightarrow> string" where
  "TrimSpace s = rev (dropWhile isSpace (rev (dropWhile isSpace s)))"

text \<open>\<^verbatim>\<open>strings.Split(s, "C")\<close>.\<close>

fun Split :: "char \<Rightarrow> string \<Rightarrow> string list" where
  "Split sep [] = [[]]"
| "Split sep (c # cs) =
     (if c = sep then [] # Split sep cs
      else (case Split sep cs of [] \<Rightarrow> [[c]] | p # ps \<Rightarrow> (c # p) # ps))"

text \<open>\<^verbatim>\<open>numberRegex.ReplaceAllString(part, " ")\<close>: every maximal run of non-digits becomes one space.\<close>

fun replaceNonDigits :: "bool \<Rightarrow> string \<Rightarrow> string" where
  "replaceNonDigits inRun [] = []"
| "replaceNonDigits inRun (c # cs) =
     (if isDigit c then c # replaceNonDigits False cs
      else if inRun then replaceNonDigits True cs
      else CHR '' '' # replaceNonDigits True cs)"

text \<open>\<^verbatim>\<open>strings.Fields\<close>, the current field in \<open>cur\<close>.\<close>

fun fields_from :: "string \<Rightarrow> string \<Rightarrow> string list" where
  "fields_from cur [] = (if cur = [] then [] else [cur])"
| "fields_from cur (c # cs) =
     (if isSpace c then (if cur = [] then fields_from [] cs else cur # fields_from [] cs)
      else fields_from (cur @ [c]) cs)"

definition Fields :: "string \<Rightarrow> string list" where
  "Fields s = fields_from [] s"

definition parse_row :: "string \<Rightarrow> int list option" where
  "parse_row part =
     (if TrimSpace part = [] then None
      else (let cleanedPart = TrimSpace (replaceNonDigits False part)
            in if cleanedPart = [] then None
               else (let row = List.map_filter
                                 (\<lambda>numStr. case Atoi numStr of Inl err \<Rightarrow> None | Inr num \<Rightarrow> Some num)
                                 (Fields cleanedPart)
                     in if length row > 0 then Some row else None)))"

definition cross_mark :: string where
  "cross_mark = [CHR 0xE2, CHR 0x9D, CHR 0x8C]"

definition extractAnimationFrames :: "parsers \<Rightarrow> TransactionGenerator \<Rightarrow> error + int list list" where
  "extractAnimationFrames px tg =
     (if length (keyBytes tg) \<le> 5 then Inl (New ''key_bytes too short for frame selection'')
      else
        (let frameIndex = rem (keyBytes tg ! 5) 4;
             frameID = ''loading-x-anim-'' @ Itoa frameIndex;
             frameMatch = framePattern_FindStringSubmatch px frameID (homePageHTML tg)
         in if length frameMatch < 2
            then Inl (New (cross_mark @ '' EXTRACTION FAILED: frame '' @ frameID
                             @ '' not found in HTML - no fallback''))
            else
              (let frameContent = frameMatch ! 1;
                   pathMatches = pathPattern_FindAllStringSubmatch px frameContent;
                   selectedPathData =
                     (case filter (\<lambda>pathMatch. length pathMatch \<ge> 2 \<and> length (pathMatch ! 1) > 9
                                      \<and> CHR ''C'' \<in> set (pathMatch ! 1)) pathMatches of
                        [] \<Rightarrow> []
                      | pathMatch # _ \<Rightarrow> pathMatch ! 1)
               in if selectedPathData = []
                  then Inl (New (cross_mark @ '' EXTRACTION FAILED: no valid path data found in frame ''
                                   @ frameID @ '' - no fallback''))
                  else
                    (let curveData = drop 9 selectedPathData;
                         curveParts = Split (CHR ''C'') curveData;
                         rows = List.map_filter parse_row curveParts
                     in if length rows = 0
                        then Inl (New (cross_mark @ '' EXTRACTION FAILED: no valid rows extracted from frame ''
                                         @ frameID @ '' - no fallback''))
                        else Inr rows))))"

subsection \<open>The animation key\<close>

text \<open>
  The loop over \<open>keyBytesIndices\<close>: an index below the length is read, which panics when
  it is negative; the product wraps at 64 bits.
\<close>

fun frameTime_loop :: "int list \<Rightarrow> int list \<Rightarrow> int \<Rightarrow> int outcome" where
  "frameTime_loop kb [] frameTime = Returns frameTime"
| "frameTime_loop kb (index # rest) frameTime =
     (if index < int (length kb)
      then (if index < 0 then Panics
            else frameTime_loop kb rest (wrap64 (frameTime * rem (kb ! nat index) 16)))
      else frameTime_loop kb rest frameTime)"

definition generateAnimationKey ::
  "parsers \<Rightarrow> TransactionGenerator \<Rightarrow> (error option \<times> TransactionGenerator) outcome" where
  "generateAnimationKey px tg =
     (case extractAnimationFrames px tg of
        Inl err \<Rightarrow> Returns (Some (Errorf ''failed to extract animation frames'' err), tg)
      | Inr frames \<Rightarrow>
          (let actualRowIndex = (if rowIndex tg \<ge> int (length (keyBytes tg))
                                 then int (length (keyBytes tg)) - 1 else rowIndex tg)
           in if actualRowIndex < 0 then Panics
              else
                (let rowIndex' = rem (keyBytes tg ! nat actualRowIndex) 16
                 in bind_outcome (frameTime_loop (keyBytes tg) (keyBytesIndices tg) 1) (\<lambda>frameTime.
                      (let frameTime = wrap64 (int_of_float (jsRound (of_int frameTime / 10)) * 10)
                       in if length frames = 0
                          then Returns (Some (New ''no frame data available''), tg)
                          else if rowIndex' < int (length frames) \<and> rowIndex' < 0 then Panics
                          else
                            (let frameRow = (if rowIndex' < int (length frames)
                                             then frames ! nat rowIndex' else frames ! 0);
                                 targetTime = of_int frameTime / 4096
                             in bind_outcome (animate frameRow targetTime) (\<lambda>k.
                                  Returns (None, tg\<lparr>animationKey := k\<rparr>))))))))"

definition extractAlgorithmData ::
  "parsers \<Rightarrow> TransactionGenerator \<Rightarrow> (error option \<times> TransactionGenerator) outcome" where
  "extractAlgorithmData px tg =
     (case extractIndices px tg of
        (Some err, tg) \<Rightarrow> Returns (Some (Errorf ''failed to extract indices'' err), tg)
      | (None, tg) \<Rightarrow>
          (case extractKey px tg of
             (Some err, tg) \<Rightarrow> Returns (Some (Errorf ''failed to extract key'' err), tg)
           | (None, tg) \<Rightarrow>
               bind_outcome (generateAnimationKey px tg) (\<lambda>(r, tg).
                 case r of
                   Some err \<Rightarrow> Returns (Some (Errorf ''failed to generate animation key'' err), tg)
                 | None \<Rightarrow> Returns (None, tg))))"

section \<open>Cache and refresh\<close>

definition updateGenerationTime :: "int \<Rightarrow> TransactionGenerator \<Rightarrow> TransactionGenerator" where
  "updateGenerationTime duration tg =
     (let genTimeMs = of_int duration / 1000000
      in if TotalGenerations (metrics tg) = 1
         then tg\<lparr>metrics := (metrics tg)\<lparr>AverageGenTime := genTimeMs\<rparr>\<rparr>
         else tg\<lparr>metrics := (metrics tg)\<lparr>AverageGenTime :=
                  (1 - 1 / 10) * AverageGenTime (metrics tg) + 1 / 10 * genTimeMs\<rparr>\<rparr>)"

definition incrementTotalGenerations :: "TransactionGenerator \<Rightarrow> TransactionGenerator" where
  "incrementTotalGenerations tg =
     tg\<lparr>metrics := (metrics tg)\<lparr>TotalGenerations := TotalGenerations (metrics tg) + 1\<rparr>\<rparr>"

text \<open>The three cache entries that \<open>initialize\<close> and \<open>updateCachesWithFreshData\<close> build at \<open>now\<close>.\<close>

definition fresh_caches :: "int \<Rightarrow> TransactionGenerator \<Rightarrow> TransactionGenerator" where
  "fresh_caches now tg =
     tg\<lparr>htmlDataCache :=
          Some \<lparr>Data = Pages (homePageHTML tg) (onDemandFileHTML tg), ExpiresAt = now + HTMLDataCacheLifetime (config tg),
                CreatedAt = now\<rparr>,
        animationCache :=
          Some \<lparr>Data = Str (animationKey tg), ExpiresAt = now + AnimationKeyLifetime (config tg),
                CreatedAt = now\<rparr>,
        verificationCache :=
          Some \<lparr>Data = Str (key tg), ExpiresAt = now + HTMLDataCacheLifetime (config tg),
                CreatedAt = now\<rparr>\<rparr>"

definition updateCachesWithFreshData ::
  "world \<Rightarrow> TransactionGenerator \<Rightarrow> error option \<times> TransactionGenerator" where
  "updateCachesWithFreshData w tg = (None, fresh_caches (t_caches w) tg)"

definition initialize ::
  "parsers \<Rightarrow> world \<Rightarrow> TransactionGenerator \<Rightarrow> (error option \<times> TransactionGenerator) outcome" where
  "initialize px w tg =
     bind_outcome
       (case fetchTwitterData px w tg of
          (Some err, tg) \<Rightarrow> Returns (Some (Errorf ''failed to fetch Twitter data'' err), tg)
        | (None, tg) \<Rightarrow>
            bind_outcome (extractAlgorithmData px tg) (\<lambda>(r, tg).
              case r of
                Some err \<Rightarrow> Returns (Some (Errorf ''failed to extract algorithm data'' err), tg)
              | None \<Rightarrow>
                  (let now = t_caches w;
                       tg = fresh_caches now tg;
                       tg = tg\<lparr>initialized := True\<rparr>;
                       tg = tg\<lparr>lastRefresh := now\<rparr>;
                       tg = tg\<lparr>metrics := (metrics tg)\<lparr>LastRefreshTime := now\<rparr>\<rparr>
                   in Returns (None, tg))))
       (\<lambda>(r, tg). Returns (r, updateGenerationTime (t_end w - t_start w) tg))"

definition NewTransactionGeneratorWithConfig ::
  "parsers \<Rightarrow> world \<Rightarrow> ProductionConfig option \<Rightarrow> (error + TransactionGenerator) outcome" where
  "NewTransactionGeneratorWithConfig px w cfg =
     (let cfg = (case cfg of None \<Rightarrow> DefaultProductionConfig | Some c \<Rightarrow> c);
          generator = newGenerator cfg
      in bind_outcome (initialize px w generator) (\<lambda>(r, generator).
           case r of
             Some err \<Rightarrow> Returns (Inl (Errorf ''failed to initialize transaction generator'' err))
           | None \<Rightarrow> Returns (Inr generator)))"

definition needsRefresh :: "TransactionGenerator \<Rightarrow> int \<Rightarrow> bool" where
  "needsRefresh tg now =
     (if \<not> initialized tg then True
      else if (case htmlDataCache tg of None \<Rightarrow> False | Some e \<Rightarrow> now > ExpiresAt e) then True
      else if (case animationCache tg of None \<Rightarrow> False | Some e \<Rightarrow> now > ExpiresAt e) then True
      else if (case verificationCache tg of None \<Rightarrow> False | Some e \<Rightarrow> now > ExpiresAt e) then True
      else False)"

definition refresh_failed :: "TransactionGenerator \<Rightarrow> TransactionGenerator" where
  "refresh_failed tg = tg\<lparr>metrics := (metrics tg)\<lparr>RefreshFailures := RefreshFailures (metrics tg) + 1\<rparr>\<rparr>"

definition Refresh ::
  "parsers \<Rightarrow> world \<Rightarrow> TransactionGenerator \<Rightarrow> (error option \<times> TransactionGenerator) outcome" where
  "Refresh px w tg =
     (let tg = tg\<lparr>metrics := (metrics tg)\<lparr>RefreshAttempts := RefreshAttempts (metrics tg) + 1\<rparr>\<rparr>
      in case fetchTwitterData px w tg of
           (Some err, tg) \<Rightarrow>
             Returns (Some (Errorf ''failed to fetch Twitter data'' err), refresh_failed tg)
         | (None, tg) \<Rightarrow>
             bind_outcome (extractAlgorithmData px tg) (\<lambda>(r, tg).
               case r of
                 Some err \<Rightarrow>
                   Returns (Some (Errorf ''failed to extract algorithm data'' err), refresh_failed tg)
               | None \<Rightarrow>
                   (case updateCachesWithFreshData w tg of
                      (Some err, tg) \<Rightarrow>
                        Returns (Some (Errorf ''failed to update caches'' err), refresh_failed tg)
                    | (None, tg) \<Rightarrow>
                        (let tg = tg\<lparr>lastRefresh := t_lastRefresh w\<rparr>;
                             tg = tg\<lparr>metrics := (metrics tg)\<lparr>LastRefreshTime := lastRefresh tg\<rparr>\<rparr>
                         in Returns (None, tg)))))"

definition invalidate :: "int \<Rightarrow> CacheEntry option \<Rightarrow> CacheEntry option" where
  "invalidate now entry =
     (case entry of None \<Rightarrow> None | Some e \<Rightarrow> Some (e\<lparr>ExpiresAt := now + (- 1) * 3600000000000\<rparr>))"

definition ForceRefresh ::
  "parsers \<Rightarrow> world \<Rightarrow> TransactionGenerator \<Rightarrow> (error option \<times> TransactionGenerator) outcome" where
  "ForceRefresh px w tg =
     (let tg = tg\<lparr>htmlDataCache := invalidate (t_invalidate1 w) (htmlDataCache tg)\<rparr>;
          tg = tg\<lparr>animationCache := invalidate (t_invalidate2 w) (animationCache tg)\<rparr>;
          tg = tg\<lparr>verificationCache := invalidate (t_invalidate3 w) (verificationCache tg)\<rparr>
      in Refresh px w tg)"

definition ForceRefreshTransactionID ::
  "parsers \<Rightarrow> world \<Rightarrow> TransactionGenerator \<Rightarrow> (error option \<times> TransactionGenerator) outcome" where
  "ForceRefreshTransactionID px w tg = ForceRefresh px w tg"

text \<open>
  \<open>Generate\<close>: the error of a refresh is dropped; the deferred function updates the
  generation time and then counts the generation, whatever is returned.
\<close>

definition Generate ::
  "(byte list \<Rightarrow> 256 word) \<Rightarrow> parsers \<Rightarrow> world \<Rightarrow> TransactionGenerator \<Rightarrow> string \<Rightarrow> string
     \<Rightarrow> ((error + string) \<times> TransactionGenerator) outcome" where
  "Generate Sum256 px w tg method path =
     bind_outcome
       (if needsRefresh tg (t_check w)
        then bind_outcome (Refresh px w tg) (\<lambda>(err, tg). Returns tg)
        else Returns tg)
       (\<lambda>tg.
          (let res = generateUniqueTransactionID Sum256 (t_unixMicro w) (rand_Read w) tg method path;
               tg = updateGenerationTime (t_end w - t_start w) tg;
               tg = incrementTotalGenerations tg
           in Returns (res, tg)))"

definition IsStale :: "TransactionGenerator \<Rightarrow> int \<Rightarrow> bool" where
  "IsStale tg now = needsRefresh tg now"

text \<open>
  The reading of the cache invariant in the specification: an entry is expired from the
  instant \<open>expires_at\<close> on, and a refresh is needed when the generator was never initialised
  or an entry is expired.
\<close>

definition spec_expired :: "int \<Rightarrow> CacheEntry option \<Rightarrow> bool" where
  "spec_expired now entry = (case entry of None \<Rightarrow> False | Some e \<Rightarrow> now \<ge> ExpiresAt e)"

definition spec_needs_refresh :: "TransactionGenerator \<Rightarrow> int \<Rightarrow> bool" where
  "spec_needs_refresh tg now =
     (\<not> initialized tg \<or> spec_expired now (htmlDataCache tg) \<or> spec_expired now (animationCache tg)
        \<or> spec_expired now (verificationCache tg))"

text \<open>
  The invariant of the three entries: \<open>expires_at = created_at + TTL\<close>, the verification
  entry living as long as the HTML entry (the configuration has no lifetime of its own for
  it).
\<close>

definition entry_ttl :: "int \<Rightarrow> CacheEntry option \<Rightarrow> bool" where
  "entry_ttl ttl entry = (case entry of None \<Rightarrow> True | Some e \<Rightarrow> ExpiresAt e = CreatedAt e + ttl)"

definition ttl_invariant :: "TransactionGenerator \<Rightarrow> bool" where
  "ttl_invariant tg =
     (entry_ttl (HTMLDataCacheLifetime (config tg)) (htmlDataCache tg)
      \<and> entry_ttl (AnimationKeyLifetime (config tg)) (animationCache tg)
      \<and> entry_ttl (HTMLDataCacheLifetime (config tg)) (verificationCache tg))"

text \<open>
  The signing material that the claim about a failed refresh lists, and the part of the
  state that no step of a failing refresh writes: the configuration, the three cache
  entries, the readiness flag, the time of the last refresh and the animation key.
\<close>

definition signing_material ::
  "TransactionGenerator \<Rightarrow> string \<times> string \<times> string \<times> int list \<times> int \<times> int list \<times> string" where
  "signing_material tg =
     (homePageHTML tg, onDemandFileHTML tg, key tg, keyBytes tg, rowIndex tg, keyBytesIndices tg,
      animationKey tg)"

definition retained ::
  "TransactionGenerator \<Rightarrow> ProductionConfig \<times> CacheEntry option \<times> CacheEntry option
      \<times> CacheEntry option \<times> bool \<times> int \<times> string" where
  "retained tg =
     (config tg, htmlDataCache tg, animationCache tg, verificationCache tg, initialized tg,
      lastRefresh tg, animationKey tg)"

section \<open>A fixture: two versions of the home page and of the ondemand file\<close>

text \<open>
  The first home page carries a verification key of six zero bytes, the second one a key of
  three zero bytes, too short for the frame selection. The parsers answer on these pages
  what the HTML parser and the regular expressions of the code find in them.
\<close>

definition home_A :: string where
  \<open>home_A = ''<html><head><meta name="twitter-site-verification" content="AAAAAAAA"></head><body><script>"ondemand.s":"abc"</script><svg><g id="loading-x-anim-0"><path d="M 10,30 C 3,4 5,6 7,8 C 9,10 11,12 13,14"></path></g></svg></body></html>''\<close>

definition home_B :: string where
  \<open>home_B = ''<html><head><meta name="twitter-site-verification" content="AAAA"></head><body><script>"ondemand.s":"abc"</script></body></html>''\<close>

definition js_A :: string where
  "js_A = ''(x[4],16)(x[1],16)(x[2],16)''"

definition js_B :: string where
  "js_B = ''(x[7],16)(x[3],16)''"

definition ondemand_url :: string where
  "ondemand_url = ''https://abs.twimg.com/responsive-web/client-web/ondemand.s.abca.js''"

definition fixture_tree :: "string \<Rightarrow> Node" where
  \<open>fixture_tree content =
     Node DocumentNode [] []
       [Node ElementNode ''html'' []
          [Node ElementNode ''head'' []
             [Node ElementNode ''meta''
                [(''name'', ''twitter-site-verification''), (''content'', content)] []],
           Node ElementNode ''body'' []
             [Node ElementNode ''script'' [] [Node TextNode ''"ondemand.s":"abc"'' [] []]]]]\<close>

definition fixture_parsers :: parsers where
  \<open>fixture_parsers =
     \<lparr>html_Parse = (\<lambda>s. if s = home_A then Inr (fixture_tree ''AAAAAAAA'')
                          else if s = home_B then Inr (fixture_tree ''AAAA'')
                          else Inl (New ''not a page of the fixture'')),
      onDemandFileRegex_FindStringSubmatch =
        (\<lambda>s. if s = home_A \<or> s = home_B then [''"ondemand.s":"abc"'', ''abc''] else []),
      indicesRegex_FindAllStringSubmatch =
        (\<lambda>s. if s = js_A then [[''(x[4],16)'', ''4''], [''(x[1],16)'', ''1''], [''(x[2],16)'', ''2'']]
              else if s = js_B then [[''(x[7],16)'', ''7''], [''(x[3],16)'', ''3'']]
              else []),
      framePattern_FindStringSubmatch =
        (\<lambda>frameID s. if frameID = ''loading-x-anim-0'' \<and> s = home_A
              then [''id="loading-x-anim-0"><path d="M 10,30 C 3,4 5,6 7,8 C 9,10 11,12 13,14"></path></g>'',
                    ''<path d="M 10,30 C 3,4 5,6 7,8 C 9,10 11,12 13,14"></path>'']
              else []),
      pathPattern_FindAllStringSubmatch =
        (\<lambda>s. if s = ''<path d="M 10,30 C 3,4 5,6 7,8 C 9,10 11,12 13,14"></path>''
              then [[''<path d="M 10,30 C 3,4 5,6 7,8 C 9,10 11,12 13,14">'',
                     ''M 10,30 C 3,4 5,6 7,8 C 9,10 11,12 13,14'']]
              else [])\<rparr>\<close>

text \<open>
  The world of the fixture serves the given home page and ondemand file, with every clock
  reading at \<open>now\<close> and the random byte \<open>r\<close>; the broken world fails every request.
\<close>

definition fixture_world :: "string \<Rightarrow> string \<Rightarrow> int \<Rightarrow> byte \<Rightarrow> world" where
  "fixture_world home js now r =
     \<lparr>http_Get = (\<lambda>url. if url = ''https://x.com'' then Body home
                        else if url = ondemand_url then Body js
                        else DoFailed (New ''no such host'')),
      t_start = now, t_check = now, t_invalidate1 = now, t_invalidate2 = now, t_invalidate3 = now,
      t_caches = now, t_lastRefresh = now, t_unixMicro = now div 1000, rand_Read = Inr r,
      t_end = now\<rparr>"

definition broken_world :: "int \<Rightarrow> world" where
  "broken_world now =
     \<lparr>http_Get = (\<lambda>url. DoFailed (New ''connection refused'')),
      t_start = now, t_check = now, t_invalidate1 = now, t_invalidate2 = now, t_invalidate3 = now,
      t_caches = now, t_lastRefresh = now, t_unixMicro = now div 1000, rand_Read = Inr 0,
      t_end = now\<rparr>"

text \<open>The generator once \<open>initialize\<close> has run on the first version of the pages at time 1000.\<close>

definition fixture_generator :: TransactionGenerator where
  "fixture_generator =
     \<lparr>config = DefaultProductionConfig,
      htmlDataCache = Some \<lparr>Data = Pages home_A js_A, ExpiresAt = 1000 + 6 * 3600000000000, CreatedAt = 1000\<rparr>,
      animationCache = Some \<lparr>Data = Str ''345100100'', ExpiresAt = 1000 + 3 * 3600000000000, CreatedAt = 1000\<rparr>,
      verificationCache = Some \<lparr>Data = Str ''AAAAAAAA'', ExpiresAt = 1000 + 6 * 3600000000000, CreatedAt = 1000\<rparr>,
      homePageHTML = home_A, onDemandFileHTML = js_A, keyBytes = [0, 0, 0, 0, 0, 0],
      animationKey = ''345100100'', rowIndex = 4, keyBytesIndices = [1, 2], key = ''AAAAAAAA'',
      metrics = \<lparr>TotalGenerations = 0, CacheHits = 0, CacheMisses = 0, HTMLDataFetches = 1,
                  RefreshAttempts = 0, RefreshFailures = 0, AverageGenTime = 0,
                  LastRefreshTime = 1000\<rparr>,
      initialized = True, lastRefresh = 1000\<rparr>"

section \<open>The XPFF header\<close>

definition baseKey :: string where
  "baseKey = ''0e6be1f1e21ffc33590b888fd4dc81b19713e570e805d4e5df80a493c9571a05''"

text \<open>\<^verbatim>\<open>hex.EncodeToString\<close>: two lower-case digits for every byte, the high one first.\<close>

definition hex_EncodeToString :: "byte list \<Rightarrow> string" where
  "hex_EncodeToString src = concat (map (\<lambda>v. [hex_char (unat v div 16), hex_char (unat v mod 16)]) src)"

text \<open>
  \<^verbatim>\<open>json.Marshal\<close> of an \<open>XPFFPayload\<close>: the fields in the order of the struct, under the
  names of their tags, without white space. \<open>json_string\<close> is the encoding of a Go string
  as a JSON string, quotes included; \<open>createdAt\<close> is the reading of
  \<^verbatim>\<open>time.Now().UnixMilli()\<close>. Marshalling this struct cannot fail.
\<close>

definition marshal_payload :: "(string \<Rightarrow> string) \<Rightarrow> string \<Rightarrow> int \<Rightarrow> string" where
  \<open>marshal_payload json_string userAgent createdAt =
     ''{"navigator_properties":{"hasBeenActive":"true","userAgent":'' @ json_string userAgent
       @ '',"webdriver":"false"},"created_at":'' @ Itoa createdAt @ ''}''\<close>

definition generateEncryptionKey :: "(byte list \<Rightarrow> 256 word) \<Rightarrow> string \<Rightarrow> error + byte list" where
  "generateEncryptionKey Sum256 guestID =
     (let combined = baseKey @ guestID;
          hash = Sum256 (map of_char combined)
      in Inr (digest_bytes hash))"

text \<open>
  \<^verbatim>\<open>aes.NewCipher\<close> accepts keys of 16, 24 or 32 bytes, and \<^verbatim>\<open>cipher.NewGCM\<close> accepts every
  AES block cipher, with a nonce size of 12. \<open>Seal\<close> is \<^verbatim>\<open>gcm.Seal(nil, nonce, plaintext, nil)\<close>
  for the cipher of the given key: the ciphertext followed by the tag. \<open>randomBytes\<close> is what
  \<^verbatim>\<open>rand.Read\<close> does: an error, or the bytes it stores, by position.
\<close>

definition aes_NewCipher :: "byte list \<Rightarrow> error + byte list" where
  "aes_NewCipher k =
     (if length k = 16 \<or> length k = 24 \<or> length k = 32 then Inr k
      else Inl (New (''crypto/aes: invalid key size '' @ Itoa (int (length k)))))"

definition gcm_NonceSize :: nat where
  "gcm_NonceSize = 12"

definition encryptAESGCM ::
  "(byte list \<Rightarrow> byte list \<Rightarrow> byte list \<Rightarrow> byte list) \<Rightarrow> error + (nat \<Rightarrow> byte) \<Rightarrow> byte list \<Rightarrow> byte list
     \<Rightarrow> error + byte list" where
  "encryptAESGCM Seal randomBytes plaintext k =
     (case aes_NewCipher k of
        Inl err \<Rightarrow> Inl (Errorf ''failed to create AES cipher'' err)
      | Inr block \<Rightarrow>
          (case randomBytes of
             Inl err \<Rightarrow> Inl (Errorf ''failed to generate nonce'' err)
           | Inr rnd \<Rightarrow>
               (let nonce = map rnd [0..<gcm_NonceSize];
                    ciphertext = Seal block nonce plaintext;
                    result = nonce @ ciphertext
                in Inr result)))"

definition GenerateXPFF ::
  "(byte list \<Rightarrow> 256 word) \<Rightarrow> (string \<Rightarrow> string) \<Rightarrow> (byte list \<Rightarrow> byte list \<Rightarrow> byte list \<Rightarrow> byte list)
     \<Rightarrow> int \<Rightarrow> error + (nat \<Rightarrow> byte) \<Rightarrow> string \<Rightarrow> string \<Rightarrow> error + string" where
  "GenerateXPFF Sum256 json_string Seal nowMilli randomBytes guestID userAgent =
     (let payloadJSON = map of_char (marshal_payload json_string userAgent nowMilli)
      in case generateEncryptionKey Sum256 guestID of
           Inl err \<Rightarrow> Inl (Errorf ''failed to generate encryption key'' err)
         | Inr encryptionKey \<Rightarrow>
             (case encryptAESGCM Seal randomBytes payloadJSON encryptionKey of
                Inl err \<Rightarrow> Inl (Errorf ''failed to encrypt payload'' err)
              | Inr encrypted \<Rightarrow> Inr (hex_EncodeToString encrypted)))"

definition IsXPFFValid :: "int \<Rightarrow> int \<Rightarrow> bool" where
  "IsXPFFValid now createdAt = (wrap64 (now - createdAt) < 300000)"

text \<open>
  Reading a string of lower-case hexadecimal digits, two for every byte and the high one
  first, as the specification words the output format.
\<close>

definition spec_hex_digit :: "char \<Rightarrow> nat option" where
  "spec_hex_digit c =
     (if c \<in> set ''0123456789'' then Some (of_char c - 48)
      else if c \<in> set ''abcdef'' then Some (of_char c - 87)
      else None)"

fun spec_hex_decode :: "string \<Rightarrow> byte list option" where
  "spec_hex_decode [] = Some []"
| "spec_hex_decode [c] = None"
| "spec_hex_decode (c # d # cs) =
     (case (spec_hex_digit c, spec_hex_digit d, spec_hex_decode cs) of
        (Some h, Some l, Some bs) \<Rightarrow> Some (of_nat (16 * h + l) # bs)
      | _ \<Rightarrow> None)"
section \<open>The retry loop of the client\<close>

record ClientMetrics =
  TotalRequests :: int
  SuccessfulRequests :: int
  FailedRequests :: int
  RetryAttempts :: int
  ClientCacheHits :: int
  ClientCacheMisses :: int
  AverageLatency :: real
  LastSuccessTime :: int
  UptimeStart :: int

text \<open>
  The client, without its HTTP client, rate limiter and lock. The fields \<^verbatim>\<open>config\<close> and
  \<^verbatim>\<open>metrics\<close> are \<open>clientConfig\<close> and \<open>clientMetrics\<close> here, the generator having fields
  of these names.
\<close>

record Client =
  clientConfig :: ProductionConfig
  txnGen :: TransactionGenerator
  guestToken :: string
  guestID :: string
  clientMetrics :: ClientMetrics
  lastSuccess :: int
  errorStreak :: int
  totalRequests :: int
  retryEnabled :: bool
  debugEnabled :: bool

text \<open>
  What one call of \<open>executeWithRetry\<close> meets, attempt by attempt: what the operation does
  on the client, what \<^verbatim>\<open>ctx.Err()\<close> returns after a failed attempt, whether the timer of
  the back-off fires before \<^verbatim>\<open>ctx.Done()\<close> and the error of the context if it does not,
  what a forced refresh observes, the two clock readings of \<open>recordSuccess\<close>, and the time
  the whole call has taken.
\<close>

record 'u retry_env =
  operation :: "nat \<Rightarrow> Client \<Rightarrow> ((error + 'u) \<times> Client) outcome"
  ctx_Err :: "nat \<Rightarrow> error option"
  timer_first :: "nat \<Rightarrow> int \<Rightarrow> bool"
  ctx_Done_Err :: "nat \<Rightarrow> error"
  refresh_world :: "nat \<Rightarrow> world"
  t_success1 :: int
  t_success2 :: int
  elapsed :: int

definition recordSuccess :: "int \<Rightarrow> int \<Rightarrow> Client \<Rightarrow> Client" where
  "recordSuccess now1 now2 c =
     (let c = c\<lparr>clientMetrics := (clientMetrics c)\<lparr>SuccessfulRequests :=
                    SuccessfulRequests (clientMetrics c) + 1\<rparr>\<rparr>;
          c = c\<lparr>clientMetrics := (clientMetrics c)\<lparr>LastSuccessTime := now1\<rparr>\<rparr>;
          c = c\<lparr>lastSuccess := now2\<rparr>
      in c\<lparr>errorStreak := 0\<rparr>)"

definition recordError :: "Client \<Rightarrow> Client" where
  "recordError c =
     (let c = c\<lparr>clientMetrics := (clientMetrics c)\<lparr>FailedRequests :=
                    FailedRequests (clientMetrics c) + 1\<rparr>\<rparr>
      in c\<lparr>errorStreak := errorStreak c + 1\<rparr>)"

definition shouldRefreshDueToErrors :: "Client \<Rightarrow> bool" where
  "shouldRefreshDueToErrors c = (errorStreak c \<ge> ErrorThresholdForRefresh (clientConfig c))"

definition getErrorStreak :: "Client \<Rightarrow> int" where
  "getErrorStreak c = errorStreak c"

definition updateLatencyMetrics :: "int \<Rightarrow> Client \<Rightarrow> Client" where
  "updateLatencyMetrics duration c =
     (let latencyMs = of_int duration / 1000000 :: real;
          totalRequests = (of_int (SuccessfulRequests (clientMetrics c) + FailedRequests (clientMetrics c)) :: real)
      in if totalRequests = 1
         then c\<lparr>clientMetrics := (clientMetrics c)\<lparr>AverageLatency := latencyMs\<rparr>\<rparr>
         else c\<lparr>clientMetrics := (clientMetrics c)\<lparr>AverageLatency :=
                  (1 - 1 / 10) * AverageLatency (clientMetrics c) + 1 / 10 * latencyMs\<rparr>\<rparr>)"

text \<open>
  How the loop of \<open>executeWithRetry\<close> ends: the operation succeeded, the context was done
  during the back-off, or the loop was left with the last error (if any attempt was made).
\<close>

datatype 'u loop_exit = Succeeded 'u | Cancelled error | LoopLeft "error option"

definition backoffDuration :: "ProductionConfig \<Rightarrow> int \<Rightarrow> int" where
  "backoffDuration cfg attempt =
     int_of_float (of_int (RetryBackoffBase cfg) * RetryBackoffMultiplier cfg ^ nat (attempt - 1))"

text \<open>
  The loop from \<open>attempt\<close> on. \<open>calls\<close> is not a variable of the code: it lists what the
  calls of the operation have returned so far, the latest last.
\<close>

function retry_loop ::
  "parsers \<Rightarrow> 'u retry_env \<Rightarrow> int \<Rightarrow> int \<Rightarrow> error option \<Rightarrow> (error + 'u) list \<Rightarrow> Client
     \<Rightarrow> ('u loop_exit \<times> Client \<times> (error + 'u) list) outcome" where
  "retry_loop px env maxAttempts attempt lastError calls c =
     (if attempt \<le> maxAttempts then
        (case operation env (nat attempt) c of
           Panics \<Rightarrow> Panics
         | Diverges \<Rightarrow> Diverges
         | Returns (Inr result, c) \<Rightarrow>
             Returns (Succeeded result, recordSuccess (t_success1 env) (t_success2 env) c,
                      calls @ [Inr result])
         | Returns (Inl err, c) \<Rightarrow>
             (let lastError = Some err;
                  c = recordError c;
                  calls = calls @ [Inl err]
              in if attempt \<ge> maxAttempts \<or> ctx_Err env (nat attempt) \<noteq> None
                 then Returns (LoopLeft lastError, c, calls)
                 else if timer_first env (nat attempt) (backoffDuration (clientConfig c) attempt)
                 then
                   (if shouldRefreshDueToErrors c
                    then (case ForceRefreshTransactionID px (refresh_world env (nat attempt)) (txnGen c) of
                            Panics \<Rightarrow> Panics
                          | Diverges \<Rightarrow> Diverges
                          | Returns (r, tg) \<Rightarrow>
                              retry_loop px env maxAttempts (attempt + 1) lastError calls
                                (c\<lparr>txnGen := tg\<rparr>))
                    else retry_loop px env maxAttempts (attempt + 1) lastError calls c)
                 else Returns (Cancelled (ctx_Done_Err env (nat attempt)), c, calls)))
      else Returns (LoopLeft lastError, c, calls))"
  by pat_completeness auto
termination
  by (relation "measure (\<lambda>(px, env, maxAttempts, attempt, lastError, calls, c).
                           nat (maxAttempts + 1 - attempt))") auto

declare retry_loop.simps [simp del]

text \<open>
  \<open>executeWithRetry\<close>. The deferred \<open>updateLatencyMetrics\<close> runs on every return. The third
  component of the result is the list of what the calls of the operation returned.
\<close>

definition executeWithRetry ::
  "parsers \<Rightarrow> 'u retry_env \<Rightarrow> Client \<Rightarrow> ((error + 'u) \<times> Client \<times> (error + 'u) list) outcome" where
  "executeWithRetry px env c =
     (let c = c\<lparr>totalRequests := totalRequests c + 1\<rparr>;
          maxAttempts = (if retryEnabled c then wrap64 (MaxRetryAttempts (clientConfig c) + 1) else 1)
      in bind_outcome (retry_loop px env maxAttempts 1 None [] c) (\<lambda>(exit, c, calls).
           (let c = updateLatencyMetrics (elapsed env) c
            in case exit of
                 Succeeded result \<Rightarrow> Returns (Inr result, c, calls)
               | Cancelled err \<Rightarrow> Returns (Inl err, c, calls)
               | LoopLeft lastError \<Rightarrow>
                   (case lastError of
                      Some err \<Rightarrow>
                        Returns (Inl (Errorf (''request failed after '' @ Itoa maxAttempts @ '' attempts'') err),
                                 c, calls)
                    | None \<Rightarrow>
                        Returns (Inl (New (''request failed after '' @ Itoa maxAttempts
                                            @ '' attempts: %!w(<nil>)'')),
                                 c, calls)))))"

text \<open>
  A client on the generator of the fixture, with the development configuration (two
  retries, a forced refresh from the first error on), and a call whose operation fails at
  every attempt while nothing cancels the context and every request of a forced refresh
  fails.
\<close>

definition fixture_client :: Client where
  "fixture_client =
     \<lparr>clientConfig = DevelopmentConfig, txnGen = fixture_generator,
      guestToken = ''1950000000000000000'', guestID = ''v1%3A1700000000000'',
      clientMetrics = \<lparr>TotalRequests = 0, SuccessfulRequests = 0, FailedRequests = 0,
                        RetryAttempts = 0, ClientCacheHits = 0, ClientCacheMisses = 0,
                        AverageLatency = 0, LastSuccessTime = 0, UptimeStart = 0\<rparr>,
      lastSuccess = 0, errorStreak = 0, totalRequests = 0, retryEnabled = True,
      debugEnabled = False\<rparr>"

definition failing_env :: "unit retry_env" where
  "failing_env =
     \<lparr>operation = (\<lambda>k c. Returns (Inl (New (''API error: 500 at attempt '' @ Itoa (int k))), c)),
      ctx_Err = (\<lambda>k. None),
      timer_first = (\<lambda>k d. True),
      ctx_Done_Err = (\<lambda>k. New ''context canceled''),
      refresh_world = (\<lambda>k. broken_world 5000),
      t_success1 = 0, t_success2 = 0, elapsed = 0\<rparr>"

section \<open>Base64: decoding undoes encoding, with or without the padding\<close>

lemma distinct_encodeStd: "distinct encodeStd"
  by (simp add: encodeStd_def)

lemma length_encodeStd: "length encodeStd = 64"
  by (simp add: encodeStd_def)

lemma dec_enc_char: "v < 64 \<Longrightarrow> dec_char (enc_char v) = Some v"
  unfolding dec_char_def enc_char_def
  using map_of_zip_nth[of encodeStd "[0..<64]" v] distinct_encodeStd length_encodeStd
  by simp

lemma enc_char_mem: "enc_char v \<in> set encodeStd"
  unfolding enc_char_def by (rule nth_mem) (simp add: length_encodeStd)

lemma enc_char_not_pad: "enc_char v \<noteq> CHR ''=''"
proof -
  have "CHR ''='' \<notin> set encodeStd" by (simp add: encodeStd_def)
  then show ?thesis using enc_char_mem[of v] by metis
qed

lemma enc_char_not_nl: "enc_char v \<noteq> CHR 0x0D" "enc_char v \<noteq> CHR 0x0A"
proof -
  have "CHR 0x0D \<notin> set encodeStd" "CHR 0x0A \<notin> set encodeStd"
    by (simp_all add: encodeStd_def)
  then show "enc_char v \<noteq> CHR 0x0D" "enc_char v \<noteq> CHR 0x0A"
    using enc_char_mem[of v] by metis+
qed

lemma dec_enc: "dec_char (enc_char v) = Some (v mod 64)"
  using dec_enc_char[of "v mod 64"] by (simp add: enc_char_def)

lemma trim_no_pad: "xs = [] \<or> last xs \<noteq> CHR ''='' \<Longrightarrow> trimBase64Padding xs = xs"
  by (cases xs rule: rev_cases) (auto simp: nth_append trimBase64Padding.simps)

lemma trim_replicate:
  "xs = [] \<or> last xs \<noteq> CHR ''='' \<Longrightarrow> trimBase64Padding (xs @ replicate k (CHR ''='')) = xs"
proof (induction k)
  case 0
  then show ?case using trim_no_pad by simp
next
  case (Suc k)
  have eq: "xs @ replicate (Suc k) (CHR ''='') = (xs @ replicate k (CHR ''='')) @ [CHR ''='']"
    by (simp add: replicate_append_same)
  have "trimBase64Padding (xs @ replicate (Suc k) (CHR ''=''))
        = trimBase64Padding (xs @ replicate k (CHR ''=''))"
    unfolding eq by (subst trimBase64Padding.simps) (simp add: nth_append)
  with Suc show ?case by simp
qed

lemma add_padding_restore:
  assumes "(length xs + k) mod 4 = 0" "k < 4"
  shows "add_padding xs = xs @ replicate k (CHR ''='')"
proof -
  define r where "r = length xs mod 4"
  have r4: "r < 4" by (simp add: r_def)
  have m: "(r + k) mod 4 = 0" using assms(1) by (simp add: r_def mod_add_left_eq)
  have rk: "r + k = 0 \<or> r + k = 4"
  proof (cases "r + k < 4")
    case True
    then show ?thesis using m by simp
  next
    case False
    then have "(r + k) mod 4 = r + k - 4" using r4 assms(2)
      by (simp add: mod_if)
    then show ?thesis using m False by simp
  qed
  have "(4 - r) mod 4 = k" using rk r4 assms(2) by auto
  then show ?thesis by (simp add: add_padding_def r_def)
qed

lemma encode_shape:
  "\<exists>xs k. EncodeToString bs = xs @ replicate k (CHR ''='') \<and> k < 4
     \<and> (xs = [] \<or> last xs \<noteq> CHR ''='') \<and> (length xs + k) mod 4 = 0"
proof (induction bs rule: EncodeToString.induct)
  case (1 a b c rest)
  then obtain xs k where h: "EncodeToString rest = xs @ replicate k (CHR ''='')" "k < 4"
    "xs = [] \<or> last xs \<noteq> CHR ''=''" "(length xs + k) mod 4 = 0" by auto
  let ?val = "unat a * 65536 + unat b * 256 + unat c"
  let ?pre = "[enc_char (?val div 262144), enc_char (?val div 4096), enc_char (?val div 64), enc_char ?val]"
  have e: "EncodeToString (a # b # c # rest) = (?pre @ xs) @ replicate k (CHR ''='')"
    using h(1) by (simp add: Let_def)
  have l: "?pre @ xs = [] \<or> last (?pre @ xs) \<noteq> CHR ''=''"
    using h(3) by (auto simp: enc_char_not_pad)
  have "(4 + (length xs + k)) mod 4 = 0" using h(4) by simp
  then have m: "(length (?pre @ xs) + k) mod 4 = 0" by (simp add: add.assoc)
  show ?case
    by (rule exI[of _ "?pre @ xs"], rule exI[of _ k]) (use e l m h(2) in blast)
next
  case (2 a b)
  let ?val = "unat a * 65536 + unat b * 256"
  let ?pre = "[enc_char (?val div 262144), enc_char (?val div 4096), enc_char (?val div 64)]"
  have e: "EncodeToString [a, b] = ?pre @ replicate 1 (CHR ''='')" by (simp add: Let_def)
  have l: "?pre = [] \<or> last ?pre \<noteq> CHR ''=''" by (simp add: enc_char_not_pad)
  have m: "(length ?pre + 1) mod 4 = 0" "(1::nat) < 4" by simp_all
  show ?case
    by (rule exI[of _ ?pre], rule exI[of _ 1]) (use e l m in blast)
next
  case (3 a)
  let ?val = "unat a * 65536"
  let ?pre = "[enc_char (?val div 262144), enc_char (?val div 4096)]"
  have e: "EncodeToString [a] = ?pre @ replicate 2 (CHR ''='')"
    by (simp add: Let_def numeral_2_eq_2)
  have l: "?pre = [] \<or> last ?pre \<noteq> CHR ''=''" by (simp add: enc_char_not_pad)
  have m: "(length ?pre + 2) mod 4 = 0" "(2::nat) < 4" by simp_all
  show ?case
    by (rule exI[of _ ?pre], rule exI[of _ 2]) (use e l m in blast)
next
  case 4
  show ?case
    by (rule exI[of _ "[]"], rule exI[of _ 0]) simp
qed

lemma repad_trim_encode: "add_padding (trimBase64Padding (EncodeToString bs)) = EncodeToString bs"
proof -
  obtain xs k where h: "EncodeToString bs = xs @ replicate k (CHR ''='')" "k < 4"
    "xs = [] \<or> last xs \<noteq> CHR ''=''" "(length xs + k) mod 4 = 0"
    using encode_shape[of bs] by auto
  show ?thesis using h trim_replicate[OF h(3)] add_padding_restore[OF h(4) h(2)] by simp
qed

lemma digits64:
  fixes n :: nat
  assumes "n < 16777216"
  shows "(n div 262144) mod 64 * 262144 + (n div 4096) mod 64 * 4096 + (n div 64) mod 64 * 64
           + n mod 64 = n"
proof -
  have 1: "n = (n div 64) * 64 + n mod 64" by simp
  have "n div 64 div 64 = n div 4096" by (simp add: div_mult2_eq[symmetric])
  then have 2: "n div 64 = (n div 4096) * 64 + (n div 64) mod 64"
    using div_mult_mod_eq[of "n div 64" 64] by simp
  have "n div 4096 div 64 = n div 262144" by (simp add: div_mult2_eq[symmetric])
  then have 3: "n div 4096 = (n div 262144) * 64 + (n div 4096) mod 64"
    using div_mult_mod_eq[of "n div 4096" 64] by simp
  have "n div 262144 < 64" using assms by simp
  then have 4: "(n div 262144) mod 64 = n div 262144" by simp
  show ?thesis using 1 2 3 4 by linarith
qed

lemma of_nat_256: "(of_nat (x * 256 + y) :: byte) = of_nat y"
  by (simp only: word_of_nat_eq_iff take_bit_eq_mod) simp

lemma byte_parts:
  fixes a b c :: byte
  defines "val \<equiv> unat a * 65536 + unat b * 256 + unat c"
  shows "val < 16777216"
    and "(of_nat (val div 65536) :: byte) = a"
    and "(of_nat (val div 256) :: byte) = b"
    and "(of_nat val :: byte) = c"
proof -
  have ba: "unat a < 256" and bb: "unat b < 256" and bc: "unat c < 256"
    using unsigned_less[of a, where ?'a=nat] unsigned_less[of b, where ?'a=nat]
      unsigned_less[of c, where ?'a=nat] by simp_all
  show "val < 16777216" using ba bb bc unfolding val_def by linarith
  have "val div 65536 = unat a" using bb bc unfolding val_def by simp
  then show "(of_nat (val div 65536) :: byte) = a" by simp
  have "val div 256 = unat a * 256 + unat b" using bc unfolding val_def by simp
  then have "(of_nat (val div 256) :: byte) = of_nat (unat b)"
    by (simp only: of_nat_256)
  then show "(of_nat (val div 256) :: byte) = b" by simp
  have "val = (unat a * 256 + unat b) * 256 + unat c" unfolding val_def by simp
  then have "(of_nat val :: byte) = of_nat (unat c)"
    by (simp only: of_nat_256)
  then show "(of_nat val :: byte) = c" by simp
qed

lemma decode_quantum3:
  fixes a b c :: byte
  defines "val \<equiv> unat a * 65536 + unat b * 256 + unat c"
  shows "decode_quanta (enc_char (val div 262144) # enc_char (val div 4096) # enc_char (val div 64)
                          # enc_char val # r)
         = map_option (\<lambda>bs. [a, b, c] @ bs) (decode_quanta r)"
proof -
  have v: "val < 16777216" and ba: "(of_nat (val div 65536) :: byte) = a"
    and bb: "(of_nat (val div 256) :: byte) = b" and bc: "(of_nat val :: byte) = c"
    unfolding val_def by (rule byte_parts)+
  have d: "(val div 262144) mod 64 * 262144 + (val div 4096) mod 64 * 4096
             + (val div 64) mod 64 * 64 + val mod 64 = val"
    by (rule digits64[OF v])
  show ?thesis
    by (simp only: decode_quanta.simps dec_enc option.case enc_char_not_pad if_False Let_def
          d ba bb bc)
qed

lemma decode_quantum2:
  fixes a b :: byte
  defines "val \<equiv> unat a * 65536 + unat b * 256"
  shows "decode_quanta [enc_char (val div 262144), enc_char (val div 4096), enc_char (val div 64),
                        CHR ''='']
         = Some [a, b]"
proof -
  have val': "val = unat a * 65536 + unat b * 256 + unat (0::byte)" unfolding val_def by simp
  have v: "val < 16777216" and ba: "(of_nat (val div 65536) :: byte) = a"
    and bb: "(of_nat (val div 256) :: byte) = b"
    unfolding val' by (rule byte_parts)+
  have d: "(val div 262144) mod 64 * 262144 + (val div 4096) mod 64 * 4096
             + (val div 64) mod 64 * 64 + val mod 64 = val"
    by (rule digits64[OF v])
  have "val = (unat a * 1024 + unat b * 4) * 64" unfolding val_def by simp
  then have z: "val mod 64 = 0" by simp
  have d': "(val div 262144) mod 64 * 262144 + (val div 4096) mod 64 * 4096
              + (val div 64) mod 64 * 64 = val"
    by (rule d[unfolded z add_0_right])
  show ?thesis
    by (simp only: decode_quanta.simps dec_enc option.case enc_char_not_pad if_False if_True
          simp_thms Let_def d' ba bb)
qed

lemma decode_quantum1:
  fixes a :: byte
  defines "val \<equiv> unat a * 65536"
  shows "decode_quanta [enc_char (val div 262144), enc_char (val div 4096), CHR ''='', CHR ''='']
         = Some [a]"
proof -
  have val': "val = unat a * 65536 + unat (0::byte) * 256 + unat (0::byte)"
    unfolding val_def by simp
  have v: "val < 16777216" and ba: "(of_nat (val div 65536) :: byte) = a"
    unfolding val' by (rule byte_parts)+
  have d: "(val div 262144) mod 64 * 262144 + (val div 4096) mod 64 * 4096
             + (val div 64) mod 64 * 64 + val mod 64 = val"
    by (rule digits64[OF v])
  have "val = (unat a * 1024) * 64" unfolding val_def by simp
  then have z: "val mod 64 = 0" by simp
  have "val div 64 = (unat a * 16) * 64" unfolding val_def by simp
  then have z2: "(val div 64) mod 64 = 0" by simp
  have d': "(val div 262144) mod 64 * 262144 + (val div 4096) mod 64 * 4096 = val"
    by (rule d[unfolded z z2 mult_zero_left add_0_right])
  show ?thesis
    by (simp only: decode_quanta.simps dec_enc option.case enc_char_not_pad if_False if_True
          simp_thms Let_def d' ba)
qed

lemma decode_encode: "decode_quanta (EncodeToString bs) = Some bs"
proof (induction bs rule: EncodeToString.induct)
  case (1 a b c rest)
  note IH = this
  let ?val = "unat a * 65536 + unat b * 256 + unat c"
  let ?rhs = "enc_char (?val div 262144) # enc_char (?val div 4096) # enc_char (?val div 64)
                # enc_char ?val # EncodeToString rest"
  have e: "EncodeToString (a # b # c # rest) = ?rhs" by (simp add: Let_def)
  have "decode_quanta ?rhs
        = map_option (\<lambda>bs. [a, b, c] @ bs) (decode_quanta (EncodeToString rest))"
    by (rule decode_quantum3)
  also have "\<dots> = Some (a # b # c # rest)" by (simp only: IH option.map append.simps)
  finally show ?case by (simp only: e)
next
  case (2 a b)
  have e: "EncodeToString [a, b] = [enc_char ((unat a * 65536 + unat b * 256) div 262144),
            enc_char ((unat a * 65536 + unat b * 256) div 4096),
            enc_char ((unat a * 65536 + unat b * 256) div 64), CHR ''='']" by (simp add: Let_def)
  show ?case unfolding e by (rule decode_quantum2)
next
  case (3 a)
  have e: "EncodeToString [a] = [enc_char ((unat a * 65536) div 262144),
            enc_char ((unat a * 65536) div 4096), CHR ''='', CHR ''='']" by (simp add: Let_def)
  show ?case unfolding e by (rule decode_quantum1)
next
  case 4
  show ?case by simp
qed

lemma filter_encode:
  "filter (\<lambda>c. c \<noteq> CHR 0x0D \<and> c \<noteq> CHR 0x0A) (EncodeToString bs) = EncodeToString bs"
  by (induction bs rule: EncodeToString.induct) (simp_all add: Let_def enc_char_not_nl)

lemma base64_roundtrip:
  "DecodeString (add_padding (trimBase64Padding (EncodeToString bs))) = Some bs"
  by (simp only: DecodeString_def repad_trim_encode filter_encode decode_encode)

section \<open>The transaction ID under its mask\<close>

lemma length_digest_bytes: "length (digest_bytes h) = 32"
  by (simp add: digest_bytes_def)

lemma length_timeNowBytes: "length (timeNowBytes_of t) = 4"
  by (simp add: timeNowBytes_of_def)

lemma xor_twice: "map (\<lambda>b. b XOR r) (map (\<lambda>b. b XOR r) bs) = (bs :: byte list)"
  by (induction bs) (simp_all add: xor.assoc)

lemma uint_byte_of_int: "0 \<le> k \<Longrightarrow> k < 256 \<Longrightarrow> uint (word_of_int k :: byte) = k"
  by (simp add: uint_word_of_int take_bit_eq_mod)

lemma uint_bytes_of_ints:
  "\<forall>k\<in>set ks. 0 \<le> k \<and> k < 256 \<Longrightarrow> map uint (map (\<lambda>kb. word_of_int kb :: byte) ks) = ks"
  by (induction ks) (simp_all add: uint_byte_of_int)

lemma byte_of_int_mod: "(word_of_int (y mod 256) :: byte) = word_of_int y"
  by (simp add: word_of_int_eq_iff take_bit_eq_mod)

lemma byte_of_int_and: "(word_of_int (y AND 255) :: byte) = word_of_int y"
proof -
  have "(255::int) = mask 8" by (simp add: mask_eq_exp_minus_1)
  then have "y AND 255 = take_bit 8 y" by (simp add: take_bit_eq_mask)
  then show ?thesis by (simp add: word_of_int_eq_iff)
qed

lemma byte_of_nat_mod: "(of_nat (y mod 256) :: byte) = of_nat y"
  by (simp add: word_of_nat_eq_iff take_bit_eq_mod)

lemma digest_byte:
  "(ucast (drop_bit (8 * k) (h :: 256 word)) :: byte) = of_nat (unat h div 256 ^ k mod 256)"
proof -
  have "unat (drop_bit (8 * k) h) = unat h div 2 ^ (8 * k)"
  proof -
    have "take_bit 256 (unat h) = unat h"
      by (rule take_bit_nat_eq_self) (use unsigned_less[of h, where ?'a=nat] in simp)
    then have "unat (drop_bit (8 * k) h) = drop_bit (8 * k) (unat h)"
      by (simp add: unsigned_drop_bit_eq)
    then show ?thesis by (simp only: drop_bit_eq_div)
  qed
  moreover have "(2::nat) ^ (8 * k) = 256 ^ k" by (simp add: power_mult)
  ultimately have "unat (drop_bit (8 * k) h) = unat h div 256 ^ k" by simp
  moreover have "(ucast (drop_bit (8 * k) h) :: byte) = of_nat (unat (drop_bit (8 * k) h))"
    by simp
  ultimately show ?thesis by (simp add: byte_of_nat_mod)
qed

lemma timeNowBytes_little_endian: "timeNowBytes_of t = little_endian_4_bytes t"
proof -
  have u: "[0..<4] = [0, 1, 2, 3]" by (simp add: upt_rec)
  have "timeNowBytes_of t =
          [word_of_int (t div 1 AND 255), word_of_int (t div 256 AND 255),
           word_of_int (t div 65536 AND 255), word_of_int (t div 16777216 AND 255)]"
    unfolding timeNowBytes_of_def u by (simp add: drop_bit_eq_div)
  then show ?thesis
    by (simp only: byte_of_int_and little_endian_4_bytes_def byte_of_int_mod div_by_1)
qed

lemma digest_bytes_prefix: "take 16 (digest_bytes h) = digest_prefix 16 h"
proof -
  have "take 16 (digest_bytes h) = map (\<lambda>i. ucast (drop_bit (8 * (31 - i)) h)) [0..<16]"
    by (simp add: digest_bytes_def take_map)
  then show ?thesis by (simp only: digest_byte digest_prefix_def)
qed

lemma hashString_is_hash_input: "hashString_of method path t ak = spec_hash_input method path t ak"
  by (simp add: hashString_of_def spec_hash_input_def DefaultKeyword_def)

lemma timeNow_is_floor:
  assumes "1682924400 * 1000000 \<le> nowMicro" "nowMicro < 2 ^ 63"
  shows "timeNow_of nowMicro = spec_now_s nowMicro"
proof -
  have e: "wrap64 (TwitterEpoch * 1000000) = 1682924400 * 1000000"
    by (simp add: wrap64_def TwitterEpoch_def)
  have "0 \<le> nowMicro - 1682924400 * 1000000" "nowMicro - 1682924400 * 1000000 < 2 ^ 63"
    using assms by simp_all
  then have w: "wrap64 (nowMicro - 1682924400 * 1000000) = nowMicro - 1682924400 * 1000000"
    by (simp add: wrap64_def)
  have "quo (nowMicro - 1682924400 * 1000000) 1000000 = (nowMicro - 1682924400 * 1000000) div 1000000"
    using \<open>0 \<le> nowMicro - 1682924400 * 1000000\<close> by (simp add: quo_def sgn_if)
  then show ?thesis
    unfolding timeNow_of_def Let_def e w spec_now_s_def by simp
qed

text \<open>
  One microsecond before the epoch the code and section 4.4 part: the code's division
  truncates to second 0, the floor of the specification is second \<open>- 1\<close>.
\<close>

lemma timeNow_before_epoch:
  "timeNow_of (1682924400 * 1000000 - 1) = 0" "spec_now_s (1682924400 * 1000000 - 1) = - 1"
  by (simp_all add: timeNow_of_def spec_now_s_def wrap64_def quo_def TwitterEpoch_def)

text \<open>
  Claim C1. For every method, path, key bytes and mask byte \<open>r\<close>,
  \<open>generateUniqueTransactionID\<close> returns a transaction ID which, once the \<^verbatim>\<open>=\<close> padding is
  put back, decodes to a byte string of length \<open>1 + len(key_bytes) + 4 + 16 + 1\<close> whose
  first byte is \<open>r\<close>. XORing the bytes after the first with the first gives, first, the key
  bytes converted to bytes (the key bytes themselves when they lie in \<open>[0, 255]\<close>, as the
  bytes decoded from the verification key do), then the seconds since the epoch in four
  bytes, least significant first, then the first sixteen bytes of the SHA-256 digest of
  \<open>method ! path ! seconds obfiowerehiring animation_key\<close>, then the byte 3. With the clock
  at or after the epoch the seconds are \<open>floor((now_us - epoch_us) / 1e6)\<close>.
\<close>

theorem transaction_id_decodes:
  "\<exists>tid bs.
     generateUniqueTransactionID Sum256 nowMicro (Inr r) tg method path = Inr tid
     \<and> DecodeString (add_padding tid) = Some bs
     \<and> length bs = 1 + length (keyBytes tg) + 4 + 16 + 1
     \<and> hd bs = r
     \<and> take (length (keyBytes tg)) (map (\<lambda>b. b XOR hd bs) (tl bs))
           = map (\<lambda>kb. word_of_int kb) (keyBytes tg)
     \<and> ((\<forall>k\<in>set (keyBytes tg). 0 \<le> k \<and> k < 256) \<longrightarrow>
          map uint (take (length (keyBytes tg)) (map (\<lambda>b. b XOR hd bs) (tl bs))) = keyBytes tg)
     \<and> drop (length (keyBytes tg)) (map (\<lambda>b. b XOR hd bs) (tl bs))
           = little_endian_4_bytes (timeNow_of nowMicro)
             @ digest_prefix 16 (Sum256 (map of_char
                 (spec_hash_input method path (timeNow_of nowMicro) (animationKey tg))))
             @ [3]
     \<and> (1682924400 * 1000000 \<le> nowMicro \<and> nowMicro < 2 ^ 63 \<longrightarrow>
          drop (length (keyBytes tg)) (map (\<lambda>b. b XOR hd bs) (tl bs))
           = little_endian_4_bytes (spec_now_s nowMicro)
             @ digest_prefix 16 (Sum256 (map of_char
                 (spec_hash_input method path (spec_now_s nowMicro) (animationKey tg))))
             @ [3])"
proof -
  let ?k = "map (\<lambda>kb. word_of_int kb :: byte) (keyBytes tg)"
  let ?t = "timeNow_of nowMicro"
  let ?rest = "little_endian_4_bytes ?t
             @ digest_prefix 16 (Sum256 (map of_char (spec_hash_input method path ?t (animationKey tg))))
             @ [3]"
  let ?p = "?k @ ?rest"
  let ?bs = "r # map (\<lambda>b. b XOR r) ?p"
  let ?tid = "trimBase64Padding (EncodeToString ?bs)"
  have g: "generateUniqueTransactionID Sum256 nowMicro (Inr r) tg method path = Inr ?tid"
    by (simp add: generateUniqueTransactionID_def Let_def AdditionalRandomNumber_def
          timeNowBytes_little_endian digest_bytes_prefix hashString_is_hash_input)
  have d: "DecodeString (add_padding ?tid) = Some ?bs" by (rule base64_roundtrip)
  have l: "length ?bs = 1 + length (keyBytes tg) + 4 + 16 + 1"
    by (simp add: little_endian_4_bytes_def digest_prefix_def)
  have h: "hd ?bs = r" by simp
  have x: "map (\<lambda>b. b XOR hd ?bs) (tl ?bs) = ?p" using xor_twice[of r ?p] by simp
  have tk: "take (length (keyBytes tg)) (map (\<lambda>b. b XOR hd ?bs) (tl ?bs)) = ?k"
    unfolding x by simp
  have dr: "drop (length (keyBytes tg)) (map (\<lambda>b. b XOR hd ?bs) (tl ?bs)) = ?rest"
    unfolding x by simp
  have k: "(\<forall>k\<in>set (keyBytes tg). 0 \<le> k \<and> k < 256) \<longrightarrow>
          map uint (take (length (keyBytes tg)) (map (\<lambda>b. b XOR hd ?bs) (tl ?bs))) = keyBytes tg"
    unfolding tk using uint_bytes_of_ints[of "keyBytes tg"] by simp
  have s: "1682924400 * 1000000 \<le> nowMicro \<and> nowMicro < 2 ^ 63 \<longrightarrow>
          drop (length (keyBytes tg)) (map (\<lambda>b. b XOR hd ?bs) (tl ?bs))
           = little_endian_4_bytes (spec_now_s nowMicro)
             @ digest_prefix 16 (Sum256 (map of_char
                 (spec_hash_input method path (spec_now_s nowMicro) (animationKey tg))))
             @ [3]"
    unfolding dr using timeNow_is_floor[of nowMicro] by simp
  show ?thesis
    by (rule exI[of _ ?tid], rule exI[of _ ?bs]) (intro conjI g d l h tk k dr s)
qed

theorem transaction_id_decodes_witness:
  "list_all (\<lambda>k. 0 \<le> k \<and> k < 256) [0, 17, 255 :: int]
   \<and> 1682924400 * 1000000 \<le> (1700000000000000 :: int) \<and> (1700000000000000 :: int) < 2 ^ 63
   \<and> spec_now_s 1700000000000000 = 17075600
   \<and> spec_hash_input ''GET'' ''/x'' 17075600 ''ab'' = ''GET!/x!17075600obfiowerehiringab''
   \<and> (\<exists>tid bs.
     generateUniqueTransactionID
        (\<lambda>m. if m = map of_char ''GET!/x!17075600obfiowerehiringab''
              then 0x0102030405060708090A0B0C0D0E0F101112131415161718191A1B1C1D1E1F20 else 0)
        1700000000000000 (Inr 7)
        ((newGenerator DefaultProductionConfig)\<lparr>keyBytes := [0, 17, 255], animationKey := ''ab''\<rparr>)
        ''GET'' ''/x'' = Inr tid
     \<and> DecodeString (add_padding tid) = Some bs
     \<and> length bs = 25
     \<and> hd bs = 7
     \<and> map uint (take 3 (map (\<lambda>b. b XOR hd bs) (tl bs))) = [0, 17, 255]
     \<and> drop 3 (map (\<lambda>b. b XOR hd bs) (tl bs))
         = [144, 141, 4, 1] @ [1, 2, 3, 4, 5, 6, 7, 8, 9, 10, 11, 12, 13, 14, 15, 16] @ [3])"
proof -
  let ?H = "(\<lambda>m. if m = map of_char ''GET!/x!17075600obfiowerehiringab''
              then 0x0102030405060708090A0B0C0D0E0F101112131415161718191A1B1C1D1E1F20 else 0) :: byte list \<Rightarrow> 256 word"
  let ?tg = "(newGenerator DefaultProductionConfig)\<lparr>keyBytes := [0, 17, 255], animationKey := ''ab''\<rparr>"
  have rg: "\<forall>k\<in>set (keyBytes ?tg). 0 \<le> k \<and> k < 256" by simp
  have kb: "keyBytes ?tg = [0, 17, 255]" by simp
  have ak: "animationKey ?tg = ''ab''" by simp
  have tm: "1682924400 * 1000000 \<le> (1700000000000000 :: int) \<and> (1700000000000000 :: int) < 2 ^ 63"
    by simp
  have sn: "spec_now_s 1700000000000000 = 17075600" by (simp add: spec_now_s_def)
  have hi: "spec_hash_input ''GET'' ''/x'' 17075600 ''ab'' = ''GET!/x!17075600obfiowerehiringab''"
    by (simp add: spec_hash_input_def Itoa_def natToString.simps digit_char_def)
  have le: "little_endian_4_bytes 17075600 = [144, 141, 4, 1]"
    by (simp add: little_endian_4_bytes_def)
  have dp: "digest_prefix 16 (0x0102030405060708090A0B0C0D0E0F101112131415161718191A1B1C1D1E1F20)
            = [1, 2, 3, 4, 5, 6, 7, 8, 9, 10, 11, 12, 13, 14, 15, 16]"
    by (simp add: digest_prefix_def upt_rec)
  have hv: "?H (map of_char ''GET!/x!17075600obfiowerehiringab'')
            = 0x0102030405060708090A0B0C0D0E0F101112131415161718191A1B1C1D1E1F20"
    by (simp only: refl if_True)
  from transaction_id_decodes [of ?H 1700000000000000 7 ?tg "''GET''" "''/x''"]
  obtain tid bs where
    a: "generateUniqueTransactionID ?H 1700000000000000 (Inr 7) ?tg ''GET'' ''/x'' = Inr tid"
    and b: "DecodeString (add_padding tid) = Some bs"
    and c: "length bs = 1 + length (keyBytes ?tg) + 4 + 16 + 1"
    and d: "hd bs = 7"
    and e: "(\<forall>k\<in>set (keyBytes ?tg). 0 \<le> k \<and> k < 256) \<longrightarrow>
          map uint (take (length (keyBytes ?tg)) (map (\<lambda>b. b XOR hd bs) (tl bs))) = keyBytes ?tg"
    and f: "1682924400 * 1000000 \<le> (1700000000000000 :: int) \<and> (1700000000000000 :: int) < 2 ^ 63 \<longrightarrow>
          drop (length (keyBytes ?tg)) (map (\<lambda>b. b XOR hd bs) (tl bs))
           = little_endian_4_bytes (spec_now_s 1700000000000000)
             @ digest_prefix 16 (?H (map of_char
                 (spec_hash_input ''GET'' ''/x'' (spec_now_s 1700000000000000) (animationKey ?tg))))
             @ [3]"
    by blast
  from e rg have e': "map uint (take (length (keyBytes ?tg)) (map (\<lambda>b. b XOR hd bs) (tl bs))) = keyBytes ?tg"
    by blast
  from f tm have f': "drop (length (keyBytes ?tg)) (map (\<lambda>b. b XOR hd bs) (tl bs))
           = little_endian_4_bytes (spec_now_s 1700000000000000)
             @ digest_prefix 16 (?H (map of_char
                 (spec_hash_input ''GET'' ''/x'' (spec_now_s 1700000000000000) (animationKey ?tg))))
             @ [3]"
    by blast
  have c': "length bs = 25" using c unfolding kb by simp
  have e'': "map uint (take 3 (map (\<lambda>b. b XOR hd bs) (tl bs))) = [0, 17, 255]"
    using e' unfolding kb by (simp add: numeral_3_eq_3)
  have f3: "drop (length [0, 17, 255 :: int]) (map (\<lambda>b. b XOR hd bs) (tl bs))
         = [144, 141, 4, 1] @ [1, 2, 3, 4, 5, 6, 7, 8, 9, 10, 11, 12, 13, 14, 15, 16] @ [3]"
    using f' unfolding kb ak sn hi le hv dp .
  have f'': "drop 3 (map (\<lambda>b. b XOR hd bs) (tl bs))
         = [144, 141, 4, 1] @ [1, 2, 3, 4, 5, 6, 7, 8, 9, 10, 11, 12, 13, 14, 15, 16] @ [3]"
    using f3 by (simp add: numeral_3_eq_3)
  have l: "list_all (\<lambda>k. 0 \<le> k \<and> k < 256) [0, 17, 255 :: int]" by simp
  have x: "\<exists>tid bs.
     generateUniqueTransactionID ?H 1700000000000000 (Inr 7) ?tg ''GET'' ''/x'' = Inr tid
     \<and> DecodeString (add_padding tid) = Some bs
     \<and> length bs = 25
     \<and> hd bs = 7
     \<and> map uint (take 3 (map (\<lambda>b. b XOR hd bs) (tl bs))) = [0, 17, 255]
     \<and> drop 3 (map (\<lambda>b. b XOR hd bs) (tl bs))
         = [144, 141, 4, 1] @ [1, 2, 3, 4, 5, 6, 7, 8, 9, 10, 11, 12, 13, 14, 15, 16] @ [3]"
    by (rule exI[of _ tid], rule exI[of _ bs]) (intro conjI a b c' d e'' f'')
  from tm have t1: "1682924400 * 1000000 \<le> (1700000000000000 :: int)"
    and t2: "(1700000000000000 :: int) < 2 ^ 63" by simp_all
  show ?thesis by (intro conjI l t1 t2 sn hi x)
qed

section \<open>Rotation, matrix and start gradient\<close>

lemma padRow_nth: "i < length frameRow \<Longrightarrow> padRow frameRow ! i = frameRow ! i"
  by (simp add: padRow_def nth_append)

lemma length_padRow: "15 \<le> length (padRow frameRow)"
  by (simp add: padRow_def)

lemma interpolate_single:
  "interpolate [a] [b] v = Returns [max 0 (min 255 (a + (b - a) * v))]"
  by (simp add: interpolate_def)

text \<open>
  \<open>animate\<close> interpolates the rotation with the same \<open>interpolate\<close> as the colour, so the
  rotation handed to the matrix is \<open>from_rot + (to_rot - from_rot) * v\<close> cut to \<open>[0, 255]\<close>,
  with \<open>from_rot = 0\<close> and \<open>to_rot = floor (row[6] * (360 - 60) / 255 + 60)\<close>.
\<close>

lemma rotation_is_cut:
  "animate_rotation (padRow frameRow) v =
     Returns [max 0 (min 255 (0 + (solve (of_int (padRow frameRow ! 6)) 60 360 True - 0) * v))]"
  by (simp add: animate_rotation_def interpolate_single)

lemma solve_rotation_range:
  assumes "0 \<le> b" "b \<le> 255"
  shows "60 \<le> solve (of_int b) 60 360 True \<and> solve (of_int b) 60 360 True \<le> 360"
proof -
  have "0 \<le> (of_int b :: real) * (360 - 60) / 255" using assms by simp
  then have l: "(60::real) \<le> of_int \<lfloor>of_int b * (360 - 60) / 255 + 60 :: real\<rfloor>"
    by (simp add: le_floor_iff)
  have "(of_int b :: real) * (360 - 60) / 255 \<le> 300" using assms by simp
  then have "(of_int b :: real) * (360 - 60) / 255 + 60 \<le> 360" by simp
  then have "\<lfloor>of_int b * (360 - 60) / 255 + 60 :: real\<rfloor> \<le> 360" by (simp add: floor_le_iff)
  then have u: "of_int \<lfloor>of_int b * (360 - 60) / 255 + 60 :: real\<rfloor> \<le> (360::real)"
    by (metis of_int_le_iff of_int_numeral)
  from l u show ?thesis by (simp add: solve_def)
qed


text \<open>
  Claim C4, as amended. For control points \<open>(x1, y1, x2, y2)\<close> and a target \<open>t \<le> 0\<close>,
  \<open>evaluateCubicBezier\<close> returns \<open>start_gradient * t\<close>, where the start gradient is
  \<open>y1 / x1\<close> when \<open>x1 > 0\<close>, \<open>y2 / x2\<close> when \<open>x1 \<le> 0\<close>, \<open>y1 = 0\<close> and \<open>x2 > 0\<close>, and 0
  otherwise: the second test reads \<open>y1\<close>, not \<open>x1\<close>. In particular for \<open>x1 = 0\<close>,
  \<open>y1 \<noteq> 0\<close> and \<open>x2 > 0\<close> the result is 0.
\<close>

theorem cubic_bezier_start_gradient:
  assumes "t \<le> 0"
  shows "evaluateCubicBezier [x1, y1, x2, y2] t =
           Returns ((if x1 > 0 then y1 / x1 else if y1 = 0 \<and> x2 > 0 then y2 / x2 else 0) * t)
         \<and> (x1 = 0 \<and> y1 \<noteq> 0 \<and> x2 > 0 \<longrightarrow> evaluateCubicBezier [x1, y1, x2, y2] t = Returns 0)"
  using assms by (simp add: evaluateCubicBezier_def)

theorem cubic_bezier_start_gradient_witness:
  "(- 1 :: real) \<le> 0 \<and> (0::real) = 0 \<and> (1::real) \<noteq> 0 \<and> (1::real) > 0
   \<and> evaluateCubicBezier [0, 1, 1, 1] (- 1) = Returns 0"
  using cubic_bezier_start_gradient [of "- 1" 0 1 1 1]
  by simp

theorem cubic_bezier_start_gradient_counterexample:
  "evaluateCubicBezier [0, 1, 1, 1] (- 1) \<noteq> Returns (spec_start_gradient 0 1 1 1 * (- 1))"
  by (simp add: evaluateCubicBezier_def spec_start_gradient_def)

lemma cubic_bezier_short: "length controlPoints < 4 \<Longrightarrow> evaluateCubicBezier controlPoints t = Returns t"
  by (simp add: evaluateCubicBezier_def)

text \<open>
  Claim C5. For every angle, \<open>convertRotationToMatrix\<close> returns the cosine, the sine, the
  negated sine and the cosine of the angle in radians, in that order; the third and fourth
  entries are \<open>- sin\<close> and \<open>cos\<close>.
\<close>

theorem rotation_matrix_order:
  "convertRotationToMatrix \<theta> =
     [cos (\<theta> * pi / 180), sin (\<theta> * pi / 180), - sin (\<theta> * pi / 180), cos (\<theta> * pi / 180)]
   \<and> convertRotationToMatrix \<theta> ! 2 = - sin (\<theta> * pi / 180)
   \<and> convertRotationToMatrix \<theta> ! 3 = cos (\<theta> * pi / 180)"
  by (simp add: convertRotationToMatrix_def Let_def)

lemma rotation_matrix_quarter_turn: "convertRotationToMatrix 90 = [0, 1, - 1, 0]"
  by (simp add: convertRotationToMatrix_def)

section \<open>The fixture, evaluated\<close>

lemma dec_char_A: "dec_char CHR ''A'' = Some 0"
proof -
  have "enc_char 0 = CHR ''A''" by (simp add: enc_char_def encodeStd_def)
  then show ?thesis using dec_enc_char[of 0] by simp
qed

lemma decode_A8: "DecodeString ''AAAAAAAA'' = Some [0, 0, 0, 0, 0, 0]"
  by (simp add: DecodeString_def dec_char_A)

lemma decode_A4: "DecodeString ''AAAA'' = Some [0, 0, 0]"
  by (simp add: DecodeString_def dec_char_A)

lemma fetch_fixture:
  "fetchTwitterData fixture_parsers (fixture_world home_A js_A now r) tg =
     (None, tg\<lparr>homePageHTML := home_A,
               metrics := (metrics tg)\<lparr>HTMLDataFetches := HTMLDataFetches (metrics tg) + 1\<rparr>,
               onDemandFileHTML := js_A\<rparr>)"
  by (simp add: fetchTwitterData_def fixture_world_def fixture_parsers_def ondemand_url_def Let_def)

lemma Atoi_digit: "Atoi ''4'' = Inr 4" "Atoi ''1'' = Inr 1" "Atoi ''2'' = Inr 2" "Atoi ''7'' = Inr 7" "Atoi ''3'' = Inr 3"
  by (simp_all add: Atoi_def isDigit_def digitsValue_def)

lemma indices_A:
  "onDemandFileHTML tg = js_A \<Longrightarrow>
   extractIndices fixture_parsers tg = (None, tg\<lparr>rowIndex := 4, keyBytesIndices := [1, 2]\<rparr>)"
  by (simp add: extractIndices_def fixture_parsers_def Atoi_digit)

lemma key_A:
  "homePageHTML tg = home_A \<Longrightarrow>
   extractKey fixture_parsers tg = (None, tg\<lparr>key := ''AAAAAAAA'', keyBytes := [0, 0, 0, 0, 0, 0]\<rparr>)"
  by (simp add: extractKey_def fixture_parsers_def fixture_tree_def decode_A8)

lemma padRow_A: "padRow [3, 4, 5, 6, 7, 8] = [3, 4, 5, 6, 7, 8, 0, 0, 0, 0, 0, 0, 0, 0, 0]"
  by (simp add: padRow_def numeral_eq_Suc)

lemma isOdd_vals: "isOdd 0 = 0" "isOdd 1 = - 1" "isOdd 2 = 0" "isOdd 3 = - 1" "isOdd 4 = 0" "isOdd 5 = - 1"
  "isOdd 6 = 0" "isOdd 7 = - 1"
  by (simp_all add: isOdd_def rem_def quo_def)

lemma solve_zero: "solve 0 0 1 False = 0" "solve 0 (- 1) 1 False = - 1"
  by (simp_all add: solve_def math_Round_def)

lemma curve_A:
  "map (\<lambda>(i, val). solve (of_int val) (isOdd (int i)) 1 False)
     (enumerate 0 (drop 7 [3, 4, 5, 6, 7, 8, 0, 0, 0, 0, 0, 0, 0, 0, 0 :: int]))
   = [0, - 1, 0, - 1, 0, - 1, 0, - 1]"
  by (simp add: isOdd_vals solve_zero)

lemma bezier_A: "evaluateCubicBezier [0, - 1, 0, - 1, 0, - 1, 0, - 1] 0 = Returns 0"
  by (simp add: evaluateCubicBezier_def)

lemma color_A: "animate_color [3, 4, 5, 6, 7, 8, 0, 0, 0, 0, 0, 0, 0, 0, 0] 0 = Returns [3, 4, 5, 1]"
  by (simp add: animate_color_def interpolate_def upt_rec)

lemma rot_A: "animate_rotation [3, 4, 5, 6, 7, 8, 0, 0, 0, 0, 0, 0, 0, 0, 0] 0 = Returns [0]"
  by (simp add: animate_rotation_def interpolate_def)

lemma powi_neg: "(2::real) powi (- int n) = 1 / 2 ^ n"
  by (simp add: power_int_minus divide_inverse)

lemma powi_52: "(2::real) powi (0 - 52) = 1 / 4503599627370496"
  using powi_neg[of 52] by simp

lemma powi_53: "(2::real) powi (- 1 - 52) = 1 / 9007199254740992"
  using powi_neg[of 53] by simp

lemma float64_0: "float64 0 = 0"
  by (simp add: float64_def)

lemma exponent_1: "max \<lfloor>log 2 \<bar>1::real\<bar>\<rfloor> (- 1022) = 0"
  by simp

lemma float64_1: "float64 1 = 1"
  unfolding float64_def Let_def exponent_1 powi_52 by simp

lemma floatToHex_1: "floatToHex 1 = ''1''"
  unfolding floatToHex_def Let_def float64_1
  by (simp add: int_of_float_def int_digits.simps quo_def rem_def parseDigit_def
        Itoa_def natToString.simps digit_char_def)

lemma floatToHex_0: "floatToHex 0 = ''0''"
  by (simp add: floatToHex_def float64_0)

lemma matrix_component_vals: "matrix_component 1 = ''1''" "matrix_component 0 = ''0''"
  by (simp_all add: matrix_component_def math_Round_def float64_1 float64_0 floatToHex_1 floatToHex_0)

text \<open>
  A value that is not a binary fraction: 0.97 is rounded to
  \<open>4368491638549381 / 2 ^ 52\<close>, whose fraction has thirteen hexadecimal digits.
\<close>

lemma floor_log2_half_to_one:
  assumes "1 / 2 \<le> x" "x < 1"
  shows "\<lfloor>log 2 (x :: real)\<rfloor> = - 1"
proof -
  have a: "(2::real) powr of_int (- 1) \<le> x"
    using powr_neg_one[of "2::real"] assms by simp
  have b: "x < 2 powr of_int (- 1 + 1)" using assms by simp
  have "0 < x" "(1::real) < 2" using assms by simp_all
  from floor_log_eq_powr_iff[OF this, of "- 1"] a b show ?thesis by blast
qed

lemma float64_half_to_one:
  assumes "1 / 2 \<le> x" "x < 1"
  shows "float64 x =
           (let q = x * 9007199254740992;
                n = \<lfloor>q\<rfloor>;
                m = (if q - of_int n < 1 / 2 then n
                     else if 1 / 2 < q - of_int n then n + 1
                     else if even n then n else n + 1)
            in of_int m / 9007199254740992)"
proof -
  have a: "\<bar>x\<bar> = x" "x \<noteq> 0" using assms by simp_all
  have m: "max (- 1 :: int) (- 1022) = - 1" by simp
  show ?thesis
    unfolding float64_def Let_def a floor_log2_half_to_one[OF assms] m powi_53
    using a(2) by simp
qed

lemma float64_097: "float64 (97 / 100) = 4368491638549381 / 4503599627370496"
  by (simp add: float64_half_to_one Let_def)

lemma float64_097_fixed:
  "float64 (4368491638549381 / 4503599627370496) = 4368491638549381 / 4503599627370496"
  by (simp add: float64_half_to_one Let_def)

lemma char_of_vals:
  "char_of (70::nat) = CHR ''F''" "char_of (69::nat) = CHR ''E''" "char_of (66::nat) = CHR ''B''"
  by (simp_all add: char_of_def bit_iff_odd)

lemma floatToHex_097_rounded:
  "floatToHex (4368491638549381 / 4503599627370496) = ''0.F851EB851EB85''"
  unfolding floatToHex_def Let_def float64_097_fixed
  by (simp add: int_of_float_def frac_digits.simps parseDigit_def Itoa_def natToString.simps
        digit_char_def char_of_vals)

lemma floatToHex_097: "floatToHex (97 / 100) = ''0.F851EB851EB85''"
proof -
  have "floatToHex (97 / 100) = floatToHex (4368491638549381 / 4503599627370496)"
    unfolding floatToHex_def float64_097 float64_097_fixed by (rule refl)
  then show ?thesis by (simp only: floatToHex_097_rounded)
qed

lemma matrix_component_097: "matrix_component (97 / 100) = ''0.F851EB851EB85''"
  by (simp add: matrix_component_def math_Round_def float64_097 floatToHex_097_rounded)

lemma sprintf_x_vals: "sprintf_x 3 = ''3''" "sprintf_x 4 = ''4''" "sprintf_x 5 = ''5''"
  by (simp_all add: sprintf_x_def natToHex.simps hex_char_def)

lemma round_vals: "int_of_float (math_Round 3) = 3" "int_of_float (math_Round 4) = 4" "int_of_float (math_Round 5) = 5"
  by (simp_all add: int_of_float_def math_Round_def) 

lemma matrix_0: "convertRotationToMatrix 0 = [1, 0, 0, 1]"
  by (simp add: convertRotationToMatrix_def)

lemma ToLower_digits: "ToLower ''345100100'' = ''345100100''"
  by (simp add: ToLower_def)

lemma animate_A: "animate [3, 4, 5, 6, 7, 8] 0 = Returns ''345100100''"
  unfolding animate_def padRow_A Let_def curve_A bezier_A bind_outcome.simps color_A rot_A
  by (simp add: matrix_0 matrix_component_vals sprintf_x_vals round_vals upt_rec ToLower_digits)

lemma Atoi_small:
  "Atoi ''3'' = Inr 3" "Atoi ''4'' = Inr 4" "Atoi ''5'' = Inr 5" "Atoi ''6'' = Inr 6"
  "Atoi ''7'' = Inr 7" "Atoi ''8'' = Inr 8" "Atoi ''9'' = Inr 9" "Atoi ''10'' = Inr 10"
  "Atoi ''11'' = Inr 11" "Atoi ''12'' = Inr 12" "Atoi ''13'' = Inr 13" "Atoi ''14'' = Inr 14"
  by (simp_all add: Atoi_def isDigit_def digitsValue_def)

lemma parse_row_1: "parse_row '' 3,4 5,6 7,8 '' = Some [3, 4, 5, 6, 7, 8]"
  by (simp add: parse_row_def TrimSpace_def isSpace_def isDigit_def Fields_def Atoi_small List.map_filter_simps)

lemma parse_row_2: "parse_row '' 9,10 11,12 13,14'' = Some [9, 10, 11, 12, 13, 14]"
  by (simp add: parse_row_def TrimSpace_def isSpace_def isDigit_def Fields_def Atoi_small List.map_filter_simps)

lemma split_A: "Split (CHR ''C'') '' 3,4 5,6 7,8 C 9,10 11,12 13,14'' = ['' 3,4 5,6 7,8 '', '' 9,10 11,12 13,14'']"
  by simp

lemma Itoa_0: "Itoa 0 = ''0''"
  by (simp add: Itoa_def natToString.simps digit_char_def)

lemma frames_A:
  "homePageHTML tg = home_A \<Longrightarrow> keyBytes tg = [0, 0, 0, 0, 0, 0] \<Longrightarrow>
   extractAnimationFrames fixture_parsers tg = Inr [[3, 4, 5, 6, 7, 8], [9, 10, 11, 12, 13, 14]]"
  by (simp add: extractAnimationFrames_def rem_def quo_def Itoa_0 fixture_parsers_def Let_def
        split_A parse_row_1 parse_row_2 List.map_filter_simps)

lemma frames_short:
  "keyBytes tg = [0, 0, 0] \<Longrightarrow>
   extractAnimationFrames px tg = Inl (New ''key_bytes too short for frame selection'')"
  by (simp add: extractAnimationFrames_def)

lemma jsRound_0: "jsRound 0 = 0"
  by (simp add: jsRound_def int_of_float_def math_Round_def)

lemma genkey_A:
  "homePageHTML tg = home_A \<Longrightarrow> keyBytes tg = [0, 0, 0, 0, 0, 0] \<Longrightarrow> rowIndex tg = 4 \<Longrightarrow>
   keyBytesIndices tg = [1, 2] \<Longrightarrow>
   generateAnimationKey fixture_parsers tg = Returns (None, tg\<lparr>animationKey := ''345100100''\<rparr>)"
  by (simp add: generateAnimationKey_def frames_A rem_def quo_def wrap64_def jsRound_0
        int_of_float_def animate_A)

lemma algdata_A:
  "homePageHTML tg = home_A \<Longrightarrow> onDemandFileHTML tg = js_A \<Longrightarrow>
   extractAlgorithmData fixture_parsers tg =
     Returns (None, tg\<lparr>rowIndex := 4, keyBytesIndices := [1, 2], key := ''AAAAAAAA'',
                       keyBytes := [0, 0, 0, 0, 0, 0], animationKey := ''345100100''\<rparr>)"
  by (simp add: extractAlgorithmData_def indices_A key_A genkey_A)

lemma initialize_fixture:
  "initialize fixture_parsers (fixture_world home_A js_A 1000 r) (newGenerator DefaultProductionConfig)
     = Returns (None, fixture_generator)"
  by (simp add: initialize_def fetch_fixture algdata_A)
     (simp add: newGenerator_def fresh_caches_def updateGenerationTime_def fixture_generator_def
        fixture_world_def DefaultProductionConfig_def)

lemma fetch_fixture_B:
  "fetchTwitterData fixture_parsers (fixture_world home_B js_B now r) tg =
     (None, tg\<lparr>homePageHTML := home_B,
               metrics := (metrics tg)\<lparr>HTMLDataFetches := HTMLDataFetches (metrics tg) + 1\<rparr>,
               onDemandFileHTML := js_B\<rparr>)"
  by (simp add: fetchTwitterData_def fixture_world_def fixture_parsers_def ondemand_url_def Let_def)

lemma js_B_neq: "js_B \<noteq> js_A"
  by (simp add: js_A_def js_B_def)

lemma home_B_neq: "home_B \<noteq> home_A"
  by (simp add: home_A_def home_B_def)

lemma indices_B:
  "onDemandFileHTML tg = js_B \<Longrightarrow>
   extractIndices fixture_parsers tg = (None, tg\<lparr>rowIndex := 7, keyBytesIndices := [3]\<rparr>)"
  by (simp add: extractIndices_def fixture_parsers_def Atoi_digit js_B_neq)

lemma key_B:
  "homePageHTML tg = home_B \<Longrightarrow>
   extractKey fixture_parsers tg = (None, tg\<lparr>key := ''AAAA'', keyBytes := [0, 0, 0]\<rparr>)"
  by (simp add: extractKey_def fixture_parsers_def fixture_tree_def decode_A4 home_B_neq)

lemma algdata_B:
  "homePageHTML tg = home_B \<Longrightarrow> onDemandFileHTML tg = js_B \<Longrightarrow>
   extractAlgorithmData fixture_parsers tg =
     Returns (Some (Errorf ''failed to generate animation key''
                (Errorf ''failed to extract animation frames''
                   (New ''key_bytes too short for frame selection''))),
              tg\<lparr>rowIndex := 7, keyBytesIndices := [3], key := ''AAAA'', keyBytes := [0, 0, 0]\<rparr>)"
  by (simp add: extractAlgorithmData_def indices_B key_B generateAnimationKey_def frames_short)

lemma refresh_B:
  "Refresh fixture_parsers (fixture_world home_B js_B now r) fixture_generator =
     Returns (Some (Errorf ''failed to extract algorithm data''
               (Errorf ''failed to generate animation key''
                 (Errorf ''failed to extract animation frames''
                   (New ''key_bytes too short for frame selection'')))),
              fixture_generator\<lparr>homePageHTML := home_B, onDemandFileHTML := js_B, rowIndex := 7,
                keyBytesIndices := [3], key := ''AAAA'', keyBytes := [0, 0, 0],
                metrics := (metrics fixture_generator)\<lparr>HTMLDataFetches := 2, RefreshAttempts := 1,
                                                        RefreshFailures := 1\<rparr>\<rparr>)"
  by (simp add: Refresh_def fetch_fixture_B algdata_B)
     (simp add: refresh_failed_def fixture_generator_def)

section \<open>What the steps of a refresh write\<close>

lemma bind_Returns:
  "bind_outcome m f = Returns y \<longleftrightarrow> (\<exists>x. m = Returns x \<and> f x = Returns y)"
  by (cases m) auto

lemma fetch_retained:
  "fetchTwitterData px w tg = (r, tg') \<Longrightarrow> retained tg' = retained tg"
  by (auto simp: fetchTwitterData_def retained_def Let_def split: http_result.splits if_splits)

lemma indices_retained:
  "extractIndices px tg = (r, tg') \<Longrightarrow> retained tg' = retained tg"
  by (auto simp: extractIndices_def retained_def Let_def split: sum.splits if_splits)

lemma key_retained:
  "extractKey px tg = (r, tg') \<Longrightarrow> retained tg' = retained tg"
  by (auto simp: extractKey_def retained_def Let_def split: sum.splits if_splits option.splits)

lemma genkey_cases:
  "generateAnimationKey px tg = Returns (r, tg') \<Longrightarrow>
     (r \<noteq> None \<and> tg' = tg) \<or> (r = None \<and> (\<exists>k. tg' = tg\<lparr>animationKey := k\<rparr>))"
  by (auto simp: generateAnimationKey_def bind_Returns Let_def split: sum.splits if_splits)

lemma algdata_failure_retained:
  assumes "extractAlgorithmData px tg = Returns (Some err, tg')"
  shows "retained tg' = retained tg"
proof -
  obtain r1 tg1 where e1: "extractIndices px tg = (r1, tg1)" by (cases "extractIndices px tg")
  have k1: "retained tg1 = retained tg" using indices_retained[OF e1] .
  show ?thesis
  proof (cases r1)
    case (Some e)
    then show ?thesis using assms e1 k1 by (simp add: extractAlgorithmData_def)
  next
    case None
    obtain r2 tg2 where e2: "extractKey px tg1 = (r2, tg2)" by (cases "extractKey px tg1")
    have k2: "retained tg2 = retained tg1" using key_retained[OF e2] .
    show ?thesis
    proof (cases r2)
      case (Some e)
      then show ?thesis using assms e1 e2 None k1 k2 by (simp add: extractAlgorithmData_def)
    next
      case n2: None
      from assms e1 e2 None n2 obtain r3 tg3 where
        e3: "generateAnimationKey px tg2 = Returns (r3, tg3)"
        and f: "(case r3 of Some err \<Rightarrow> Returns (Some (Errorf ''failed to generate animation key'' err), tg3)
                  | None \<Rightarrow> Returns (None, tg3)) = Returns (Some err, tg')"
        by (auto simp: extractAlgorithmData_def bind_Returns)
      from f have "r3 \<noteq> None" "tg' = tg3" by (auto split: option.splits)
      with genkey_cases[OF e3] have "tg' = tg2" by auto
      then show ?thesis using k1 k2 by simp
    qed
  qed
qed

lemma algdata_config:
  assumes "extractAlgorithmData px tg = Returns (r, tg')"
  shows "config tg' = config tg"
proof -
  obtain r1 tg1 where e1: "extractIndices px tg = (r1, tg1)" by (cases "extractIndices px tg")
  have k1: "config tg1 = config tg" using indices_retained[OF e1] by (simp add: retained_def)
  show ?thesis
  proof (cases r1)
    case (Some e)
    then show ?thesis using assms e1 k1 by (simp add: extractAlgorithmData_def)
  next
    case None
    obtain r2 tg2 where e2: "extractKey px tg1 = (r2, tg2)" by (cases "extractKey px tg1")
    have k2: "config tg2 = config tg1" using key_retained[OF e2] by (simp add: retained_def)
    show ?thesis
    proof (cases r2)
      case (Some e)
      then show ?thesis using assms e1 e2 None k1 k2 by (simp add: extractAlgorithmData_def)
    next
      case n2: None
      from assms e1 e2 None n2 obtain r3 tg3 where
        e3: "generateAnimationKey px tg2 = Returns (r3, tg3)"
        and f: "(case r3 of Some err \<Rightarrow> Returns (Some (Errorf ''failed to generate animation key'' err), tg3)
                  | None \<Rightarrow> Returns (None, tg3)) = Returns (r, tg')"
        by (auto simp: extractAlgorithmData_def bind_Returns)
      from f have "tg' = tg3" by (auto split: option.splits)
      with genkey_cases[OF e3] have "config tg' = config tg2" by auto
      then show ?thesis using k1 k2 by simp
    qed
  qed
qed

lemma ttl_retained: "retained tg' = retained tg \<Longrightarrow> ttl_invariant tg' = ttl_invariant tg"
  by (simp add: retained_def ttl_invariant_def)

lemma refresh_failed_retained: "retained (refresh_failed tg) = retained tg"
  by (simp add: refresh_failed_def retained_def)

lemma ttl_fresh_caches: "ttl_invariant (fresh_caches now tg)"
  by (simp add: ttl_invariant_def fresh_caches_def entry_ttl_def)

lemma refresh_failure_retained:
  assumes "Refresh px w tg = Returns (Some err, tg')"
  shows "retained tg' = retained tg"
proof -
  let ?tg0 = "tg\<lparr>metrics := (metrics tg)\<lparr>RefreshAttempts := RefreshAttempts (metrics tg) + 1\<rparr>\<rparr>"
  have k0: "retained ?tg0 = retained tg" by (simp add: retained_def)
  obtain r1 tg1 where e1: "fetchTwitterData px w ?tg0 = (r1, tg1)"
    by (cases "fetchTwitterData px w ?tg0")
  have k1: "retained tg1 = retained tg" using fetch_retained[OF e1] k0 by simp
  show ?thesis
  proof (cases r1)
    case (Some e)
    then show ?thesis using assms e1 k1
      by (auto simp: Refresh_def Let_def refresh_failed_retained)
  next
    case None
    from assms e1 None obtain r2 tg2 where
      e2: "extractAlgorithmData px tg1 = Returns (r2, tg2)"
      and f: "(case r2 of
                 Some err \<Rightarrow> Returns (Some (Errorf ''failed to extract algorithm data'' err), refresh_failed tg2)
               | None \<Rightarrow>
                   (case updateCachesWithFreshData w tg2 of
                      (Some err, tg) \<Rightarrow> Returns (Some (Errorf ''failed to update caches'' err), refresh_failed tg)
                    | (None, tg) \<Rightarrow>
                        (let tg = tg\<lparr>lastRefresh := t_lastRefresh w\<rparr>;
                             tg = tg\<lparr>metrics := (metrics tg)\<lparr>LastRefreshTime := lastRefresh tg\<rparr>\<rparr>
                         in Returns (None, tg)))) = Returns (Some err, tg')"
      by (auto simp: Refresh_def Let_def bind_Returns)
    from f obtain e where r2: "r2 = Some e" and t: "tg' = refresh_failed tg2"
      by (auto simp: updateCachesWithFreshData_def Let_def split: option.splits)
    have "retained tg2 = retained tg1" using algdata_failure_retained e2 r2 by simp
    then show ?thesis using t k1 by (simp add: refresh_failed_retained)
  qed
qed

lemma refresh_success_ttl:
  assumes "Refresh px w tg = Returns (None, tg')"
  shows "ttl_invariant tg'"
proof -
  let ?tg0 = "tg\<lparr>metrics := (metrics tg)\<lparr>RefreshAttempts := RefreshAttempts (metrics tg) + 1\<rparr>\<rparr>"
  obtain r1 tg1 where e1: "fetchTwitterData px w ?tg0 = (r1, tg1)"
    by (cases "fetchTwitterData px w ?tg0")
  from assms e1 have n1: "r1 = None" by (cases r1) (auto simp: Refresh_def Let_def)
  from assms e1 n1 obtain r2 tg2 where
    e2: "extractAlgorithmData px tg1 = Returns (r2, tg2)"
    and f: "(case r2 of
               Some err \<Rightarrow> Returns (Some (Errorf ''failed to extract algorithm data'' err), refresh_failed tg2)
             | None \<Rightarrow>
                 (case updateCachesWithFreshData w tg2 of
                    (Some err, tg) \<Rightarrow> Returns (Some (Errorf ''failed to update caches'' err), refresh_failed tg)
                  | (None, tg) \<Rightarrow>
                      (let tg = tg\<lparr>lastRefresh := t_lastRefresh w\<rparr>;
                           tg = tg\<lparr>metrics := (metrics tg)\<lparr>LastRefreshTime := lastRefresh tg\<rparr>\<rparr>
                       in Returns (None, tg)))) = Returns (None, tg')"
    by (auto simp: Refresh_def Let_def bind_Returns)
  from f have "retained tg' = retained ((fresh_caches (t_caches w) tg2)\<lparr>lastRefresh := lastRefresh tg'\<rparr>)"
    by (auto simp: updateCachesWithFreshData_def Let_def retained_def split: option.splits)
  then have "ttl_invariant tg' = ttl_invariant (fresh_caches (t_caches w) tg2)"
    by (simp add: retained_def ttl_invariant_def fresh_caches_def)
  then show ?thesis by (simp add: ttl_fresh_caches)
qed

lemma refresh_ttl:
  "ttl_invariant tg \<Longrightarrow> Refresh px w tg = Returns (r, tg') \<Longrightarrow> ttl_invariant tg'"
  by (cases r) (auto simp: refresh_success_ttl dest: refresh_failure_retained ttl_retained)

lemma metrics_only_ttl:
  "ttl_invariant (incrementTotalGenerations (updateGenerationTime d tg)) = ttl_invariant tg"
  by (simp add: ttl_invariant_def incrementTotalGenerations_def updateGenerationTime_def Let_def)

lemma generate_ttl:
  assumes "ttl_invariant tg" "Generate Sum256 px w tg method path = Returns (res, tg')"
  shows "ttl_invariant tg'"
proof (cases "needsRefresh tg (t_check w)")
  case True
  with assms(2) obtain r tg1 where e: "Refresh px w tg = Returns (r, tg1)"
    and t: "tg' = incrementTotalGenerations (updateGenerationTime (t_end w - t_start w) tg1)"
    by (auto simp: Generate_def bind_Returns Let_def)
  show ?thesis using refresh_ttl[OF assms(1) e] t by (simp add: metrics_only_ttl)
next
  case False
  with assms(2) have "tg' = incrementTotalGenerations (updateGenerationTime (t_end w - t_start w) tg)"
    by (auto simp: Generate_def Let_def)
  then show ?thesis using assms(1) by (simp add: metrics_only_ttl)
qed

lemma initialize_ttl:
  assumes "initialize px w tg = Returns (None, tg')"
  shows "ttl_invariant tg'"
proof -
  obtain r1 tg1 where e1: "fetchTwitterData px w tg = (r1, tg1)"
    by (cases "fetchTwitterData px w tg")
  from assms e1 have n1: "r1 = None"
    by (cases r1) (auto simp: initialize_def bind_Returns)
  from assms e1 n1 obtain r2 tg2 where
    e2: "extractAlgorithmData px tg1 = Returns (r2, tg2)"
    and f: "bind_outcome (case r2 of
                Some err \<Rightarrow> Returns (Some (Errorf ''failed to extract algorithm data'' err), tg2)
              | None \<Rightarrow>
                  (let now = t_caches w;
                       tg = fresh_caches now tg2;
                       tg = tg\<lparr>initialized := True\<rparr>;
                       tg = tg\<lparr>lastRefresh := now\<rparr>;
                       tg = tg\<lparr>metrics := (metrics tg)\<lparr>LastRefreshTime := now\<rparr>\<rparr>
                   in Returns (None, tg)))
              (\<lambda>(r, tg). Returns (r, updateGenerationTime (t_end w - t_start w) tg)) = Returns (None, tg')"
    by (auto simp: initialize_def bind_Returns)
  from f have "ttl_invariant tg' = ttl_invariant (fresh_caches (t_caches w) tg2)"
    by (auto simp: bind_Returns Let_def ttl_invariant_def fresh_caches_def updateGenerationTime_def
          split: option.splits if_splits)
  then show ?thesis by (simp add: ttl_fresh_caches)
qed

lemma force_refresh_ttl:
  "ForceRefresh px w tg = Returns (None, tg') \<Longrightarrow> ttl_invariant tg'"
  by (auto simp: ForceRefresh_def Let_def dest: refresh_success_ttl)

lemma entry_ttl_invalidate:
  "entry_ttl ttl (invalidate now entry)
     = (\<forall>e. entry = Some e \<longrightarrow> now - 3600000000000 = CreatedAt e + ttl)"
  by (cases entry) (simp_all add: entry_ttl_def invalidate_def)

lemma force_refresh_failure:
  assumes "ForceRefresh px w tg = Returns (Some err, tg')"
  shows "config tg' = config tg"
    and "htmlDataCache tg' = invalidate (t_invalidate1 w) (htmlDataCache tg)"
    and "animationCache tg' = invalidate (t_invalidate2 w) (animationCache tg)"
    and "verificationCache tg' = invalidate (t_invalidate3 w) (verificationCache tg)"
proof -
  let ?tg = "tg\<lparr>htmlDataCache := invalidate (t_invalidate1 w) (htmlDataCache tg),
                 animationCache := invalidate (t_invalidate2 w) (animationCache tg),
                 verificationCache := invalidate (t_invalidate3 w) (verificationCache tg)\<rparr>"
  from assms have "Refresh px w ?tg = Returns (Some err, tg')"
    by (simp add: ForceRefresh_def Let_def)
  then have r: "retained tg' = retained ?tg" by (rule refresh_failure_retained)
  from r show "config tg' = config tg" by (simp add: retained_def)
  from r show "htmlDataCache tg' = invalidate (t_invalidate1 w) (htmlDataCache tg)"
    by (simp add: retained_def)
  from r show "animationCache tg' = invalidate (t_invalidate2 w) (animationCache tg)"
    by (simp add: retained_def)
  from r show "verificationCache tg' = invalidate (t_invalidate3 w) (verificationCache tg)"
    by (simp add: retained_def)
qed

lemma force_refresh_failure_ttl:
  assumes "ForceRefresh px w tg = Returns (Some err, tg')"
  shows "ttl_invariant tg' =
           ((\<forall>e. htmlDataCache tg = Some e \<longrightarrow>
                 t_invalidate1 w - 3600000000000 = CreatedAt e + HTMLDataCacheLifetime (config tg))
            \<and> (\<forall>e. animationCache tg = Some e \<longrightarrow>
                 t_invalidate2 w - 3600000000000 = CreatedAt e + AnimationKeyLifetime (config tg))
            \<and> (\<forall>e. verificationCache tg = Some e \<longrightarrow>
                 t_invalidate3 w - 3600000000000 = CreatedAt e + HTMLDataCacheLifetime (config tg)))"
  unfolding ttl_invariant_def force_refresh_failure[OF assms] entry_ttl_invalidate
  by (rule refl)
section \<open>Expiry and the lifetime invariant of the cache entries\<close>

text \<open>
  Claim C6, as amended. \<open>needsRefresh\<close> returns true exactly when the generator was never
  initialised or one of the three cache entries is expired, an entry being expired when
  \<open>now\<close> is strictly after \<open>expires_at\<close>; at \<open>now = expires_at\<close> the entry is not yet
  expired.
\<close>

theorem needsRefresh_strictly_after:
  "needsRefresh tg now \<longleftrightarrow>
     (\<not> initialized tg
      \<or> (\<exists>e. htmlDataCache tg = Some e \<and> ExpiresAt e < now)
      \<or> (\<exists>e. animationCache tg = Some e \<and> ExpiresAt e < now)
      \<or> (\<exists>e. verificationCache tg = Some e \<and> ExpiresAt e < now))"
  by (auto simp: needsRefresh_def split: option.splits)

theorem needsRefresh_strictly_after_witness:
  "initialized fixture_generator
   \<and> needsRefresh fixture_generator (1001 + 3 * 3600000000000)
   \<and> \<not> needsRefresh fixture_generator (1000 + 3 * 3600000000000)"
  using needsRefresh_strictly_after [of fixture_generator "1001 + 3 * 3600000000000"]
    needsRefresh_strictly_after [of fixture_generator "1000 + 3 * 3600000000000"]
  by (simp add: fixture_generator_def)

theorem needsRefresh_boundary_counterexample:
  "map_option ExpiresAt (animationCache fixture_generator) = Some (1000 + 3 * 3600000000000)
   \<and> spec_needs_refresh fixture_generator (1000 + 3 * 3600000000000)
   \<and> \<not> needsRefresh fixture_generator (1000 + 3 * 3600000000000)"
  by (simp add: fixture_generator_def spec_needs_refresh_def spec_expired_def needsRefresh_def)

text \<open>
  Claim C7, as amended. The invariant \<open>expires_at = created_at + TTL\<close> of the three
  entries (the HTML lifetime for the HTML and the verification entry, the animation
  lifetime for the animation entry) holds after a successful \<open>initialize\<close>, is preserved
  by \<open>Refresh\<close>, failed or not, and by \<open>Generate\<close>, and holds after a successful
  \<open>ForceRefresh\<close>. A \<open>ForceRefresh\<close> that fails leaves the configuration and the creation
  time of every entry as they were and every expiry at its reading of the clock minus one
  hour; the invariant holds after it exactly when, for every entry present, that reading
  minus one hour is the creation time plus the lifetime.
\<close>

theorem cache_ttl_invariant:
  "(initialize px w tg0 = Returns (None, tg1) \<longrightarrow> ttl_invariant tg1)
   \<and> (ttl_invariant tg \<and> Refresh px w tg = Returns (r, tg2) \<longrightarrow> ttl_invariant tg2)
   \<and> (ttl_invariant tg \<and> Generate Sum256 px w tg method path = Returns (res, tg3)
        \<longrightarrow> ttl_invariant tg3)
   \<and> (ForceRefresh px w tg = Returns (None, tg4) \<longrightarrow> ttl_invariant tg4)
   \<and> (ForceRefresh px w tg = Returns (Some err, tgf) \<longrightarrow>
        config tgf = config tg
        \<and> map_option CreatedAt (htmlDataCache tgf) = map_option CreatedAt (htmlDataCache tg)
        \<and> map_option CreatedAt (animationCache tgf) = map_option CreatedAt (animationCache tg)
        \<and> map_option CreatedAt (verificationCache tgf) = map_option CreatedAt (verificationCache tg)
        \<and> map_option ExpiresAt (htmlDataCache tgf)
            = map_option (\<lambda>e. t_invalidate1 w - 3600000000000) (htmlDataCache tg)
        \<and> map_option ExpiresAt (animationCache tgf)
            = map_option (\<lambda>e. t_invalidate2 w - 3600000000000) (animationCache tg)
        \<and> map_option ExpiresAt (verificationCache tgf)
            = map_option (\<lambda>e. t_invalidate3 w - 3600000000000) (verificationCache tg)
        \<and> (ttl_invariant tgf \<longleftrightarrow>
             (\<forall>e. htmlDataCache tg = Some e \<longrightarrow>
                 t_invalidate1 w - 3600000000000 = CreatedAt e + HTMLDataCacheLifetime (config tg))
             \<and> (\<forall>e. animationCache tg = Some e \<longrightarrow>
                 t_invalidate2 w - 3600000000000 = CreatedAt e + AnimationKeyLifetime (config tg))
             \<and> (\<forall>e. verificationCache tg = Some e \<longrightarrow>
                 t_invalidate3 w - 3600000000000 = CreatedAt e + HTMLDataCacheLifetime (config tg))))"
proof -
  have a: "initialize px w tg0 = Returns (None, tg1) \<longrightarrow> ttl_invariant tg1"
    using initialize_ttl by blast
  have b: "ttl_invariant tg \<and> Refresh px w tg = Returns (r, tg2) \<longrightarrow> ttl_invariant tg2"
    using refresh_ttl[of tg px w r tg2] by simp
  have c: "ttl_invariant tg \<and> Generate Sum256 px w tg method path = Returns (res, tg3)
        \<longrightarrow> ttl_invariant tg3"
    using generate_ttl[of tg Sum256 px w "method" "path" res tg3] by simp
  have d: "ForceRefresh px w tg = Returns (None, tg4) \<longrightarrow> ttl_invariant tg4"
    using force_refresh_ttl by blast
  have e: "ForceRefresh px w tg = Returns (Some err, tgf) \<longrightarrow>
        config tgf = config tg
        \<and> map_option CreatedAt (htmlDataCache tgf) = map_option CreatedAt (htmlDataCache tg)
        \<and> map_option CreatedAt (animationCache tgf) = map_option CreatedAt (animationCache tg)
        \<and> map_option CreatedAt (verificationCache tgf) = map_option CreatedAt (verificationCache tg)
        \<and> map_option ExpiresAt (htmlDataCache tgf)
            = map_option (\<lambda>e. t_invalidate1 w - 3600000000000) (htmlDataCache tg)
        \<and> map_option ExpiresAt (animationCache tgf)
            = map_option (\<lambda>e. t_invalidate2 w - 3600000000000) (animationCache tg)
        \<and> map_option ExpiresAt (verificationCache tgf)
            = map_option (\<lambda>e. t_invalidate3 w - 3600000000000) (verificationCache tg)
        \<and> (ttl_invariant tgf \<longleftrightarrow>
             (\<forall>e. htmlDataCache tg = Some e \<longrightarrow>
                 t_invalidate1 w - 3600000000000 = CreatedAt e + HTMLDataCacheLifetime (config tg))
             \<and> (\<forall>e. animationCache tg = Some e \<longrightarrow>
                 t_invalidate2 w - 3600000000000 = CreatedAt e + AnimationKeyLifetime (config tg))
             \<and> (\<forall>e. verificationCache tg = Some e \<longrightarrow>
                 t_invalidate3 w - 3600000000000 = CreatedAt e + HTMLDataCacheLifetime (config tg)))"
  proof
    assume f: "ForceRefresh px w tg = Returns (Some err, tgf)"
    note k = force_refresh_failure[OF f]
    have c1: "map_option CreatedAt (invalidate now entry) = map_option CreatedAt entry" for now entry
      by (cases entry) (simp_all add: invalidate_def)
    have c2: "map_option ExpiresAt (invalidate now entry) = map_option (\<lambda>e. now - 3600000000000) entry"
      for now entry
      by (cases entry) (simp_all add: invalidate_def)
    show "config tgf = config tg
        \<and> map_option CreatedAt (htmlDataCache tgf) = map_option CreatedAt (htmlDataCache tg)
        \<and> map_option CreatedAt (animationCache tgf) = map_option CreatedAt (animationCache tg)
        \<and> map_option CreatedAt (verificationCache tgf) = map_option CreatedAt (verificationCache tg)
        \<and> map_option ExpiresAt (htmlDataCache tgf)
            = map_option (\<lambda>e. t_invalidate1 w - 3600000000000) (htmlDataCache tg)
        \<and> map_option ExpiresAt (animationCache tgf)
            = map_option (\<lambda>e. t_invalidate2 w - 3600000000000) (animationCache tg)
        \<and> map_option ExpiresAt (verificationCache tgf)
            = map_option (\<lambda>e. t_invalidate3 w - 3600000000000) (verificationCache tg)
        \<and> (ttl_invariant tgf \<longleftrightarrow>
             (\<forall>e. htmlDataCache tg = Some e \<longrightarrow>
                 t_invalidate1 w - 3600000000000 = CreatedAt e + HTMLDataCacheLifetime (config tg))
             \<and> (\<forall>e. animationCache tg = Some e \<longrightarrow>
                 t_invalidate2 w - 3600000000000 = CreatedAt e + AnimationKeyLifetime (config tg))
             \<and> (\<forall>e. verificationCache tg = Some e \<longrightarrow>
                 t_invalidate3 w - 3600000000000 = CreatedAt e + HTMLDataCacheLifetime (config tg)))"
      unfolding k c1 c2 using force_refresh_failure_ttl[OF f] by simp
  qed
  from a b c d e show ?thesis by (intro conjI)
qed

theorem cache_ttl_invariant_witness:
  "initialize fixture_parsers (fixture_world home_A js_A 1000 0) (newGenerator DefaultProductionConfig)
     = Returns (None, fixture_generator)
   \<and> ttl_invariant fixture_generator
   \<and> Refresh fixture_parsers (fixture_world home_B js_B 2000 0) fixture_generator =
       Returns (Some (Errorf ''failed to extract algorithm data''
               (Errorf ''failed to generate animation key''
                 (Errorf ''failed to extract animation frames''
                   (New ''key_bytes too short for frame selection'')))),
              fixture_generator\<lparr>homePageHTML := home_B, onDemandFileHTML := js_B, rowIndex := 7,
                keyBytesIndices := [3], key := ''AAAA'', keyBytes := [0, 0, 0],
                metrics := (metrics fixture_generator)\<lparr>HTMLDataFetches := 2, RefreshAttempts := 1,
                                                        RefreshFailures := 1\<rparr>\<rparr>)
   \<and> ttl_invariant (fixture_generator\<lparr>homePageHTML := home_B, onDemandFileHTML := js_B, rowIndex := 7,
                keyBytesIndices := [3], key := ''AAAA'', keyBytes := [0, 0, 0],
                metrics := (metrics fixture_generator)\<lparr>HTMLDataFetches := 2, RefreshAttempts := 1,
                                                        RefreshFailures := 1\<rparr>\<rparr>)
   \<and> (\<exists>tg'. ForceRefresh fixture_parsers (broken_world 5000) fixture_generator
              = Returns (Some (Errorf ''failed to fetch Twitter data''
                          (Errorf ''failed to fetch home page'' (New ''connection refused''))), tg')
            \<and> config tg' = DefaultProductionConfig
            \<and> map_option CreatedAt (htmlDataCache tg') = Some 1000
            \<and> map_option ExpiresAt (htmlDataCache tg') = Some (5000 - 3600000000000)
            \<and> \<not> ttl_invariant tg')"
proof -
  note i = initialize_fixture [of 0]
  note r = refresh_B [of 2000 0]
  from cache_ttl_invariant [of fixture_parsers "fixture_world home_A js_A 1000 0"
      "newGenerator DefaultProductionConfig" fixture_generator] i
  have t: "ttl_invariant fixture_generator" by blast
  from cache_ttl_invariant [of fixture_parsers "fixture_world home_B js_B 2000 0" _ _ fixture_generator] t r
  have u: "ttl_invariant (fixture_generator\<lparr>homePageHTML := home_B, onDemandFileHTML := js_B, rowIndex := 7,
                keyBytesIndices := [3], key := ''AAAA'', keyBytes := [0, 0, 0],
                metrics := (metrics fixture_generator)\<lparr>HTMLDataFetches := 2, RefreshAttempts := 1,
                                                        RefreshFailures := 1\<rparr>\<rparr>)"
    by blast
  let ?E = "Errorf ''failed to fetch Twitter data''
              (Errorf ''failed to fetch home page'' (New ''connection refused''))"
  obtain tg' where f: "ForceRefresh fixture_parsers (broken_world 5000) fixture_generator
                         = Returns (Some ?E, tg')"
    by (simp add: ForceRefresh_def Refresh_def fetchTwitterData_def broken_world_def Let_def)
  have h: "htmlDataCache fixture_generator
            = Some \<lparr>Data = Pages home_A js_A, ExpiresAt = 1000 + 6 * 3600000000000, CreatedAt = 1000\<rparr>"
    "config fixture_generator = DefaultProductionConfig"
    by (simp_all add: fixture_generator_def)
  have n: "t_invalidate1 (broken_world 5000) = 5000" by (simp add: broken_world_def)
  from cache_ttl_invariant [where px = fixture_parsers and w = "broken_world 5000"
      and tg = fixture_generator and err = ?E and tgf = tg'] f
  have g: "config tg' = config fixture_generator
        \<and> map_option CreatedAt (htmlDataCache tg') = map_option CreatedAt (htmlDataCache fixture_generator)
        \<and> map_option ExpiresAt (htmlDataCache tg')
            = map_option (\<lambda>e. t_invalidate1 (broken_world 5000) - 3600000000000)
                (htmlDataCache fixture_generator)
        \<and> (ttl_invariant tg' \<longrightarrow>
             (\<forall>e. htmlDataCache fixture_generator = Some e \<longrightarrow>
                 t_invalidate1 (broken_world 5000) - 3600000000000
                   = CreatedAt e + HTMLDataCacheLifetime (config fixture_generator)))"
    by blast
  then have g1: "config tg' = DefaultProductionConfig"
    and g2: "map_option CreatedAt (htmlDataCache tg') = Some 1000"
    and g3: "map_option ExpiresAt (htmlDataCache tg') = Some (5000 - 3600000000000)"
    and g4: "\<not> ttl_invariant tg'"
    unfolding h n by (simp_all add: DefaultProductionConfig_def)
  from f g1 g2 g3 g4 have
    x: "\<exists>tg'. ForceRefresh fixture_parsers (broken_world 5000) fixture_generator = Returns (Some ?E, tg')
            \<and> config tg' = DefaultProductionConfig
            \<and> map_option CreatedAt (htmlDataCache tg') = Some 1000
            \<and> map_option ExpiresAt (htmlDataCache tg') = Some (5000 - 3600000000000)
            \<and> \<not> ttl_invariant tg'"
    by (intro exI[of _ tg'] conjI)
  from i t r u x show ?thesis by (intro conjI)
qed

theorem force_refresh_breaks_ttl_counterexample:
  "ttl_invariant fixture_generator
   \<and> (case ForceRefresh fixture_parsers (broken_world 5000) fixture_generator of
        Returns (r, tg') \<Rightarrow>
          r = Some (Errorf ''failed to fetch Twitter data''
                      (Errorf ''failed to fetch home page'' (New ''connection refused'')))
          \<and> map_option CreatedAt (htmlDataCache tg') = Some 1000
          \<and> map_option ExpiresAt (htmlDataCache tg') = Some (5000 - 3600000000000)
          \<and> HTMLDataCacheLifetime (config tg') = 6 * 3600000000000
          \<and> \<not> ttl_invariant tg'
      | _ \<Rightarrow> False)"
  by (simp add: ForceRefresh_def Refresh_def fetchTwitterData_def broken_world_def invalidate_def
        refresh_failed_def fixture_generator_def ttl_invariant_def entry_ttl_def
        DefaultProductionConfig_def)

text \<open>
  After a failed \<open>ForceRefresh\<close> the invariant can hold as well: with the lifetimes of
  \<open>UltraFreshConfig\<close>, which are zero, and the clock one hour after the creation of the
  entries.
\<close>

lemma failed_force_refresh_keeping_ttl:
  "ttl_invariant (fresh_caches 1000 (newGenerator UltraFreshConfig))
   \<and> (case ForceRefresh fixture_parsers (broken_world (1000 + 3600000000000)) (fresh_caches 1000 (newGenerator UltraFreshConfig)) of
        Returns (r, tg') \<Rightarrow>
          r = Some (Errorf ''failed to fetch Twitter data''
                      (Errorf ''failed to fetch home page'' (New ''connection refused'')))
          \<and> ttl_invariant tg'
      | _ \<Rightarrow> False)"
  by (simp add: ForceRefresh_def Refresh_def fetchTwitterData_def broken_world_def invalidate_def
        refresh_failed_def fresh_caches_def newGenerator_def
        ttl_invariant_def entry_ttl_def UltraFreshConfig_def)
section \<open>\<open>Generate\<close> and a failing refresh\<close>

lemma trim_encode_inj:
  assumes "trimBase64Padding (EncodeToString a) = trimBase64Padding (EncodeToString b)"
  shows "a = b"
proof -
  have "DecodeString (add_padding (trimBase64Padding (EncodeToString a)))
        = DecodeString (add_padding (trimBase64Padding (EncodeToString b)))"
    using assms by simp
  then show ?thesis by (simp only: base64_roundtrip option.inject)
qed

lemma transaction_id_as_encoding:
  "\<exists>p. generateUniqueTransactionID Sum256 t (Inr r) tg method path
         = Inr (trimBase64Padding (EncodeToString (r # p)))
       \<and> length p = length (keyBytes tg) + 4 + 16 + 1"
  by (rule exI[of _ "map (\<lambda>b. b XOR r)
        (map (\<lambda>kb. word_of_int kb) (keyBytes tg)
         @ timeNowBytes_of (timeNow_of t)
         @ take 16 (digest_bytes (Sum256 (map of_char
             (hashString_of method path (timeNow_of t) (animationKey tg)))))
         @ [word_of_int AdditionalRandomNumber])"])
     (simp add: generateUniqueTransactionID_def Let_def length_digest_bytes length_timeNowBytes)

lemma transaction_id_depends_on_key_length:
  assumes "length (keyBytes tg) \<noteq> length (keyBytes tg')"
  shows "generateUniqueTransactionID Sum256 t (Inr r) tg method path
         \<noteq> generateUniqueTransactionID Sum256 t (Inr r) tg' method path"
proof
  assume eq: "generateUniqueTransactionID Sum256 t (Inr r) tg method path
          = generateUniqueTransactionID Sum256 t (Inr r) tg' method path"
  obtain p where p: "generateUniqueTransactionID Sum256 t (Inr r) tg method path
         = Inr (trimBase64Padding (EncodeToString (r # p)))"
    "length p = length (keyBytes tg) + 4 + 16 + 1"
    using transaction_id_as_encoding by blast
  obtain p' where p': "generateUniqueTransactionID Sum256 t (Inr r) tg' method path
         = Inr (trimBase64Padding (EncodeToString (r # p')))"
    "length p' = length (keyBytes tg') + 4 + 16 + 1"
    using transaction_id_as_encoding by blast
  from eq p(1) p'(1) have "r # p = r # p'" by (simp only: sum.inject trim_encode_inj)
  then have "length p = length p'" by simp
  then show False using assms p(2) p'(2) by simp
qed

lemma transaction_id_reads:
  "keyBytes tg' = keyBytes tg \<Longrightarrow> animationKey tg' = animationKey tg \<Longrightarrow>
   generateUniqueTransactionID Sum256 t rnd tg' method path
   = generateUniqueTransactionID Sum256 t rnd tg method path"
  by (simp add: generateUniqueTransactionID_def)

lemma metrics_only_fields:
  "keyBytes (incrementTotalGenerations (updateGenerationTime d tg)) = keyBytes tg"
  "animationKey (incrementTotalGenerations (updateGenerationTime d tg)) = animationKey tg"
  by (simp_all add: incrementTotalGenerations_def updateGenerationTime_def Let_def)

text \<open>What holds of \<open>Generate\<close> whatever the refresh does.\<close>

lemma generate_error_only_from_rand:
  assumes "Generate Sum256 px w tg method path = Returns (Inl err, tg')"
  shows "\<exists>e. rand_Read w = Inl e \<and> err = Errorf ''failed to generate random number'' e"
proof -
  from assms obtain tg1 where
    "generateUniqueTransactionID Sum256 (t_unixMicro w) (rand_Read w) tg1 method path = Inl err"
    by (auto simp: Generate_def bind_Returns Let_def split: if_splits)
  then show ?thesis
    by (cases "rand_Read w") (auto simp: generateUniqueTransactionID_def Let_def)
qed

lemma generate_drops_refresh_error:
  assumes "needsRefresh tg (t_check w)" "Refresh px w tg = Returns (Some err, tg1)"
    and "rand_Read w = Inr r"
  shows "\<exists>tid tg'. Generate Sum256 px w tg method path = Returns (Inr tid, tg')
           \<and> Inr tid = generateUniqueTransactionID Sum256 (t_unixMicro w) (Inr r) tg1 method path
           \<and> animationKey tg1 = animationKey tg
           \<and> retained tg1 = retained tg"
proof -
  have k: "retained tg1 = retained tg" using refresh_failure_retained[OF assms(2)] .
  then have a: "animationKey tg1 = animationKey tg" by (simp add: retained_def)
  obtain tid where t: "generateUniqueTransactionID Sum256 (t_unixMicro w) (Inr r) tg1 method path = Inr tid"
    by (simp add: generateUniqueTransactionID_def Let_def)
  have "Generate Sum256 px w tg method path =
          Returns (Inr tid, incrementTotalGenerations (updateGenerationTime (t_end w - t_start w) tg1))"
    using assms t by (simp add: Generate_def Let_def)
  then show ?thesis using t a k by simp
qed

lemma generate_without_refresh:
  assumes "\<not> needsRefresh tg (t_check w)"
  shows "Generate Sum256 px w tg method path =
           Returns (generateUniqueTransactionID Sum256 (t_unixMicro w) (rand_Read w) tg method path,
                    incrementTotalGenerations (updateGenerationTime (t_end w - t_start w) tg))"
  using assms by (simp add: Generate_def Let_def)

text \<open>
  Claim C2, at a failing input. The generator of the fixture holds the material of the first
  version of the pages. A refresh then fetches the second version, whose verification key
  is too short for the frame selection: \<open>Refresh\<close> returns the extraction error, and by
  then the home page, the ondemand file, the row index, the indices, the key and the key
  bytes have been overwritten with the new values, next to the animation key of the old
  ones.
\<close>

theorem failed_refresh_overwrites_material:
  "(case Refresh fixture_parsers (fixture_world home_B js_B 2000 0) fixture_generator of
      Returns (r, tg') \<Rightarrow>
        r = Some (Errorf ''failed to extract algorithm data''
               (Errorf ''failed to generate animation key''
                 (Errorf ''failed to extract animation frames''
                   (New ''key_bytes too short for frame selection''))))
        \<and> signing_material fixture_generator
            = (home_A, js_A, ''AAAAAAAA'', [0, 0, 0, 0, 0, 0], 4, [1, 2], ''345100100'')
        \<and> signing_material tg' = (home_B, js_B, ''AAAA'', [0, 0, 0], 7, [3], ''345100100'')
        \<and> signing_material tg' \<noteq> signing_material fixture_generator
    | _ \<Rightarrow> False)"
  by (simp add: refresh_B signing_material_def) (simp add: fixture_generator_def)

text \<open>
  Claim C10, at a failing input. Seven hours after its initialisation the generator of the
  fixture needs a refresh; the refresh fetches the second version of the pages and fails
  on the frame extraction. \<open>Generate\<close> drops the error and returns a transaction ID, built
  from the three key bytes of the page just fetched and the animation key of the old page,
  not from the six key bytes that were cached.
\<close>

theorem generate_after_failed_refresh:
  "(case Generate Sum256 fixture_parsers (fixture_world home_B js_B (1000 + 7 * 3600000000000) r)
           fixture_generator method path of
      Returns (res, tg') \<Rightarrow>
        res = generateUniqueTransactionID Sum256 ((1000 + 7 * 3600000000000) div 1000) (Inr r)
                (fixture_generator\<lparr>keyBytes := [0, 0, 0]\<rparr>) method path
        \<and> res \<noteq> generateUniqueTransactionID Sum256 ((1000 + 7 * 3600000000000) div 1000) (Inr r)
                fixture_generator method path
        \<and> isl res = False
        \<and> keyBytes fixture_generator = [0, 0, 0, 0, 0, 0]
        \<and> keyBytes tg' = [0, 0, 0]
        \<and> animationKey tg' = animationKey fixture_generator
    | _ \<Rightarrow> False)"
proof -
  define W where "W = fixture_world home_B js_B (1000 + 7 * 3600000000000) r"
  define tgB where "tgB = fixture_generator\<lparr>homePageHTML := home_B, onDemandFileHTML := js_B, rowIndex := 7,
                keyBytesIndices := [3], key := ''AAAA'', keyBytes := [0, 0, 0],
                metrics := (metrics fixture_generator)\<lparr>HTMLDataFetches := 2, RefreshAttempts := 1,
                                                        RefreshFailures := 1\<rparr>\<rparr>"
  have w: "t_check W = 1000 + 7 * 3600000000000" "t_unixMicro W = (1000 + 7 * 3600000000000) div 1000"
    "rand_Read W = Inr r"
    by (simp_all add: W_def fixture_world_def)
  have n: "needsRefresh fixture_generator (t_check W)"
    unfolding w by (simp add: needsRefresh_def fixture_generator_def)
  have rf: "Refresh fixture_parsers W fixture_generator =
     Returns (Some (Errorf ''failed to extract algorithm data''
               (Errorf ''failed to generate animation key''
                 (Errorf ''failed to extract animation frames''
                   (New ''key_bytes too short for frame selection'')))), tgB)"
    unfolding W_def tgB_def by (rule refresh_B)
  from generate_drops_refresh_error[OF n rf w(3), of Sum256 "method" "path"]
  obtain tid tg' where g: "Generate Sum256 fixture_parsers W fixture_generator method path = Returns (Inr tid, tg')"
    and t: "Inr tid = generateUniqueTransactionID Sum256 (t_unixMicro W) (Inr r) tgB method path"
    by blast
  have tg': "tg' = incrementTotalGenerations (updateGenerationTime (t_end W - t_start W) tgB)"
    using g n rf by (simp add: Generate_def Let_def)
  have kb: "keyBytes fixture_generator = [0, 0, 0, 0, 0, 0]" "keyBytes tgB = [0, 0, 0]"
    "animationKey tgB = animationKey fixture_generator"
    by (simp_all add: tgB_def fixture_generator_def)
  have e1: "generateUniqueTransactionID Sum256 (t_unixMicro W) (Inr r) tgB method path
            = generateUniqueTransactionID Sum256 (t_unixMicro W) (Inr r)
                (fixture_generator\<lparr>keyBytes := [0, 0, 0]\<rparr>) method path"
    by (rule transaction_id_reads) (simp_all add: kb)
  have e2: "generateUniqueTransactionID Sum256 (t_unixMicro W) (Inr r) tgB method path
            \<noteq> generateUniqueTransactionID Sum256 (t_unixMicro W) (Inr r) fixture_generator method path"
    by (rule transaction_id_depends_on_key_length) (simp add: kb)
  show ?thesis
    unfolding W_def[symmetric] g w(2)[symmetric]
    using t[symmetric] e1 e2 kb tg' by (simp add: metrics_only_fields)
qed

section \<open>The XPFF header is the hexadecimal nonce and sealed payload\<close>

lemma hex_append: "hex_EncodeToString (a @ b) = hex_EncodeToString a @ hex_EncodeToString b"
  by (simp add: hex_EncodeToString_def)

lemma length_hex: "length (hex_EncodeToString a) = 2 * length a"
  by (induction a) (simp_all add: hex_EncodeToString_def)

lemma hex_char_lower: "n < 16 \<Longrightarrow> hex_char n \<in> set ''0123456789abcdef''"
proof -
  assume "n < 16"
  then have "n < length ''0123456789abcdef''" by simp
  then show ?thesis unfolding hex_char_def by (rule nth_mem)
qed

lemma unat_byte_div16: "unat (v :: byte) div 16 < 16"
proof -
  have "unat v < 256" using unsigned_less[of v, where ?'a=nat] by simp
  then show ?thesis by simp
qed

lemma hex_lower: "list_all (\<lambda>c. c \<in> set ''0123456789abcdef'') (hex_EncodeToString a)"
proof (induction a)
  case Nil
  show ?case by (simp add: hex_EncodeToString_def)
next
  case (Cons v a)
  have "hex_char (unat v div 16) \<in> set ''0123456789abcdef''"
    by (rule hex_char_lower) (rule unat_byte_div16)
  moreover have "hex_char (unat v mod 16) \<in> set ''0123456789abcdef''"
    by (rule hex_char_lower) simp
  ultimately show ?case using Cons by (simp add: hex_EncodeToString_def)
qed

lemma hex_zeros:
  "\<forall>v\<in>set a. v = 0 \<Longrightarrow> hex_EncodeToString a = replicate (2 * length a) (CHR ''0'')"
  by (induction a) (simp_all add: hex_EncodeToString_def hex_char_def)

lemma spec_hex_digit_all: "list_all (\<lambda>n. spec_hex_digit (hex_char n) = Some n) [0..<16]"
  by (simp add: upt_rec hex_char_def spec_hex_digit_def)

lemma spec_hex_digit_hex_char: "n < 16 \<Longrightarrow> spec_hex_digit (hex_char n) = Some n"
  using spec_hex_digit_all unfolding list_all_iff by simp

lemma byte_div_mod: "(of_nat (16 * (unat v div 16) + unat v mod 16) :: byte) = v"
  by simp

lemma spec_hex_decode_encode: "spec_hex_decode (hex_EncodeToString a) = Some a"
proof (induction a)
  case Nil
  show ?case by (simp add: hex_EncodeToString_def)
next
  case (Cons v a)
  have e: "hex_EncodeToString (v # a)
            = hex_char (unat v div 16) # hex_char (unat v mod 16) # hex_EncodeToString a"
    by (simp add: hex_EncodeToString_def)
  show ?case
    unfolding e using Cons
    by (simp add: spec_hex_digit_hex_char unat_byte_div16 byte_div_mod)
qed

lemma digest_bytes_all: "digest_bytes h = digest_prefix 32 h"
  by (simp only: digest_bytes_def digest_byte digest_prefix_def)

text \<open>
  Claim C9. For every guest id and user agent, when the random source delivers the nonce,
  \<open>GenerateXPFF\<close> returns a string of lower-case hexadecimal digits that reads, two digits
  for a byte, as the 12-byte nonce followed by the sealed payload; the key of the seal is
  the 32 bytes of the SHA-256 digest of the base-key literal, as ASCII, followed by the
  guest id, and the plaintext is the compact JSON of the navigator properties. The first
  24 characters read as the nonce, and are all \<^verbatim>\<open>0\<close> when the nonce is twelve zero bytes.
\<close>

theorem xpff_is_hex_of_nonce_and_sealed_payload:
  fixes rnd :: "nat \<Rightarrow> byte" and sha :: "byte list \<Rightarrow> 256 word" and guest_id userAgent :: string
    and json_string :: "string \<Rightarrow> string" and nowMilli :: int
    and Seal :: "byte list \<Rightarrow> byte list \<Rightarrow> byte list \<Rightarrow> byte list"
  defines "nonce \<equiv> map rnd [0..<12]"
    and "k \<equiv> digest_prefix 32 (sha (map of_char (''0e6be1f1e21ffc33590b888fd4dc81b19713e570e805d4e5df80a493c9571a05'' @ guest_id)))"
    and \<open>plaintext \<equiv> map of_char (''{"navigator_properties":{"hasBeenActive":"true","userAgent":'' @ json_string userAgent
                           @ '',"webdriver":"false"},"created_at":'' @ Itoa nowMilli @ ''}'')\<close>
  shows "\<exists>out. GenerateXPFF sha json_string Seal nowMilli (Inr rnd) guest_id userAgent = Inr out
           \<and> spec_hex_decode out = Some (nonce @ Seal k nonce plaintext)
           \<and> list_all (\<lambda>c. c \<in> set ''0123456789abcdef'') out
           \<and> length nonce = 12 \<and> length k = 32
           \<and> length out = 2 * (12 + length (Seal k nonce plaintext))
           \<and> spec_hex_decode (take 24 out) = Some nonce
           \<and> ((\<forall>i<12. rnd i = 0) \<longrightarrow> take 24 out = replicate 24 (CHR ''0''))"
proof -
  let ?out = "hex_EncodeToString (nonce @ Seal k nonce plaintext)"
  have ln: "length nonce = 12" by (simp add: nonce_def)
  have lk: "length k = 32" by (simp add: k_def digest_prefix_def)
  have g: "GenerateXPFF sha json_string Seal nowMilli (Inr rnd) guest_id userAgent = Inr ?out"
    using lk
    by (simp add: GenerateXPFF_def generateEncryptionKey_def encryptAESGCM_def aes_NewCipher_def
          gcm_NonceSize_def Let_def nonce_def k_def plaintext_def digest_bytes_all baseKey_def
          marshal_payload_def)
  have d: "spec_hex_decode ?out = Some (nonce @ Seal k nonce plaintext)"
    by (rule spec_hex_decode_encode)
  have lo: "list_all (\<lambda>c. c \<in> set ''0123456789abcdef'') ?out" by (rule hex_lower)
  have l: "length ?out = 2 * (12 + length (Seal k nonce plaintext))"
    by (simp add: length_hex ln)
  have t: "take 24 ?out = hex_EncodeToString nonce"
    by (simp add: hex_append length_hex ln)
  have dn: "spec_hex_decode (take 24 ?out) = Some nonce"
    unfolding t by (rule spec_hex_decode_encode)
  have z: "(\<forall>i<12. rnd i = 0) \<longrightarrow> take 24 ?out = replicate 24 (CHR ''0'')"
  proof
    assume "\<forall>i<12. rnd i = 0"
    then have "\<forall>v\<in>set nonce. v = 0" by (auto simp: nonce_def)
    then show "take 24 ?out = replicate 24 (CHR ''0'')"
      unfolding t using hex_zeros[of nonce] by (simp add: ln)
  qed
  show ?thesis by (rule exI[of _ ?out]) (intro conjI g d lo ln lk l dn z)
qed

theorem xpff_is_hex_of_nonce_and_sealed_payload_witness:
  \<open>list_all (\<lambda>i. (\<lambda>i. 0 :: byte) i = 0) [0..<12]
   \<and> (\<exists>out. GenerateXPFF (\<lambda>m. 0) (\<lambda>s. ''"'' @ s @ ''"'') (\<lambda>k nonce plaintext. plaintext @ replicate 16 0)
                1700000000000 (Inr (\<lambda>i. 0)) ''v1%3A1700000000000'' ''UA/1.0'' = Inr out
           \<and> spec_hex_decode out = Some (replicate 12 0 @ map of_char ''{"navigator_properties":{"hasBeenActive":"true","userAgent":"UA/1.0","webdriver":"false"},"created_at":1700000000000}'' @ replicate 16 0)
           \<and> length out = 2 * (12 + (length ''{"navigator_properties":{"hasBeenActive":"true","userAgent":"UA/1.0","webdriver":"false"},"created_at":1700000000000}'' + 16))
           \<and> list_all (\<lambda>c. c \<in> set ''0123456789abcdef'') out
           \<and> take 24 out = ''000000000000000000000000'')\<close>
proof -
  have n: "map (\<lambda>i. 0 :: byte) [0..<12] = replicate 12 0" by (simp add: map_replicate_const)
  have i: "Itoa 1700000000000 = ''1700000000000''"
    by (simp add: Itoa_def natToString.simps digit_char_def)
  have m: \<open>''{"navigator_properties":{"hasBeenActive":"true","userAgent":'' @ (\<lambda>s. ''"'' @ s @ ''"'') ''UA/1.0'' @ '',"webdriver":"false"},"created_at":'' @ Itoa 1700000000000 @ ''}'' = ''{"navigator_properties":{"hasBeenActive":"true","userAgent":"UA/1.0","webdriver":"false"},"created_at":1700000000000}''\<close>
    by (simp add: i)
  have r: "replicate 24 (CHR ''0'') = ''000000000000000000000000''" by (simp add: numeral_eq_Suc)
  have z: "\<forall>i<12::nat. (\<lambda>i. 0 :: byte) i = 0" by simp
  from xpff_is_hex_of_nonce_and_sealed_payload [where sha = "\<lambda>m. 0"
        and json_string = \<open>(\<lambda>s. ''"'' @ s @ ''"'')\<close>
        and Seal = "\<lambda>k nonce plaintext. plaintext @ replicate 16 0" and nowMilli = 1700000000000
        and rnd = "\<lambda>i. 0" and guest_id = "''v1%3A1700000000000''" and userAgent = "''UA/1.0''"]
  obtain out where
    a: \<open>GenerateXPFF (\<lambda>m. 0) (\<lambda>s. ''"'' @ s @ ''"'') (\<lambda>k nonce plaintext. plaintext @ replicate 16 0)
                1700000000000 (Inr (\<lambda>i. 0)) ''v1%3A1700000000000'' ''UA/1.0'' = Inr out\<close>
    and b: \<open>spec_hex_decode out = Some (map (\<lambda>i. 0) [0..<12]
              @ map of_char (''{"navigator_properties":{"hasBeenActive":"true","userAgent":'' @ (\<lambda>s. ''"'' @ s @ ''"'') ''UA/1.0'' @ '',"webdriver":"false"},"created_at":'' @ Itoa 1700000000000 @ ''}'') @ replicate 16 0)\<close>
    and c: \<open>length out = 2 * (12 + length (map of_char (''{"navigator_properties":{"hasBeenActive":"true","userAgent":'' @ (\<lambda>s. ''"'' @ s @ ''"'') ''UA/1.0'' @ '',"webdriver":"false"},"created_at":'' @ Itoa 1700000000000 @ ''}'')
              @ replicate 16 (0 :: byte)))\<close>
    and d: "list_all (\<lambda>c. c \<in> set ''0123456789abcdef'') out"
    and e: "(\<forall>i<12::nat. (\<lambda>i. 0 :: byte) i = 0) \<longrightarrow> take 24 out = replicate 24 (CHR ''0'')"
    by blast
  from e z have e': "take 24 out = ''000000000000000000000000''" unfolding r by blast
  have b': \<open>spec_hex_decode out = Some (replicate 12 0 @ map of_char ''{"navigator_properties":{"hasBeenActive":"true","userAgent":"UA/1.0","webdriver":"false"},"created_at":1700000000000}'' @ replicate 16 0)\<close>
    using b unfolding n m .
  have c': \<open>length out = 2 * (12 + (length ''{"navigator_properties":{"hasBeenActive":"true","userAgent":"UA/1.0","webdriver":"false"},"created_at":1700000000000}'' + 16))\<close>
    using c unfolding m by simp
  have x: \<open>\<exists>out. GenerateXPFF (\<lambda>m. 0) (\<lambda>s. ''"'' @ s @ ''"'') (\<lambda>k nonce plaintext. plaintext @ replicate 16 0)
                1700000000000 (Inr (\<lambda>i. 0)) ''v1%3A1700000000000'' ''UA/1.0'' = Inr out
           \<and> spec_hex_decode out = Some (replicate 12 0 @ map of_char ''{"navigator_properties":{"hasBeenActive":"true","userAgent":"UA/1.0","webdriver":"false"},"created_at":1700000000000}'' @ replicate 16 0)
           \<and> length out = 2 * (12 + (length ''{"navigator_properties":{"hasBeenActive":"true","userAgent":"UA/1.0","webdriver":"false"},"created_at":1700000000000}'' + 16))
           \<and> list_all (\<lambda>c. c \<in> set ''0123456789abcdef'') out
           \<and> take 24 out = ''000000000000000000000000''\<close>
    by (rule exI[of _ out]) (intro conjI a b' c' d e')
  have y: "list_all (\<lambda>i. (\<lambda>i. 0 :: byte) i = 0) [0..<12]" by (simp add: list_all_iff)
  from y x show ?thesis by (rule conjI)
qed
section \<open>The attempts of \<open>executeWithRetry\<close>\<close>

lemma retry_loop_inv:
  "retry_loop px env m a le cs c = Returns (ex, c', calls) \<Longrightarrow>
     \<exists>new. calls = cs @ new
       \<and> int (length new) \<le> max 0 (m + 1 - a)
       \<and> (a \<le> m \<longrightarrow> new \<noteq> [])
       \<and> (case ex of
             Succeeded u \<Rightarrow> new \<noteq> [] \<and> last new = Inr u
           | Cancelled e \<Rightarrow> new \<noteq> [] \<and> int (length new) < m + 1 - a
           | LoopLeft l \<Rightarrow> (if new = [] then l = le else \<exists>e. l = Some e \<and> last new = Inl e))"
proof (induction px env m a le cs c arbitrary: ex c' calls rule: retry_loop.induct)
  case (1 px env m a le cs c)
  note IH1 = "1.IH"(1) and IH2 = "1.IH"(2) and run = "1.prems"
  show ?case
  proof (cases "a \<le> m")
    case False
    then have "ex = LoopLeft le" "calls = cs"
      using run by (simp_all add: retry_loop.simps)
    then show ?thesis using False by simp
  next
    case True
    show ?thesis
    proof (cases "operation env (nat a) c")
      case Panics
      then show ?thesis using run True by (simp add: retry_loop.simps)
    next
      case Diverges
      then show ?thesis using run True by (simp add: retry_loop.simps)
    next
      case (Returns rc)
      obtain r c1 where rc: "rc = (r, c1)" by (cases rc)
      show ?thesis
      proof (cases r)
        case (Inr u)
        then have "ex = Succeeded u" "calls = cs @ [Inr u]"
          using run True Returns rc by (simp_all add: retry_loop.simps)
        then show ?thesis using True by simp
      next
        case (Inl err)
        define c2 where "c2 = recordError c1"
        define cs2 where "cs2 = cs @ [Inl err :: error + 'a]"
        show ?thesis
        proof (cases "a \<ge> m \<or> ctx_Err env (nat a) \<noteq> None")
          case stop: True
          then have "ex = LoopLeft (Some err)" "calls = cs @ [Inl err]"
            using run True Returns rc Inl by (simp_all add: retry_loop.simps Let_def)
          then show ?thesis using True by simp
        next
          case go: False
          then have lt: "a < m" by simp
          show ?thesis
          proof (cases "timer_first env (nat a) (backoffDuration (clientConfig c2) a)")
            case nofire: False
            then have "ex = Cancelled (ctx_Done_Err env (nat a))" "calls = cs @ [Inl err]"
              using run True Returns rc Inl go
              by (simp_all add: retry_loop.simps Let_def c2_def)
            then show ?thesis using lt by simp
          next
            case fire: True
            have "\<exists>c3. retry_loop px env m (a + 1) (Some err) cs2 c3 = Returns (ex, c', calls)
                     \<and> (\<exists>new. calls = cs2 @ new
                           \<and> int (length new) \<le> max 0 (m + 1 - (a + 1))
                           \<and> (a + 1 \<le> m \<longrightarrow> new \<noteq> [])
                           \<and> (case ex of
                                 Succeeded u \<Rightarrow> new \<noteq> [] \<and> last new = Inr u
                               | Cancelled e \<Rightarrow> new \<noteq> [] \<and> int (length new) < m + 1 - (a + 1)
                               | LoopLeft l \<Rightarrow> (if new = [] then l = Some err
                                                else \<exists>e. l = Some e \<and> last new = Inl e)))"
            proof (cases "shouldRefreshDueToErrors c2")
              case sr: True
              show ?thesis
              proof (cases "ForceRefreshTransactionID px (refresh_world env (nat a)) (txnGen c2)")
                case Panics
                then show ?thesis using run True Returns rc Inl go fire sr
                  by (simp add: retry_loop.simps[of px env m a] Let_def c2_def)
              next
                case Diverges
                then show ?thesis using run True Returns rc Inl go fire sr
                  by (simp add: retry_loop.simps[of px env m a] Let_def c2_def)
              next
                case fr: (Returns rt)
                obtain rr tg where rt: "rt = (rr, tg)" by (cases rt)
                have e: "retry_loop px env m (a + 1) (Some err) cs2 (c2\<lparr>txnGen := tg\<rparr>)
                         = Returns (ex, c', calls)"
                  using run True Returns rc Inl go fire sr fr rt
                  by (simp add: retry_loop.simps[of px env m a] Let_def c2_def cs2_def)
                from IH1[OF True Returns rc[symmetric] Inl refl c2_def cs2_def go fire sr fr rt[symmetric] e]
                show ?thesis using e by blast
              qed
            next
              case nsr: False
              have e: "retry_loop px env m (a + 1) (Some err) cs2 c2 = Returns (ex, c', calls)"
                using run True Returns rc Inl go fire nsr
                by (simp add: retry_loop.simps[of px env m a] Let_def c2_def cs2_def)
              from IH2[OF True Returns rc[symmetric] Inl refl c2_def cs2_def go fire nsr e]
              show ?thesis using e by blast
            qed
            then obtain new where n: "calls = cs2 @ new"
              "int (length new) \<le> max 0 (m + 1 - (a + 1))" "a + 1 \<le> m \<longrightarrow> new \<noteq> []"
              "(case ex of
                   Succeeded u \<Rightarrow> new \<noteq> [] \<and> last new = Inr u
                 | Cancelled e \<Rightarrow> new \<noteq> [] \<and> int (length new) < m + 1 - (a + 1)
                 | LoopLeft l \<Rightarrow> (if new = [] then l = Some err
                                  else \<exists>e. l = Some e \<and> last new = Inl e))"
              by blast
            have ne: "new \<noteq> []" using n(3) lt by simp
            have "calls = cs @ (Inl err # new)" using n(1) by (simp add: cs2_def)
            moreover have "int (length (Inl err # new)) \<le> max 0 (m + 1 - a)" using n(2) lt by simp
            moreover have "(case ex of
                   Succeeded u \<Rightarrow> (Inl err # new) \<noteq> [] \<and> last (Inl err # new) = Inr u
                 | Cancelled e \<Rightarrow> (Inl err # new) \<noteq> [] \<and> int (length (Inl err # new)) < m + 1 - a
                 | LoopLeft l \<Rightarrow> (if (Inl err # new) = [] then l = le
                                  else \<exists>e. l = Some e \<and> last (Inl err # new) = Inl e))"
              using n(4) ne by (cases ex) auto
            ultimately show ?thesis by blast
          qed
        qed
      qed
    qed
  qed
qed

lemma wrap64_in_range: "- (2 ^ 63) \<le> x \<Longrightarrow> x < 2 ^ 63 \<Longrightarrow> wrap64 x = x"
  by (simp add: wrap64_def)

lemma force_broken_returns:
  "\<exists>r tg'. ForceRefreshTransactionID px (broken_world t) tg = Returns (r, tg')"
  by (simp add: ForceRefreshTransactionID_def ForceRefresh_def Refresh_def fetchTwitterData_def
        broken_world_def Let_def)

lemma Itoa_small: "Itoa 1 = ''1''" "Itoa 2 = ''2''" "Itoa 3 = ''3''"
  by (simp_all add: Itoa_def natToString.simps digit_char_def)

lemma failing_last:
  "\<exists>c'. retry_loop px failing_env 3 3 le cs c
         = Returns (LoopLeft (Some (New ''API error: 500 at attempt 3'')), c',
                    cs @ [Inl (New ''API error: 500 at attempt 3'')])"
  by (simp add: retry_loop.simps failing_env_def Let_def Itoa_small)

lemma failing_step:
  assumes "a < 3" "0 < a"
    and nxt: "\<And>le cs c. \<exists>c'. retry_loop px failing_env 3 (a + 1) le cs c = Returns (ex, c', cs @ rest)"
  shows "\<exists>c'. retry_loop px failing_env 3 a le cs c
           = Returns (ex, c', cs @ Inl (New (''API error: 500 at attempt '' @ Itoa a)) # rest)"
proof -
  let ?e = "New (''API error: 500 at attempt '' @ Itoa a)"
  let ?c2 = "recordError c"
  have op: "operation failing_env (nat a) c = Returns (Inl ?e, c)"
    using assms(2) by (simp add: failing_env_def)
  show ?thesis
  proof (cases "shouldRefreshDueToErrors ?c2")
    case True
    obtain r tg' where f: "ForceRefreshTransactionID px (broken_world 5000) (txnGen ?c2) = Returns (r, tg')"
      using force_broken_returns by blast
    from nxt[of "Some ?e" "cs @ [Inl ?e]" "?c2\<lparr>txnGen := tg'\<rparr>"]
    obtain c' where "retry_loop px failing_env 3 (a + 1) (Some ?e) (cs @ [Inl ?e]) (?c2\<lparr>txnGen := tg'\<rparr>)
                     = Returns (ex, c', (cs @ [Inl ?e]) @ rest)" by blast
    then have "retry_loop px failing_env 3 a le cs c = Returns (ex, c', cs @ Inl ?e # rest)"
      using assms(1) op True f
      by (subst retry_loop.simps) (simp add: Let_def failing_env_def)
    then show ?thesis by blast
  next
    case False
    from nxt[of "Some ?e" "cs @ [Inl ?e]" ?c2]
    obtain c' where "retry_loop px failing_env 3 (a + 1) (Some ?e) (cs @ [Inl ?e]) ?c2
                     = Returns (ex, c', (cs @ [Inl ?e]) @ rest)" by blast
    then have "retry_loop px failing_env 3 a le cs c = Returns (ex, c', cs @ Inl ?e # rest)"
      using assms(1) op False
      by (subst retry_loop.simps) (simp add: Let_def failing_env_def)
    then show ?thesis by blast
  qed
qed

lemma failing_run:
  "\<exists>c'. executeWithRetry px failing_env fixture_client
         = Returns (Inl (Errorf ''request failed after 3 attempts'' (New ''API error: 500 at attempt 3'')),
                    c',
                    [Inl (New ''API error: 500 at attempt 1''), Inl (New ''API error: 500 at attempt 2''),
                     Inl (New ''API error: 500 at attempt 3'')])"
proof -
  have s2: "\<And>le cs c. \<exists>c'. retry_loop px failing_env 3 (1 + 1) le cs c
              = Returns (LoopLeft (Some (New ''API error: 500 at attempt 3'')), c',
                  cs @ [Inl (New ''API error: 500 at attempt 2''), Inl (New ''API error: 500 at attempt 3'')])"
    using failing_step[of 2 px "LoopLeft (Some (New ''API error: 500 at attempt 3''))"
        "[Inl (New ''API error: 500 at attempt 3'')]"] failing_last[of px]
    by (simp add: Itoa_small)
  have s1: "\<And>le cs c. \<exists>c'. retry_loop px failing_env 3 1 le cs c
              = Returns (LoopLeft (Some (New ''API error: 500 at attempt 3'')), c',
                  cs @ [Inl (New ''API error: 500 at attempt 1''), Inl (New ''API error: 500 at attempt 2''),
                        Inl (New ''API error: 500 at attempt 3'')])"
    using failing_step[of 1 px "LoopLeft (Some (New ''API error: 500 at attempt 3''))"
        "[Inl (New ''API error: 500 at attempt 2''), Inl (New ''API error: 500 at attempt 3'')]", OF _ _ s2]
    by (simp add: Itoa_small)
  have m: "(if retryEnabled (fixture_client\<lparr>totalRequests := totalRequests fixture_client + 1\<rparr>)
            then wrap64 (MaxRetryAttempts (clientConfig (fixture_client\<lparr>totalRequests := totalRequests fixture_client + 1\<rparr>)) + 1)
            else 1) = 3"
    by (simp add: fixture_client_def DevelopmentConfig_def wrap64_def)
  from s1[of None "[]" "fixture_client\<lparr>totalRequests := totalRequests fixture_client + 1\<rparr>"]
  obtain c' where "retry_loop px failing_env 3 1 None [] (fixture_client\<lparr>totalRequests := totalRequests fixture_client + 1\<rparr>)
              = Returns (LoopLeft (Some (New ''API error: 500 at attempt 3'')), c',
                  [Inl (New ''API error: 500 at attempt 1''), Inl (New ''API error: 500 at attempt 2''),
                        Inl (New ''API error: 500 at attempt 3'')])" by auto
  then show ?thesis
    unfolding executeWithRetry_def Let_def m by (simp add: Itoa_small)
qed

lemma retry_disabled_once:
  assumes "\<not> retryEnabled c"
    and "operation env 1 (c\<lparr>totalRequests := totalRequests c + 1\<rparr>) = Returns (r, c1)"
  shows "\<exists>c'. executeWithRetry px env c =
           Returns ((case r of Inl e \<Rightarrow> Inl (Errorf ''request failed after 1 attempts'' e)
                             | Inr u \<Rightarrow> Inr u), c', [r])"
proof (cases r)
  case (Inl e)
  then show ?thesis using assms
    by (simp add: executeWithRetry_def retry_loop.simps Let_def Itoa_small)
next
  case (Inr u)
  then show ?thesis using assms
    by (simp add: executeWithRetry_def retry_loop.simps Let_def)
qed

lemma executeWithRetry_loop:
  assumes "executeWithRetry px env c = Returns (res, c', calls)"
    and "m = (if retryEnabled c then wrap64 (MaxRetryAttempts (clientConfig c) + 1) else 1)"
  shows "\<exists>ex c''.
    retry_loop px env m 1 None [] (c\<lparr>totalRequests := totalRequests c + 1\<rparr>) = Returns (ex, c'', calls)
    \<and> res = (case ex of
                  Succeeded result \<Rightarrow> Inr result
                | Cancelled err \<Rightarrow> Inl err
                | LoopLeft lastError \<Rightarrow>
                    (case lastError of
                       Some err \<Rightarrow> Inl (Errorf (''request failed after '' @ Itoa m @ '' attempts'') err)
                     | None \<Rightarrow> Inl (New (''request failed after '' @ Itoa m @ '' attempts: %!w(<nil>)''))))"
proof -
  let ?c0 = "c\<lparr>totalRequests := totalRequests c + 1\<rparr>"
  have m': "(if retryEnabled ?c0 then wrap64 (MaxRetryAttempts (clientConfig ?c0) + 1) else 1) = m"
    using assms(2) by simp
  from assms(1) obtain x where l: "retry_loop px env m 1 None [] ?c0 = Returns x"
    and f: "(case x of (exit, c, calls) \<Rightarrow>
           (let c = updateLatencyMetrics (elapsed env) c
            in case exit of
                 Succeeded result \<Rightarrow> Returns (Inr result, c, calls)
               | Cancelled err \<Rightarrow> Returns (Inl err, c, calls)
               | LoopLeft lastError \<Rightarrow>
                   (case lastError of
                      Some err \<Rightarrow>
                        Returns (Inl (Errorf (''request failed after '' @ Itoa m @ '' attempts'') err),
                                 c, calls)
                    | None \<Rightarrow>
                        Returns (Inl (New (''request failed after '' @ Itoa m
                                            @ '' attempts: %!w(<nil>)'')),
                                 c, calls)))) = Returns (res, c', calls)"
    unfolding executeWithRetry_def Let_def m' bind_Returns by blast
  obtain ex c'' cs where x: "x = (ex, c'', cs)" by (cases x)
  show ?thesis
  proof (cases ex)
    case (Succeeded u)
    then show ?thesis using l f x by (simp add: Let_def)
  next
    case (Cancelled e)
    then show ?thesis using l f x by (simp add: Let_def)
  next
    case (LoopLeft le)
    then show ?thesis using l f x by (cases le) (simp_all add: Let_def)
  qed
qed

lemma retry_enabled_bound:
  assumes en: "retryEnabled c"
    and lo: "0 \<le> MaxRetryAttempts (clientConfig c)"
    and hi: "MaxRetryAttempts (clientConfig c) < 2 ^ 63 - 1"
    and run: "executeWithRetry px env c = Returns (res, c', calls)"
  shows "1 \<le> length calls"
    and "int (length calls) \<le> MaxRetryAttempts (clientConfig c) + 1"
    and "int (length calls) = MaxRetryAttempts (clientConfig c) + 1 \<Longrightarrow> last calls = Inl e \<Longrightarrow>
         res = Inl (Errorf (''request failed after '' @ Itoa (int (length calls)) @ '' attempts'') e)"
proof -
  let ?m = "MaxRetryAttempts (clientConfig c) + 1"
  have w: "wrap64 ?m = ?m" using lo hi by (intro wrap64_in_range) simp_all
  have "?m = (if retryEnabled c then wrap64 (MaxRetryAttempts (clientConfig c) + 1) else 1)"
    using en w by simp
  from executeWithRetry_loop[OF run this] obtain ex c'' where
    l: "retry_loop px env ?m 1 None [] (c\<lparr>totalRequests := totalRequests c + 1\<rparr>) = Returns (ex, c'', calls)"
    and r: "res = (case ex of
                  Succeeded result \<Rightarrow> Inr result
                | Cancelled err \<Rightarrow> Inl err
                | LoopLeft lastError \<Rightarrow>
                    (case lastError of
                       Some err \<Rightarrow> Inl (Errorf (''request failed after '' @ Itoa ?m @ '' attempts'') err)
                     | None \<Rightarrow> Inl (New (''request failed after '' @ Itoa ?m @ '' attempts: %!w(<nil>)''))))"
    by blast
  from retry_loop_inv[OF l] have
    b: "int (length calls) \<le> max 0 (?m + 1 - 1)" and n: "1 \<le> ?m \<longrightarrow> calls \<noteq> []"
    and x: "(case ex of
               Succeeded u \<Rightarrow> calls \<noteq> [] \<and> last calls = Inr u
             | Cancelled e \<Rightarrow> calls \<noteq> [] \<and> int (length calls) < ?m + 1 - 1
             | LoopLeft l \<Rightarrow> (if calls = [] then l = None else \<exists>e. l = Some e \<and> last calls = Inl e))"
    by auto
  from n lo have ne: "calls \<noteq> []" by simp
  then show "1 \<le> length calls" by (cases calls) simp_all
  show "int (length calls) \<le> ?m" using b lo by simp
  assume full: "int (length calls) = ?m" and last: "last calls = Inl e"
  show "res = Inl (Errorf (''request failed after '' @ Itoa (int (length calls)) @ '' attempts'') e)"
  proof (cases ex)
    case (Succeeded u)
    then show ?thesis using x last by simp
  next
    case (Cancelled e')
    then show ?thesis using x full by simp
  next
    case (LoopLeft l)
    then obtain e' where "l = Some e'" "last calls = Inl e'" using x ne by auto
    then show ?thesis using r LoopLeft last full by simp
  qed
qed

text \<open>
  Claim C8. With retry disabled, \<open>executeWithRetry\<close> calls the operation exactly once and,
  when that call fails, returns its error wrapped; with retry enabled and a retry count
  \<open>max_retries \<ge> 0\<close>, it calls the operation at least once and at most \<open>max_retries + 1\<close>
  times, and when all \<open>max_retries + 1\<close> calls have been made and the last one failed, the
  returned error wraps the error of that last call under a message naming the number of
  attempts.
\<close>

theorem executeWithRetry_attempts:
  "(\<not> retryEnabled c \<and> operation env 1 (c\<lparr>totalRequests := totalRequests c + 1\<rparr>) = Returns (r, c1)
      \<longrightarrow> (\<exists>c'. executeWithRetry px env c =
                   Returns ((case r of Inl e \<Rightarrow> Inl (Errorf ''request failed after 1 attempts'' e)
                                     | Inr u \<Rightarrow> Inr u), c', [r])))
   \<and> (retryEnabled c \<and> 0 \<le> MaxRetryAttempts (clientConfig c)
        \<and> MaxRetryAttempts (clientConfig c) < 2 ^ 63 - 1
        \<and> executeWithRetry px env c = Returns (res, c2, calls)
      \<longrightarrow> 1 \<le> length calls
          \<and> int (length calls) \<le> MaxRetryAttempts (clientConfig c) + 1
          \<and> (int (length calls) = MaxRetryAttempts (clientConfig c) + 1 \<and> last calls = Inl e
               \<longrightarrow> res = Inl (Errorf (''request failed after '' @ Itoa (int (length calls))
                                          @ '' attempts'') e)
                   \<and> Unwrap (Errorf (''request failed after '' @ Itoa (int (length calls))
                                          @ '' attempts'') e) = Some e))"
proof (intro conjI impI)
  assume "\<not> retryEnabled c \<and> operation env 1 (c\<lparr>totalRequests := totalRequests c + 1\<rparr>) = Returns (r, c1)"
  then show "\<exists>c'. executeWithRetry px env c =
                   Returns ((case r of Inl e \<Rightarrow> Inl (Errorf ''request failed after 1 attempts'' e)
                                     | Inr u \<Rightarrow> Inr u), c', [r])"
    using retry_disabled_once[of c env r c1 px] by simp
next
  assume h: "retryEnabled c \<and> 0 \<le> MaxRetryAttempts (clientConfig c)
        \<and> MaxRetryAttempts (clientConfig c) < 2 ^ 63 - 1
        \<and> executeWithRetry px env c = Returns (res, c2, calls)"
  then show "1 \<le> length calls" using retry_enabled_bound(1)[of c px env res c2 calls] by simp
  from h show "int (length calls) \<le> MaxRetryAttempts (clientConfig c) + 1"
    using retry_enabled_bound(2)[of c px env res c2 calls] by simp
  assume "int (length calls) = MaxRetryAttempts (clientConfig c) + 1 \<and> last calls = Inl e"
  with h show "res = Inl (Errorf (''request failed after '' @ Itoa (int (length calls)) @ '' attempts'') e)"
    using retry_enabled_bound(3)[of c px env res c2 calls e] by simp
  show "Unwrap (Errorf (''request failed after '' @ Itoa (int (length calls)) @ '' attempts'') e) = Some e"
    by simp
qed

theorem executeWithRetry_attempts_witness:
  "retryEnabled fixture_client
   \<and> MaxRetryAttempts (clientConfig fixture_client) = 2
   \<and> (\<exists>c'. executeWithRetry fixture_parsers failing_env fixture_client
         = Returns (Inl (Errorf ''request failed after 3 attempts'' (New ''API error: 500 at attempt 3'')),
                    c',
                    [Inl (New ''API error: 500 at attempt 1''), Inl (New ''API error: 500 at attempt 2''),
                     Inl (New ''API error: 500 at attempt 3'')]))
   \<and> Unwrap (Errorf ''request failed after 3 attempts'' (New ''API error: 500 at attempt 3''))
       = Some (New ''API error: 500 at attempt 3'')
   \<and> (\<exists>c'. executeWithRetry fixture_parsers failing_env (fixture_client\<lparr>retryEnabled := False\<rparr>)
         = Returns (Inl (Errorf ''request failed after 1 attempts'' (New ''API error: 500 at attempt 1'')),
                    c', [Inl (New ''API error: 500 at attempt 1'')]))"
proof -
  have en: "retryEnabled fixture_client" and mx: "MaxRetryAttempts (clientConfig fixture_client) = 2"
    by (simp_all add: fixture_client_def DevelopmentConfig_def)
  obtain c' where run: "executeWithRetry fixture_parsers failing_env fixture_client
         = Returns (Inl (Errorf ''request failed after 3 attempts'' (New ''API error: 500 at attempt 3'')),
                    c',
                    [Inl (New ''API error: 500 at attempt 1''), Inl (New ''API error: 500 at attempt 2''),
                     Inl (New ''API error: 500 at attempt 3'')])"
    using failing_run by blast
  have op: "operation failing_env 1
              ((fixture_client\<lparr>retryEnabled := False\<rparr>)\<lparr>totalRequests :=
                  totalRequests (fixture_client\<lparr>retryEnabled := False\<rparr>) + 1\<rparr>)
            = Returns (Inl (New ''API error: 500 at attempt 1''),
                (fixture_client\<lparr>retryEnabled := False\<rparr>)\<lparr>totalRequests :=
                  totalRequests (fixture_client\<lparr>retryEnabled := False\<rparr>) + 1\<rparr>)"
    by (simp add: failing_env_def Itoa_small)
  note th = executeWithRetry_attempts
  from th[of "fixture_client\<lparr>retryEnabled := False\<rparr>" failing_env
             "Inl (New ''API error: 500 at attempt 1'')" _ fixture_parsers] op
  have once: "\<exists>c'. executeWithRetry fixture_parsers failing_env (fixture_client\<lparr>retryEnabled := False\<rparr>)
         = Returns (Inl (Errorf ''request failed after 1 attempts'' (New ''API error: 500 at attempt 1'')),
                    c', [Inl (New ''API error: 500 at attempt 1'')])"
    by simp
  have lo: "0 \<le> MaxRetryAttempts (clientConfig fixture_client)"
    and hi: "MaxRetryAttempts (clientConfig fixture_client) < 2 ^ 63 - 1"
    using mx by simp_all
  let ?calls = "[Inl (New ''API error: 500 at attempt 1''), Inl (New ''API error: 500 at attempt 2''),
                 Inl (New ''API error: 500 at attempt 3'') :: error + unit]"
  have full: "int (length ?calls) = MaxRetryAttempts (clientConfig fixture_client) + 1
               \<and> last ?calls = Inl (New ''API error: 500 at attempt 3'')"
    using mx by simp
  from th[where c = fixture_client and env = failing_env and px = fixture_parsers
            and calls = ?calls and e = "New ''API error: 500 at attempt 3''"] en lo hi run full
  have "Unwrap (Errorf (''request failed after '' @ Itoa (int (length ?calls)) @ '' attempts'')
                  (New ''API error: 500 at attempt 3'')) = Some (New ''API error: 500 at attempt 3'')"
    by blast
  then have uw: "Unwrap (Errorf ''request failed after 3 attempts'' (New ''API error: 500 at attempt 3''))
       = Some (New ''API error: 500 at attempt 3'')"
    by (simp add: Itoa_small)
  from run have run': "\<exists>c'. executeWithRetry fixture_parsers failing_env fixture_client
         = Returns (Inl (Errorf ''request failed after 3 attempts'' (New ''API error: 500 at attempt 3'')),
                    c', ?calls)" by blast
  from en mx run' uw once show ?thesis by (intro conjI)
qed

end
